theory Spec2Isabelle
  imports Complex_Main
begin

section \<open>JavaScript string primitives used by the resolver\<close>

text \<open>
  The resolver of \<^verbatim>\<open>lib/internal/modules/esm/resolve.js\<close> works on JavaScript strings
  through the primordials \<^verbatim>\<open>StringPrototypeIndexOf\<close>, \<^verbatim>\<open>StringPrototypeSlice\<close> and
  friends. A string is modelled as a list of characters, one character for each code
  unit, and each primordial as a total function with the result JavaScript gives:
  \<^verbatim>\<open>indexOf\<close> returns \<open>-1\<close> when nothing is found, \<^verbatim>\<open>slice\<close> counts a negative
  index from the end and clamps both indices to the string.
  The search argument of \<^verbatim>\<open>indexOf\<close>, \<^verbatim>\<open>lastIndexOf\<close> and \<^verbatim>\<open>includes\<close> is a single
  character at every call of the source.
\<close>

fun index_from :: "char \<Rightarrow> string \<Rightarrow> int \<Rightarrow> int" where
  "index_from c [] i = - 1"
| "index_from c (x # xs) i = (if x = c then i else index_from c xs (i + 1))"

definition StringPrototypeIndexOf :: "string \<Rightarrow> char \<Rightarrow> int" where
  "StringPrototypeIndexOf s c = index_from c s 0"

definition StringPrototypeIndexOfFrom :: "string \<Rightarrow> char \<Rightarrow> int \<Rightarrow> int" where
  "StringPrototypeIndexOfFrom s c pos =
     (let p = max 0 (min pos (int (length s))) in index_from c (drop (nat p) s) p)"

fun last_index_from :: "char \<Rightarrow> string \<Rightarrow> int \<Rightarrow> int \<Rightarrow> int" where
  "last_index_from c [] i found = found"
| "last_index_from c (x # xs) i found =
     last_index_from c xs (i + 1) (if x = c then i else found)"

definition StringPrototypeLastIndexOf :: "string \<Rightarrow> char \<Rightarrow> int" where
  "StringPrototypeLastIndexOf s c = last_index_from c s 0 (- 1)"

definition StringPrototypeIncludes :: "string \<Rightarrow> char \<Rightarrow> bool" where
  "StringPrototypeIncludes s c = (StringPrototypeIndexOf s c \<noteq> - 1)"

definition StringPrototypeStartsWith :: "string \<Rightarrow> string \<Rightarrow> bool" where
  "StringPrototypeStartsWith s p = (take (length p) s = p)"

definition StringPrototypeEndsWith :: "string \<Rightarrow> string \<Rightarrow> bool" where
  "StringPrototypeEndsWith s p =
     (length p \<le> length s \<and> drop (length s - length p) s = p)"

definition StringPrototypeSlice :: "string \<Rightarrow> int \<Rightarrow> int \<Rightarrow> string" where
  "StringPrototypeSlice s start end =
     (let len = int (length s);
          from = (if start < 0 then max (len + start) 0 else min start len);
          to = (if end < 0 then max (len + end) 0 else min end len)
      in take (nat (to - from)) (drop (nat from) s))"

definition StringPrototypeSliceFrom :: "string \<Rightarrow> int \<Rightarrow> string" where
  "StringPrototypeSliceFrom s start = StringPrototypeSlice s start (int (length s))"

section \<open>The pattern matcher\<close>

text \<open>
  \<^verbatim>\<open>patternKeyCompare(a, b)\<close> orders two keys: the key with the longer base (everything up
  to and including the \<^verbatim>\<open>*\<close>, or the whole key when it has none) comes first, then the
  key that has a \<^verbatim>\<open>*\<close>, then the longer key. The result is \<open>-1\<close>, \<open>0\<close> or \<open>1\<close>.
\<close>

definition patternKeyCompare :: "string \<Rightarrow> string \<Rightarrow> int" where
  "patternKeyCompare a b =
     (let aPatternIndex = StringPrototypeIndexOf a (CHR ''*'');
          bPatternIndex = StringPrototypeIndexOf b (CHR ''*'');
          baseLenA = (if aPatternIndex = - 1 then int (length a) else aPatternIndex + 1);
          baseLenB = (if bPatternIndex = - 1 then int (length b) else bPatternIndex + 1)
      in if baseLenA > baseLenB then - 1
         else if baseLenB > baseLenA then 1
         else if aPatternIndex = - 1 then 1
         else if bPatternIndex = - 1 then - 1
         else if length a > length b then - 1
         else if length b > length a then 1
         else 0)"

text \<open>
  The scan of \<^verbatim>\<open>packageExportsResolve\<close> and \<^verbatim>\<open>packageImportsResolve\<close> over the own
  property names of the map: the state is the pair of \<^verbatim>\<open>bestMatch\<close> (initially the
  empty string) and \<^verbatim>\<open>bestMatchSubpath\<close> (initially undefined, here \<open>None\<close>).
  The two loops of the source are the same but for the trailing-slash deprecation
  warning of the exports loop, which changes neither variable.
\<close>

fun patternScan :: "string \<Rightarrow> string list \<Rightarrow> string \<times> string option \<Rightarrow> string \<times> string option" where
  "patternScan packageSubpath [] st = st"
| "patternScan packageSubpath (key # keys) (bestMatch, bestMatchSubpath) =
     (let patternIndex = StringPrototypeIndexOf key (CHR ''*'') in
      if patternIndex \<noteq> - 1 \<and>
         StringPrototypeStartsWith packageSubpath (StringPrototypeSlice key 0 patternIndex)
      then
        (let patternTrailer = StringPrototypeSliceFrom key (patternIndex + 1) in
         if length packageSubpath \<ge> length key \<and>
            StringPrototypeEndsWith packageSubpath patternTrailer \<and>
            patternKeyCompare bestMatch key = 1 \<and>
            StringPrototypeLastIndexOf key (CHR ''*'') = patternIndex
         then patternScan packageSubpath keys
                (key, Some (StringPrototypeSlice packageSubpath patternIndex
                        (int (length packageSubpath) - int (length patternTrailer))))
         else patternScan packageSubpath keys (bestMatch, bestMatchSubpath))
      else patternScan packageSubpath keys (bestMatch, bestMatchSubpath))"

text \<open>
  The words of the specification: a pattern key is \<open>prefix @ ''*'' @ suffix\<close> with exactly
  one \<^verbatim>\<open>*\<close>; it matches a query that starts with the prefix, ends with the suffix and is
  at least as long as the key. The capture is what the \<^verbatim>\<open>*\<close> stands for.
\<close>

definition patternPrefix :: "string \<Rightarrow> string" where
  "patternPrefix key = takeWhile (\<lambda>c. c \<noteq> CHR ''*'') key"

definition patternSuffix :: "string \<Rightarrow> string" where
  "patternSuffix key = tl (dropWhile (\<lambda>c. c \<noteq> CHR ''*'') key)"

definition patternMatches :: "string \<Rightarrow> string \<Rightarrow> bool" where
  "patternMatches key q =
     (count_list key (CHR ''*'') = 1 \<and>
      take (length (patternPrefix key)) q = patternPrefix key \<and>
      length (patternSuffix key) \<le> length q \<and>
      drop (length q - length (patternSuffix key)) q = patternSuffix key \<and>
      length key \<le> length q)"

definition patternCapture :: "string \<Rightarrow> string \<Rightarrow> string" where
  "patternCapture key q =
     take (length q - length (patternSuffix key) - length (patternPrefix key))
       (drop (length (patternPrefix key)) q)"

definition patternBetter :: "string \<Rightarrow> string \<Rightarrow> bool" where
  "patternBetter k b =
     (length (patternPrefix k) < length (patternPrefix b) \<or>
      (length (patternPrefix k) = length (patternPrefix b) \<and> length k \<le> length b))"


section \<open>Regular expressions\<close>

text \<open>
  The regular expressions of the source use characters, alternation, sequence, the
  optional group and the anchors \<^verbatim>\<open>^\<close> and \<^verbatim>\<open>$\<close>, nothing else. \<open>rx_run\<close> lists, for
  every way the expression can match at the current position, whether the position
  reached is still the start of the input and what is left of the input.
  \<^verbatim>\<open>RegExpPrototypeExec(re, s) !== null\<close> asks whether the expression matches at some
  position of \<open>s\<close>. With the flag \<^verbatim>\<open>i\<close> two characters are equal when their upper-case
  forms are; the expressions of the source name ASCII characters only, for which
  JavaScript folds the 26 ASCII letters and nothing else.
\<close>

datatype rx = Chr char | Bol | Eol | Alt rx rx | Seq rx rx | Opt rx

definition toUpperCase :: "char \<Rightarrow> char" where
  "toUpperCase c =
     (let n = (of_char c :: nat) in if 97 \<le> n \<and> n \<le> 122 then char_of (n - 32) else c)"

fun rx_run :: "bool \<Rightarrow> rx \<Rightarrow> bool \<Rightarrow> string \<Rightarrow> (bool \<times> string) list" where
  "rx_run ic (Chr c) atStart s =
     (case s of
        [] \<Rightarrow> []
      | x # xs \<Rightarrow>
          if (if ic then toUpperCase x = toUpperCase c else x = c) then [(False, xs)] else [])"
| "rx_run ic Bol atStart s = (if atStart then [(atStart, s)] else [])"
| "rx_run ic Eol atStart s = (if s = [] then [(atStart, s)] else [])"
| "rx_run ic (Alt a b) atStart s = rx_run ic a atStart s @ rx_run ic b atStart s"
| "rx_run ic (Seq a b) atStart s =
     concat (map (\<lambda>(atStart', s'). rx_run ic b atStart' s') (rx_run ic a atStart s))"
| "rx_run ic (Opt a) atStart s = rx_run ic a atStart s @ [(atStart, s)]"

fun rx_search :: "bool \<Rightarrow> rx \<Rightarrow> bool \<Rightarrow> string \<Rightarrow> bool" where
  "rx_search ic r atStart [] = (rx_run ic r atStart [] \<noteq> [])"
| "rx_search ic r atStart (x # xs) =
     (rx_run ic r atStart (x # xs) \<noteq> [] \<or> rx_search ic r False xs)"

record RegExp =
  source :: rx
  ignoreCase :: bool

definition RegExpPrototypeExec_notNull :: "RegExp \<Rightarrow> string \<Rightarrow> bool" where
  "RegExpPrototypeExec_notNull re s = rx_search (ignoreCase re) (source re) True s"

fun rx_str :: "string \<Rightarrow> rx" where
  "rx_str [] = Opt Bol"
| "rx_str [c] = Chr c"
| "rx_str (c # cs) = Seq (Chr c) (rx_str cs)"

fun rx_alts :: "rx list \<Rightarrow> rx" where
  "rx_alts [] = Seq Bol (Seq (Chr (CHR ''x'')) Bol)"
| "rx_alts [r] = r"
| "rx_alts (r # rs) = Alt r (rx_alts rs)"

fun rx_seqs :: "rx list \<Rightarrow> rx" where
  "rx_seqs [] = Opt Bol"
| "rx_seqs [r] = r"
| "rx_seqs (r # rs) = Seq r (rx_seqs rs)"

text \<open>\<^verbatim>\<open>(\.|%2e)(\.|%2e)?\<close> and the spelled-out \<^verbatim>\<open>node_modules\<close>, each letter plain or
  percent-encoded in its lower-case or upper-case form.\<close>

definition rx_dot :: rx where
  "rx_dot = Alt (Chr (CHR ''.'')) (rx_str ''%2e'')"

definition rx_letter :: "char \<Rightarrow> string \<Rightarrow> string \<Rightarrow> rx" where
  "rx_letter c lo up = rx_alts [Chr c, rx_str lo, rx_str up]"

definition rx_segment :: rx where
  "rx_segment =
     Alt (Seq rx_dot (Opt rx_dot))
       (rx_seqs
         [rx_letter (CHR ''n'') ''%6e'' ''%4e'', rx_letter (CHR ''o'') ''%6f'' ''%4f'',
          rx_letter (CHR ''d'') ''%64'' ''%44'', rx_letter (CHR ''e'') ''%65'' ''%45'',
          rx_letter (CHR ''_'') ''%5f'' ''%5f'', rx_letter (CHR ''m'') ''%6d'' ''%4d'',
          rx_letter (CHR ''o'') ''%6f'' ''%4f'', rx_letter (CHR ''d'') ''%64'' ''%44'',
          rx_letter (CHR ''u'') ''%75'' ''%55'', rx_letter (CHR ''l'') ''%6c'' ''%4c'',
          rx_letter (CHR ''e'') ''%65'' ''%45'', rx_letter (CHR ''s'') ''%73'' ''%53''])"

definition rx_open :: rx where
  "rx_open = rx_alts [Bol, Chr (CHR 0x5C), Chr (CHR ''/'')]"

definition rx_close :: rx where
  "rx_close = rx_alts [Chr (CHR 0x5C), Chr (CHR ''/''), Eol]"

definition invalidSegmentRegEx :: RegExp where
  "invalidSegmentRegEx =
     \<lparr>source = rx_seqs [rx_open, Opt rx_segment, rx_close], ignoreCase = True\<rparr>"

definition deprecatedInvalidSegmentRegEx :: RegExp where
  "deprecatedInvalidSegmentRegEx =
     \<lparr>source = rx_seqs [rx_open, rx_segment, rx_close], ignoreCase = True\<rparr>"

definition invalidPackageNameRegEx :: RegExp where
  "invalidPackageNameRegEx =
     \<lparr>source = rx_alts [Seq Bol (Chr (CHR ''.'')), Chr (CHR ''%''), Chr (CHR 0x5C)],
      ignoreCase = False\<rparr>"

definition encodedSepRegEx :: RegExp where
  "encodedSepRegEx = \<lparr>source = Alt (rx_str ''%2F'') (rx_str ''%5C''), ignoreCase = True\<rparr>"

text \<open>\<^verbatim>\<open>RegExpPrototypeSymbolReplace(patternRegEx, s, () => subpath)\<close> with
  \<^verbatim>\<open>patternRegEx = /\*/g\<close> replaces every \<^verbatim>\<open>*\<close>;
  \<^verbatim>\<open>StringPrototypeReplace(s, '*', () => subpath)\<close> replaces the first one.\<close>

definition replaceAllStars :: "string \<Rightarrow> string \<Rightarrow> string" where
  "replaceAllStars s subpath = concat (map (\<lambda>c. if c = CHR ''*'' then subpath else [c]) s)"

fun replaceFirstStar :: "string \<Rightarrow> string \<Rightarrow> string" where
  "replaceFirstStar [] subpath = []"
| "replaceFirstStar (c # cs) subpath =
     (if c = CHR ''*'' then subpath @ cs else c # replaceFirstStar cs subpath)"

section \<open>Values, errors and the collaborators of the resolver\<close>

text \<open>
  A value of the \<^verbatim>\<open>exports\<close> or \<^verbatim>\<open>imports\<close> field, as \<^verbatim>\<open>JSON.parse\<close> gives it. An object
  is the list of its own properties in the order of \<^verbatim>\<open>ObjectGetOwnPropertyNames\<close>,
  which for keys that are not array indices is the order of insertion; its keys are
  distinct, so that \<^verbatim>\<open>target[key]\<close> is the value listed with \<open>key\<close>.
\<close>

datatype target =
    TString string
  | TList "target list"
  | TMap "(string \<times> target) list"
  | TNull
  | TBool bool
  | TNumber rat

text \<open>
  Errors are values. The constructors are the error codes the source throws, with the
  arguments that tell two errors of a code apart; the message texts, and the paths
  \<^verbatim>\<open>fileURLToPath(base)\<close> and \<^verbatim>\<open>fileURLToPath(new URL('.', packageJSONUrl))\<close> that
  only feed them, are left out of the functions of the package resolution: there
  \<open>base\<close> is taken to be absent or a \<^verbatim>\<open>file:\<close> URL with a path, as is
  \<open>packageJSONUrl\<close>, for which both conversions succeed. \<^verbatim>\<open>finalizeResolution\<close>, which
  is reached with any parent, is modelled with the conversion of its base.
  \<open>ExternalError\<close> is an error thrown by a collaborator, with its code.
\<close>

datatype error =
    ERR_INVALID_MODULE_SPECIFIER string string
  | ERR_INVALID_PACKAGE_CONFIG string string
  | ERR_INVALID_PACKAGE_TARGET string target
  | ERR_MODULE_NOT_FOUND string
  | ERR_PACKAGE_IMPORT_NOT_DEFINED string
  | ERR_PACKAGE_PATH_NOT_EXPORTED string
  | ERR_UNSUPPORTED_DIR_IMPORT string
  | ERR_NETWORK_IMPORT_DISALLOWED string string
  | ERR_INPUT_TYPE_NOT_ALLOWED
  | ERR_INVALID_ARG_TYPE string
  | ERR_MANIFEST_DEPENDENCY_MISSING string string
  | TypeError string
  | ExternalError string

fun code :: "error \<Rightarrow> string" where
  "code (ERR_INVALID_MODULE_SPECIFIER _ _) = ''ERR_INVALID_MODULE_SPECIFIER''"
| "code (ERR_INVALID_PACKAGE_CONFIG _ _) = ''ERR_INVALID_PACKAGE_CONFIG''"
| "code (ERR_INVALID_PACKAGE_TARGET _ _) = ''ERR_INVALID_PACKAGE_TARGET''"
| "code (ERR_MODULE_NOT_FOUND _) = ''ERR_MODULE_NOT_FOUND''"
| "code (ERR_PACKAGE_IMPORT_NOT_DEFINED _) = ''ERR_PACKAGE_IMPORT_NOT_DEFINED''"
| "code (ERR_PACKAGE_PATH_NOT_EXPORTED _) = ''ERR_PACKAGE_PATH_NOT_EXPORTED''"
| "code (ERR_UNSUPPORTED_DIR_IMPORT _) = ''ERR_UNSUPPORTED_DIR_IMPORT''"
| "code (ERR_NETWORK_IMPORT_DISALLOWED _ _) = ''ERR_NETWORK_IMPORT_DISALLOWED''"
| "code ERR_INPUT_TYPE_NOT_ALLOWED = ''ERR_INPUT_TYPE_NOT_ALLOWED''"
| "code (ERR_INVALID_ARG_TYPE _) = ''ERR_INVALID_ARG_TYPE''"
| "code (ERR_MANIFEST_DEPENDENCY_MISSING _ _) = ''ERR_MANIFEST_DEPENDENCY_MISSING''"
| "code (TypeError _) = []"
| "code (ExternalError c) = c"

text \<open>
  A call either returns, throws, or does not return at all (the walk of
  \<^verbatim>\<open>packageResolve\<close> is a loop whose exit depends on the URLs it is given):
  \<open>Some (Inr x)\<close>, \<open>Some (Inl e)\<close> and \<open>None\<close>.
\<close>

type_synonym 'a completion = "(error + 'a) option"

abbreviation Return :: "'a \<Rightarrow> 'a completion" where
  "Return x \<equiv> Some (Inr x)"

abbreviation Throw :: "error \<Rightarrow> 'a completion" where
  "Throw e \<equiv> Some (Inl e)"

text \<open>The fields of a \<^verbatim>\<open>URL\<close> object that the resolver reads.\<close>

record URL =
  href :: string
  protocol :: string
  pathname :: string
  search :: string
  hash :: string

text \<open>A JavaScript number: \<^verbatim>\<open>NaN\<close>, an infinity or a finite value (a double is a
  rational; the sign of zero plays no role here).\<close>

datatype number = NaN | PosInfinity | NegInfinity | Finite rat

fun number_ge :: "number \<Rightarrow> rat \<Rightarrow> bool" where
  "number_ge NaN y = False"
| "number_ge PosInfinity y = True"
| "number_ge NegInfinity y = False"
| "number_ge (Finite x) y = (x \<ge> y)"

fun number_lt :: "number \<Rightarrow> rat \<Rightarrow> bool" where
  "number_lt NaN y = False"
| "number_lt PosInfinity y = False"
| "number_lt NegInfinity y = True"
| "number_lt (Finite x) y = (x < y)"

text \<open>A package configuration, as the readers give it. The fields are \<^verbatim>\<open>exists\<close>,
  \<^verbatim>\<open>pjsonPath\<close>, \<^verbatim>\<open>name\<close>, \<^verbatim>\<open>main\<close>, \<^verbatim>\<open>exports\<close> and \<^verbatim>\<open>imports\<close>; a field that is
  \<^verbatim>\<open>undefined\<close> is \<open>None\<close>.\<close>

record PackageConfig =
  pexists :: bool
  pjsonPath :: string
  pname :: "string option"
  pmain :: "string option"
  pexports :: "target option"
  pimports :: "target option"

text \<open>The result of the policy manifest's \<^verbatim>\<open>resolve\<close>: \<^verbatim>\<open>true\<close>, a URL, or a falsy value.\<close>

datatype destination = DestTrue | DestURL URL | DestMissing

record DependencyMapper =
  mapper_resolve :: "string \<Rightarrow> string set \<Rightarrow> destination"
  mapper_reaction :: "error \<Rightarrow> error option"

text \<open>
  What the resolver calls and reads but does not define: the \<^verbatim>\<open>URL\<close> class and the
  helpers of \<^verbatim>\<open>internal/url\<close>, the bindings of \<^verbatim>\<open>fs\<close> and \<^verbatim>\<open>path\<close>, the package.json
  readers, the list of builtin modules, the options (\<open>option_preserveSymlinks\<close> for
  \<^verbatim>\<open>--preserve-symlinks\<close>, and so on) and the environment of the process, the policy manifest, and the two conversions of JavaScript between a
  string and a number that \<^verbatim>\<open>isArrayIndex\<close> uses. A \<^verbatim>\<open>URL\<close> given as the base of
  \<^verbatim>\<open>new URL(input, base)\<close> is given by its \<^verbatim>\<open>href\<close>, as the constructor reads it.
\<close>

record env =
  URL_new :: "string \<Rightarrow> string option \<Rightarrow> error + URL"
  URLCanParse :: "string \<Rightarrow> bool"
  fileURLToPath :: "URL \<Rightarrow> error + string"
  pathToFileURL :: "string \<Rightarrow> URL"
  URL_set_search :: "URL \<Rightarrow> string \<Rightarrow> URL"
  URL_set_hash :: "URL \<Rightarrow> string \<Rightarrow> URL"
  internalModuleStat :: "string \<Rightarrow> int"
  toNamespacedPath :: "string \<Rightarrow> string"
  sep :: string
  realpathSync :: "string \<Rightarrow> error + string"
  FSLegacyMainResolve :: "string \<Rightarrow> string option \<Rightarrow> string \<Rightarrow> error + nat"
  getPackageScopeConfig :: "string \<Rightarrow> error + PackageConfig"
  packageJsonReader_read :: "string \<Rightarrow> string \<Rightarrow> string \<Rightarrow> error + PackageConfig"
  canBeRequiredWithoutScheme :: "string \<Rightarrow> bool"
  getConditionsSet :: "string list option \<Rightarrow> error + string set"
  defaultGetFormatWithoutErrors :: "URL \<Rightarrow> string option"
  option_preserveSymlinks :: bool
  option_preserveSymlinksMain :: bool
  option_experimentalNetworkImports :: bool
  option_typeFlag :: bool
  cwd :: string
  WATCH_REPORT_DEPENDENCIES :: bool
  process_send :: bool
  policy_manifest :: "(string \<Rightarrow> DependencyMapper option) option"
  ToNumber :: "string \<Rightarrow> number"
  NumberToString :: "number \<Rightarrow> string"

section \<open>Target resolution\<close>

text \<open>The result of \<^verbatim>\<open>resolvePackageTarget\<close>: a URL, \<^verbatim>\<open>null\<close> or \<^verbatim>\<open>undefined\<close>.\<close>

datatype resolved = Resolved URL | Null | Undefined

text \<open>The variable \<^verbatim>\<open>lastException\<close> of the list loop: \<^verbatim>\<open>undefined\<close>, \<^verbatim>\<open>null\<close> or an
  error that was caught.\<close>

datatype lastException = LastUndefined | LastNull | LastError error

definition invalidPackageTarget :: "string \<Rightarrow> target \<Rightarrow> error" where
  "invalidPackageTarget subpath target = ERR_INVALID_PACKAGE_TARGET subpath target"

definition throwInvalidSubpath :: "string \<Rightarrow> string \<Rightarrow> error" where
  "throwInvalidSubpath request match = ERR_INVALID_MODULE_SPECIFIER request match"

definition isArrayIndex :: "env \<Rightarrow> string \<Rightarrow> bool" where
  "isArrayIndex env key =
     (let keyNum = ToNumber env key in
      if NumberToString env keyNum \<noteq> key then False
      else number_ge keyNum 0 \<and> number_lt keyNum 0xFFFFFFFF)"

text \<open>
  \<^verbatim>\<open>resolvePackageTargetString\<close>. The call of \<^verbatim>\<open>packageResolve\<close> for a bare target of the
  \<^verbatim>\<open>imports\<close> field is the parameter \<open>packageResolve\<close>, which is bound where
  \<^verbatim>\<open>packageResolve\<close> is defined below. The deprecation warnings change no result and
  are not modelled: a target or a subpath that matches \<^verbatim>\<open>invalidSegmentRegEx\<close> but not
  \<^verbatim>\<open>deprecatedInvalidSegmentRegEx\<close> passes.
\<close>

definition resolvePackageTargetString ::
  "env \<Rightarrow> (string \<Rightarrow> string \<Rightarrow> string set \<Rightarrow> URL completion) \<Rightarrow>
   string \<Rightarrow> string \<Rightarrow> string \<Rightarrow> URL \<Rightarrow> string option \<Rightarrow> bool \<Rightarrow> bool \<Rightarrow> bool \<Rightarrow>
   string set \<Rightarrow> URL completion" where
  "resolvePackageTargetString env packageResolve target subpath match packageJSONUrl base
       pattern internal isPathMap conditions =
     (if subpath \<noteq> [] \<and> \<not> pattern \<and> (target = [] \<or> last target \<noteq> CHR ''/'')
      then Throw (invalidPackageTarget match (TString target))
      else if \<not> StringPrototypeStartsWith target ''./'' then
        (if internal \<and> \<not> StringPrototypeStartsWith target ''../'' \<and>
            \<not> StringPrototypeStartsWith target ''/'' \<and> \<not> URLCanParse env target
         then
           (let exportTarget =
                  (if pattern then replaceAllStars target subpath else target @ subpath)
            in packageResolve exportTarget (href packageJSONUrl) conditions)
         else Throw (invalidPackageTarget match (TString target)))
      else if RegExpPrototypeExec_notNull invalidSegmentRegEx (StringPrototypeSliceFrom target 2) \<and>
              RegExpPrototypeExec_notNull deprecatedInvalidSegmentRegEx
                (StringPrototypeSliceFrom target 2)
      then Throw (invalidPackageTarget match (TString target))
      else
        (case URL_new env target (Some (href packageJSONUrl)) of
           Inl e \<Rightarrow> Throw e
         | Inr resolved \<Rightarrow>
             (case URL_new env ''.'' (Some (href packageJSONUrl)) of
                Inl e \<Rightarrow> Throw e
              | Inr packageDir \<Rightarrow>
                  (let resolvedPath = pathname resolved;
                       packagePath = pathname packageDir
                   in if \<not> StringPrototypeStartsWith resolvedPath packagePath
                      then Throw (invalidPackageTarget match (TString target))
                      else if subpath = [] then Return resolved
                      else if RegExpPrototypeExec_notNull invalidSegmentRegEx subpath \<and>
                              RegExpPrototypeExec_notNull deprecatedInvalidSegmentRegEx subpath
                      then
                        (let request =
                               (if pattern then replaceFirstStar match subpath
                                else match @ subpath)
                         in Throw (throwInvalidSubpath request match))
                      else if pattern
                      then
                        (case URL_new env (replaceAllStars (href resolved) subpath) None of
                           Inl e \<Rightarrow> Throw e
                         | Inr u \<Rightarrow> Return u)
                      else
                        (case URL_new env subpath (Some (href resolved)) of
                           Inl e \<Rightarrow> Throw e
                         | Inr u \<Rightarrow> Return u)))))"

text \<open>
  \<^verbatim>\<open>resolvePackageTarget\<close> passes every argument but \<open>target\<close> unchanged to its recursive
  calls and to \<^verbatim>\<open>resolvePackageTargetString\<close>. The recursion is \<open>resolveTarget\<close>, whose
  argument \<open>resolveString\<close> is \<^verbatim>\<open>resolvePackageTargetString\<close> with those arguments, and
  which has two loops: \<open>resolveTarget_items\<close> is the loop over the elements of a list
  from the current element on, with the variable \<^verbatim>\<open>lastException\<close>;
  \<open>resolveTarget_keys\<close> is the second loop over the keys of an object, from the
  current key on. The first loop over the keys is \<open>list_ex (isArrayIndex env)\<close>.
\<close>

fun resolveTarget ::
      "env \<Rightarrow> (string \<Rightarrow> URL completion) \<Rightarrow> URL \<Rightarrow> string \<Rightarrow> string set \<Rightarrow> target \<Rightarrow>
       resolved completion"
  and resolveTarget_items ::
      "env \<Rightarrow> (string \<Rightarrow> URL completion) \<Rightarrow> URL \<Rightarrow> string \<Rightarrow> string set \<Rightarrow> target list \<Rightarrow>
       lastException \<Rightarrow> resolved completion"
  and resolveTarget_keys ::
      "env \<Rightarrow> (string \<Rightarrow> URL completion) \<Rightarrow> URL \<Rightarrow> string \<Rightarrow> string set \<Rightarrow>
       (string \<times> target) list \<Rightarrow> resolved completion"
where
  "resolveTarget env resolveString packageJSONUrl packageSubpath conditions (TString target) =
     (case resolveString target of
        None \<Rightarrow> None
      | Some (Inl e) \<Rightarrow> Throw e
      | Some (Inr u) \<Rightarrow> Return (Resolved u))"
| "resolveTarget env resolveString packageJSONUrl packageSubpath conditions (TList targets) =
     (if length targets = 0 then Return Null
      else resolveTarget_items env resolveString packageJSONUrl packageSubpath conditions
             targets LastUndefined)"
| "resolveTarget env resolveString packageJSONUrl packageSubpath conditions (TMap entries) =
     (if list_ex (isArrayIndex env) (map fst entries)
      then Throw (ERR_INVALID_PACKAGE_CONFIG (href packageJSONUrl)
                    ''\"exports\" cannot contain numeric property keys.'')
      else resolveTarget_keys env resolveString packageJSONUrl packageSubpath conditions
             entries)"
| "resolveTarget env resolveString packageJSONUrl packageSubpath conditions TNull =
     Return Null"
| "resolveTarget env resolveString packageJSONUrl packageSubpath conditions (TBool b) =
     Throw (invalidPackageTarget packageSubpath (TBool b))"
| "resolveTarget env resolveString packageJSONUrl packageSubpath conditions (TNumber n) =
     Throw (invalidPackageTarget packageSubpath (TNumber n))"
| "resolveTarget_items env resolveString packageJSONUrl packageSubpath conditions []
       lastException =
     (case lastException of
        LastUndefined \<Rightarrow> Return Undefined
      | LastNull \<Rightarrow> Return Null
      | LastError e \<Rightarrow> Throw e)"
| "resolveTarget_items env resolveString packageJSONUrl packageSubpath conditions
       (targetItem # rest) lastException =
     (case resolveTarget env resolveString packageJSONUrl packageSubpath conditions
             targetItem of
        None \<Rightarrow> None
      | Some (Inl e) \<Rightarrow>
          if code e = ''ERR_INVALID_PACKAGE_TARGET''
          then resolveTarget_items env resolveString packageJSONUrl packageSubpath conditions
                 rest (LastError e)
          else Throw e
      | Some (Inr Undefined) \<Rightarrow>
          resolveTarget_items env resolveString packageJSONUrl packageSubpath conditions
            rest lastException
      | Some (Inr Null) \<Rightarrow>
          resolveTarget_items env resolveString packageJSONUrl packageSubpath conditions
            rest LastNull
      | Some (Inr (Resolved u)) \<Rightarrow> Return (Resolved u))"
| "resolveTarget_keys env resolveString packageJSONUrl packageSubpath conditions [] =
     Return Undefined"
| "resolveTarget_keys env resolveString packageJSONUrl packageSubpath conditions
       ((key, conditionalTarget) # rest) =
     (if key = ''default'' \<or> key \<in> conditions then
        (case resolveTarget env resolveString packageJSONUrl packageSubpath conditions
                conditionalTarget of
           None \<Rightarrow> None
         | Some (Inl e) \<Rightarrow> Throw e
         | Some (Inr Undefined) \<Rightarrow>
             resolveTarget_keys env resolveString packageJSONUrl packageSubpath conditions
               rest
         | Some (Inr r) \<Rightarrow> Return r)
      else resolveTarget_keys env resolveString packageJSONUrl packageSubpath conditions
             rest)"

definition resolvePackageTarget ::
  "env \<Rightarrow> (string \<Rightarrow> string \<Rightarrow> string set \<Rightarrow> URL completion) \<Rightarrow>
   URL \<Rightarrow> target \<Rightarrow> string \<Rightarrow> string \<Rightarrow> string option \<Rightarrow> bool \<Rightarrow> bool \<Rightarrow> bool \<Rightarrow>
   string set \<Rightarrow> resolved completion" where
  "resolvePackageTarget env packageResolve packageJSONUrl target subpath packageSubpath base
       pattern internal isPathMap conditions =
     resolveTarget env
       (\<lambda>t. resolvePackageTargetString env packageResolve t subpath packageSubpath
              packageJSONUrl base pattern internal isPathMap conditions)
       packageJSONUrl packageSubpath conditions target"

section \<open>Exports and imports resolution\<close>

text \<open>
  The own properties of a value, for \<^verbatim>\<open>ObjectPrototypeHasOwnProperty\<close>,
  \<^verbatim>\<open>ObjectGetOwnPropertyNames\<close> and the property read \<^verbatim>\<open>obj[key]\<close>: those of an object;
  the indices and \<^verbatim>\<open>length\<close> of an array or of a string; none for a boolean or a number.
  For \<^verbatim>\<open>null\<close> (and \<^verbatim>\<open>undefined\<close>) the three operations throw a \<^verbatim>\<open>TypeError\<close>: \<open>None\<close>.
\<close>

function decimal :: "int \<Rightarrow> string" where
  "decimal n =
     (if n < 10 then [char_of (48 + max 0 n)]
      else decimal (n div 10) @ [char_of (48 + n mod 10)])"
  by pat_completeness auto
termination
  by (relation "measure nat") auto

fun ownProperties :: "target \<Rightarrow> (string \<times> target) list option" where
  "ownProperties (TMap entries) = Some entries"
| "ownProperties (TList targets) =
     Some (zip (map (\<lambda>i. decimal (int i)) [0..<length targets]) targets @
           [(''length'', TNumber (of_nat (length targets)))])"
| "ownProperties (TString s) =
     Some (zip (map (\<lambda>i. decimal (int i)) [0..<length s]) (map (\<lambda>c. TString [c]) s) @
           [(''length'', TNumber (of_nat (length s)))])"
| "ownProperties TNull = None"
| "ownProperties (TBool b) = Some []"
| "ownProperties (TNumber n) = Some []"

definition exportsNotFound :: "string \<Rightarrow> error" where
  "exportsNotFound subpath = ERR_PACKAGE_PATH_NOT_EXPORTED subpath"

definition importNotDefined :: "string \<Rightarrow> error" where
  "importNotDefined specifier = ERR_PACKAGE_IMPORT_NOT_DEFINED specifier"

text \<open>The loop of \<^verbatim>\<open>isConditionalExportsMainSugar\<close> over the keys, with its counter \<open>i\<close>
  and the variable \<^verbatim>\<open>isConditionalSugar\<close>.\<close>

fun isConditionalExportsMainSugar_loop ::
  "string \<Rightarrow> string list \<Rightarrow> nat \<Rightarrow> bool \<Rightarrow> error + bool" where
  "isConditionalExportsMainSugar_loop pjson [] i isConditionalSugar = Inr isConditionalSugar"
| "isConditionalExportsMainSugar_loop pjson (key # keys) i isConditionalSugar =
     (let curIsConditionalSugar = (key = [] \<or> hd key \<noteq> CHR ''.'') in
      if i = 0
      then isConditionalExportsMainSugar_loop pjson keys (i + 1) curIsConditionalSugar
      else if isConditionalSugar \<noteq> curIsConditionalSugar
      then Inl (ERR_INVALID_PACKAGE_CONFIG pjson
                  ''\"exports\" cannot contain some keys starting with . and some not.'')
      else isConditionalExportsMainSugar_loop pjson keys (i + 1) isConditionalSugar)"

fun isConditionalExportsMainSugar :: "target option \<Rightarrow> URL \<Rightarrow> error + bool" where
  "isConditionalExportsMainSugar (Some (TString s)) packageJSONUrl = Inr True"
| "isConditionalExportsMainSugar (Some (TList ts)) packageJSONUrl = Inr True"
| "isConditionalExportsMainSugar (Some (TMap entries)) packageJSONUrl =
     isConditionalExportsMainSugar_loop (href packageJSONUrl) (map fst entries) 0 False"
| "isConditionalExportsMainSugar other packageJSONUrl = Inr False"

text \<open>
  What \<^verbatim>\<open>packageExportsResolve\<close> and \<^verbatim>\<open>packageImportsResolve\<close> do with the result of
  \<^verbatim>\<open>resolvePackageTarget\<close>: a URL is returned, \<^verbatim>\<open>null\<close> and \<^verbatim>\<open>undefined\<close> give the
  error \<open>notFound\<close>.
\<close>

fun orNotFound :: "error \<Rightarrow> resolved completion \<Rightarrow> URL completion" where
  "orNotFound notFound None = None"
| "orNotFound notFound (Some (Inl e)) = Throw e"
| "orNotFound notFound (Some (Inr (Resolved u))) = Return u"
| "orNotFound notFound (Some (Inr Null)) = Throw notFound"
| "orNotFound notFound (Some (Inr Undefined)) = Throw notFound"

text \<open>
  The object \<^verbatim>\<open>exports\<close> of \<^verbatim>\<open>packageExportsResolve\<close> after its first statement, which
  wraps the field as \<^verbatim>\<open>{ '.': exports }\<close> when it is the sugar for the main entry: the
  list of its own properties, or \<open>None\<close> when it is \<^verbatim>\<open>null\<close> or \<^verbatim>\<open>undefined\<close>.
\<close>

definition exportsObject :: "target option \<Rightarrow> bool \<Rightarrow> (string \<times> target) list option" where
  "exportsObject exports sugar =
     (case exports of
        None \<Rightarrow> None
      | Some t \<Rightarrow> if sugar then Some [(''.'', t)] else ownProperties t)"

text \<open>
  \<^verbatim>\<open>packageExportsResolve\<close>. The variables \<^verbatim>\<open>bestMatch\<close> and \<^verbatim>\<open>bestMatchSubpath\<close> are
  assigned together, so the second is defined when the first is not empty.
\<close>

definition packageExportsResolve ::
  "env \<Rightarrow> (string \<Rightarrow> string \<Rightarrow> string set \<Rightarrow> URL completion) \<Rightarrow> URL \<Rightarrow> string \<Rightarrow>
   PackageConfig \<Rightarrow> string option \<Rightarrow> string set \<Rightarrow> URL completion" where
  "packageExportsResolve env packageResolve packageJSONUrl packageSubpath packageConfig base
       conditions =
     (case isConditionalExportsMainSugar (pexports packageConfig) packageJSONUrl of
        Inl e \<Rightarrow> Throw e
      | Inr sugar \<Rightarrow>
          (case exportsObject (pexports packageConfig) sugar of
             None \<Rightarrow> Throw (TypeError ''Cannot convert undefined or null to object'')
           | Some exports \<Rightarrow>
               if packageSubpath \<in> set (map fst exports) \<and>
                  \<not> StringPrototypeIncludes packageSubpath (CHR ''*'') \<and>
                  \<not> StringPrototypeEndsWith packageSubpath ''/''
               then
                 (case map_of exports packageSubpath of
                    None \<Rightarrow> Throw (exportsNotFound packageSubpath)
                  | Some target \<Rightarrow>
                      orNotFound (exportsNotFound packageSubpath)
                        (resolvePackageTarget env packageResolve packageJSONUrl target []
                           packageSubpath base False False False conditions))
               else
                 (case patternScan packageSubpath (map fst exports) ([], None) of
                    (bestMatch, bestMatchSubpath) \<Rightarrow>
                      if bestMatch \<noteq> [] then
                        (case (map_of exports bestMatch, bestMatchSubpath) of
                           (Some target, Some subpath) \<Rightarrow>
                             orNotFound (exportsNotFound packageSubpath)
                               (resolvePackageTarget env packageResolve packageJSONUrl target
                                  subpath bestMatch base True False
                                  (StringPrototypeEndsWith packageSubpath ''/'') conditions)
                         | _ \<Rightarrow> Throw (exportsNotFound packageSubpath))
                      else Throw (exportsNotFound packageSubpath))))"

text \<open>The truth value of a value of the \<^verbatim>\<open>imports\<close> field in \<^verbatim>\<open>if (imports)\<close>.\<close>

fun truthy :: "target option \<Rightarrow> bool" where
  "truthy None = False"
| "truthy (Some TNull) = False"
| "truthy (Some (TBool b)) = b"
| "truthy (Some (TNumber n)) = (n \<noteq> 0)"
| "truthy (Some (TString s)) = (s \<noteq> [])"
| "truthy (Some (TList ts)) = True"
| "truthy (Some (TMap entries)) = True"

definition packageImportsResolve ::
  "env \<Rightarrow> (string \<Rightarrow> string \<Rightarrow> string set \<Rightarrow> URL completion) \<Rightarrow> string \<Rightarrow> string \<Rightarrow>
   string set \<Rightarrow> URL completion" where
  "packageImportsResolve env packageResolve name base conditions =
     (if name = ''#'' \<or> StringPrototypeStartsWith name ''#/'' \<or>
         StringPrototypeEndsWith name ''/''
      then Throw (ERR_INVALID_MODULE_SPECIFIER name
                    ''is not a valid internal imports specifier name'')
      else
        (case getPackageScopeConfig env base of
           Inl e \<Rightarrow> Throw e
         | Inr packageConfig \<Rightarrow>
             if pexists packageConfig \<and> truthy (pimports packageConfig) then
               (let packageJSONUrl = pathToFileURL env (pjsonPath packageConfig) in
                case (case pimports packageConfig of
                        None \<Rightarrow> None
                      | Some t \<Rightarrow> ownProperties t) of
                  None \<Rightarrow> Throw (importNotDefined name)
                | Some imports \<Rightarrow>
                    if name \<in> set (map fst imports) \<and>
                       \<not> StringPrototypeIncludes name (CHR ''*'')
                    then
                      (case map_of imports name of
                         None \<Rightarrow> Throw (importNotDefined name)
                       | Some target \<Rightarrow>
                           orNotFound (importNotDefined name)
                             (resolvePackageTarget env packageResolve packageJSONUrl target []
                                name (Some base) False True False conditions))
                    else
                      (case patternScan name (map fst imports) ([], None) of
                         (bestMatch, bestMatchSubpath) \<Rightarrow>
                           if bestMatch \<noteq> [] then
                             (case (map_of imports bestMatch, bestMatchSubpath) of
                                (Some target, Some subpath) \<Rightarrow>
                                  orNotFound (importNotDefined name)
                                    (resolvePackageTarget env packageResolve packageJSONUrl
                                       target subpath bestMatch (Some base) True True False
                                       conditions)
                              | _ \<Rightarrow> Throw (importNotDefined name))
                           else Throw (importNotDefined name)))
             else Throw (importNotDefined name)))"

section \<open>Package resolution\<close>

text \<open>The object \<^verbatim>\<open>{ packageName, packageSubpath, isScoped }\<close> that \<^verbatim>\<open>parsePackageName\<close>
  returns.\<close>

record ParsedPackageName =
  parsed_packageName :: string
  parsed_packageSubpath :: string
  parsed_isScoped :: bool

definition parsePackageName :: "string \<Rightarrow> error + ParsedPackageName" where
  "parsePackageName specifier =
     (let firstSeparator = StringPrototypeIndexOf specifier (CHR ''/'');
          scoped = (specifier \<noteq> [] \<and> hd specifier = CHR ''@'');
          validScope =
            (if scoped then \<not> (firstSeparator = - 1 \<or> length specifier = 0) else True);
          separatorIndex =
            (if scoped \<and> validScope
             then StringPrototypeIndexOfFrom specifier (CHR ''/'') (firstSeparator + 1)
             else firstSeparator);
          packageName =
            (if separatorIndex = - 1 then specifier
             else StringPrototypeSlice specifier 0 separatorIndex);
          validPackageName =
            (validScope \<and> \<not> RegExpPrototypeExec_notNull invalidPackageNameRegEx packageName)
      in if \<not> validPackageName
         then Inl (ERR_INVALID_MODULE_SPECIFIER specifier ''is not a valid package name'')
         else Inr \<lparr>parsed_packageName = packageName,
                   parsed_packageSubpath =
                     ''.'' @ (if separatorIndex = - 1 then []
                              else StringPrototypeSliceFrom specifier separatorIndex),
                   parsed_isScoped = scoped\<rparr>)"

definition legacyMainResolveExtensions :: "string list" where
  "legacyMainResolveExtensions =
     ['''', ''.js'', ''.json'', ''.node'', ''/index.js'', ''/index.json'', ''/index.node'',
      ''./index.js'', ''./index.json'', ''./index.node'']"

definition kResolvedByMainIndexNode :: nat where
  "kResolvedByMainIndexNode = 6"

text \<open>\<^verbatim>\<open>legacyMainResolve\<close>; a \<^verbatim>\<open>main\<close> that is \<^verbatim>\<open>undefined\<close>, and an index outside the list of
  extensions, read \<^verbatim>\<open>undefined\<close> in the string that is built.\<close>

definition legacyMainResolve :: "env \<Rightarrow> URL \<Rightarrow> PackageConfig \<Rightarrow> string \<Rightarrow> error + URL" where
  "legacyMainResolve env packageJSONUrl packageConfig base =
     (case FSLegacyMainResolve env (href packageJSONUrl) (pmain packageConfig) base of
        Inl e \<Rightarrow> Inl e
      | Inr resolvedOption \<Rightarrow>
          (let baseUrl =
                 (if resolvedOption \<le> kResolvedByMainIndexNode
                  then ''./'' @ (case pmain packageConfig of
                                  None \<Rightarrow> ''undefined''
                                | Some m \<Rightarrow> m)
                  else []);
               extension =
                 (if resolvedOption < length legacyMainResolveExtensions
                  then legacyMainResolveExtensions ! resolvedOption
                  else ''undefined'')
           in URL_new env (baseUrl @ extension) (Some (href packageJSONUrl))))"

definition notNullish :: "target option \<Rightarrow> bool" where
  "notNullish v = (v \<noteq> None \<and> v \<noteq> Some TNull)"

text \<open>
  The \<^verbatim>\<open>do ... while\<close> loop of \<^verbatim>\<open>packageResolve\<close>, from one evaluation of its body on:
  the variables of the loop are \<^verbatim>\<open>packageJSONUrl\<close> and \<^verbatim>\<open>packageJSONPath\<close>, and
  \<^verbatim>\<open>lastPath\<close> is the \<^verbatim>\<open>packageJSONPath\<close> of the body that ran last. Whether the loop ends
  depends on the URLs the constructor returns, so it is a partial function.
\<close>

partial_function (option) packageResolve_loop ::
  "env \<Rightarrow> (string \<Rightarrow> string \<Rightarrow> string set \<Rightarrow> URL completion) \<Rightarrow> string \<Rightarrow> string \<Rightarrow>
   string set \<Rightarrow> ParsedPackageName \<Rightarrow> URL \<Rightarrow> string \<Rightarrow> (error + URL) option" where
  [code]: "packageResolve_loop env packageResolve specifier base conditions parsed packageJSONUrl
       packageJSONPath =
     (let stat = internalModuleStat env (toNamespacedPath env
                   (StringPrototypeSlice packageJSONPath 0
                      (int (length packageJSONPath) - 13)))
      in if stat \<noteq> 1 then
           (let lastPath = packageJSONPath in
            case URL_new env
                   ((if parsed_isScoped parsed then ''../../../../node_modules/''
                     else ''../../../node_modules/'') @ parsed_packageName parsed @ ''/package.json'')
                   (Some (href packageJSONUrl)) of
              Inl e \<Rightarrow> Throw e
            | Inr packageJSONUrl' \<Rightarrow>
                (case fileURLToPath env packageJSONUrl' of
                   Inl e \<Rightarrow> Throw e
                 | Inr packageJSONPath' \<Rightarrow>
                     if length packageJSONPath' \<noteq> length lastPath
                     then packageResolve_loop env packageResolve specifier base conditions
                            parsed packageJSONUrl' packageJSONPath'
                     else Throw (ERR_MODULE_NOT_FOUND (parsed_packageName parsed))))
         else
           (case packageJsonReader_read env packageJSONPath specifier base of
              Inl e \<Rightarrow> Throw e
            | Inr packageConfig \<Rightarrow>
                if notNullish (pexports packageConfig)
                then packageExportsResolve env packageResolve packageJSONUrl
                       (parsed_packageSubpath parsed) packageConfig (Some base) conditions
                else if parsed_packageSubpath parsed = ''.''
                then Some (legacyMainResolve env packageJSONUrl packageConfig base)
                else Some (URL_new env (parsed_packageSubpath parsed) (Some (href packageJSONUrl)))))"

definition packageResolve_with ::
  "env \<Rightarrow> (string \<Rightarrow> string \<Rightarrow> string set \<Rightarrow> URL completion) \<Rightarrow> string \<Rightarrow> string \<Rightarrow>
   string set \<Rightarrow> URL completion" where
  "packageResolve_with env packageResolve specifier base conditions =
     (if canBeRequiredWithoutScheme env specifier
      then Some (URL_new env (''node:'' @ specifier) None)
      else
        (case parsePackageName specifier of
           Inl e \<Rightarrow> Throw e
         | Inr parsed \<Rightarrow>
             (case getPackageScopeConfig env base of
                Inl e \<Rightarrow> Throw e
              | Inr packageConfig \<Rightarrow>
                  if pexists packageConfig \<and> notNullish (pexports packageConfig) \<and>
                     pname packageConfig = Some (parsed_packageName parsed)
                  then packageExportsResolve env packageResolve
                         (pathToFileURL env (pjsonPath packageConfig)) (parsed_packageSubpath parsed)
                         packageConfig (Some base) conditions
                  else
                    (case URL_new env
                            (''./node_modules/'' @ parsed_packageName parsed @ ''/package.json'')
                            (Some base) of
                       Inl e \<Rightarrow> Throw e
                     | Inr packageJSONUrl \<Rightarrow>
                         (case fileURLToPath env packageJSONUrl of
                            Inl e \<Rightarrow> Throw e
                          | Inr packageJSONPath \<Rightarrow>
                              packageResolve_loop env packageResolve specifier base conditions
                                parsed packageJSONUrl packageJSONPath)))))"

text \<open>
  \<^verbatim>\<open>packageResolve\<close> calls \<^verbatim>\<open>resolvePackageTargetString\<close> only through
  \<^verbatim>\<open>packageExportsResolve\<close>, with \<^verbatim>\<open>internal\<close> false, and
  \<^verbatim>\<open>resolvePackageTargetString\<close> calls \<^verbatim>\<open>packageResolve\<close> only when \<^verbatim>\<open>internal\<close> is true: the
  recursion has depth one. \<open>packageResolve\<close> is \<open>packageResolve_with\<close> for a parameter
  that is never called (\<open>packageResolve_with_param\<close> below shows that the parameter
  plays no role).
\<close>

definition packageResolve ::
  "env \<Rightarrow> string \<Rightarrow> string \<Rightarrow> string set \<Rightarrow> URL completion" where
  "packageResolve env = packageResolve_with env (\<lambda>specifier base conditions. None)"

section \<open>Finalization and the entry points\<close>

text \<open>A base or parent URL is \<^verbatim>\<open>undefined\<close>, a string, a \<^verbatim>\<open>URL\<close> object, or a value of another
  type. The \<^verbatim>\<open>protocol\<close> of a string is \<^verbatim>\<open>undefined\<close>.\<close>

datatype parentURL = ParentUndefined | ParentString string | ParentURL URL | ParentOther

fun base_href :: "parentURL \<Rightarrow> string option" where
  "base_href (ParentString s) = Some s"
| "base_href (ParentURL u) = Some (href u)"
| "base_href other = None"

fun base_protocol :: "parentURL \<Rightarrow> string option" where
  "base_protocol (ParentURL u) = Some (protocol u)"
| "base_protocol other = None"

text \<open>Whether a parent URL is truthy: a non-empty string or an object.\<close>

fun parent_truthy :: "parentURL \<Rightarrow> bool" where
  "parent_truthy ParentUndefined = False"
| "parent_truthy (ParentString s) = (s \<noteq> [])"
| "parent_truthy (ParentURL u) = True"
| "parent_truthy ParentOther = True"

text \<open>
  \<^verbatim>\<open>fileURLToPath(base)\<close>: the function takes a \<^verbatim>\<open>URL\<close> object, or a string, which it gives
  to the \<^verbatim>\<open>URL\<close> constructor first; it refuses a value of another type with
  \<^verbatim>\<open>ERR_INVALID_ARG_TYPE\<close>.
\<close>

definition fileURLToPath_base :: "env \<Rightarrow> parentURL \<Rightarrow> error + string" where
  "fileURLToPath_base env base =
     (case base of
        ParentString s \<Rightarrow>
          (case URL_new env s None of Inl e \<Rightarrow> Inl e | Inr u \<Rightarrow> fileURLToPath env u)
      | ParentURL u \<Rightarrow> fileURLToPath env u
      | _ \<Rightarrow> Inl (ERR_INVALID_ARG_TYPE ''path''))"

text \<open>
  \<^verbatim>\<open>finalizeResolution\<close> returns, beside its result, the messages it has sent with
  \<^verbatim>\<open>process.send\<close>: each is the list of paths of a \<^verbatim>\<open>watch:require\<close> message.
  \<^verbatim>\<open>path || resolved.pathname\<close> is the pathname when the path is the empty string.
  Each of its three errors is built from \<^verbatim>\<open>fileURLToPath(base)\<close> (the third from
  \<^verbatim>\<open>base && fileURLToPath(base)\<close>, after the message is sent): when that conversion
  throws, its error is what \<^verbatim>\<open>finalizeResolution\<close> throws.
\<close>

definition finalizeResolution ::
  "env \<Rightarrow> URL \<Rightarrow> parentURL \<Rightarrow> bool \<Rightarrow> string list list \<times> (error + URL)" where
  "finalizeResolution env resolved base preserveSymlinks =
     (if RegExpPrototypeExec_notNull encodedSepRegEx (pathname resolved)
      then ([], Inl (case fileURLToPath_base env base of
                       Inl e \<Rightarrow> e
                     | Inr basePath \<Rightarrow>
                         ERR_INVALID_MODULE_SPECIFIER (pathname resolved)
                           ''must not include encoded separator characters''))
      else
        (case fileURLToPath env resolved of
           Inl e \<Rightarrow> ([], Inl e)
         | Inr path \<Rightarrow>
             (let stats = internalModuleStat env (toNamespacedPath env
                            (if StringPrototypeEndsWith path ''/''
                             then StringPrototypeSliceFrom path (- 1) else path))
              in if stats = 1
                 then ([], Inl (case fileURLToPath_base env base of
                                  Inl e \<Rightarrow> e
                                | Inr basePath \<Rightarrow> ERR_UNSUPPORTED_DIR_IMPORT path))
                 else if stats \<noteq> 0 then
                   (let reported = (if path \<noteq> [] then path else pathname resolved) in
                    (if WATCH_REPORT_DEPENDENCIES env \<and> process_send env
                     then [[reported]] else [],
                     Inl (if parent_truthy base
                          then (case fileURLToPath_base env base of
                                  Inl e \<Rightarrow> e
                                | Inr basePath \<Rightarrow> ERR_MODULE_NOT_FOUND reported)
                          else ERR_MODULE_NOT_FOUND reported)))
                 else if \<not> preserveSymlinks then
                   (case realpathSync env path of
                      Inl e \<Rightarrow> ([], Inl e)
                    | Inr realPath \<Rightarrow>
                        ([], Inr (URL_set_hash env
                                   (URL_set_search env
                                      (pathToFileURL env
                                         (realPath @ (if StringPrototypeEndsWith path (sep env)
                                                  then ''/'' else [])))
                                      (search resolved))
                                   (hash resolved))))
                 else ([], Inr resolved))))"

definition isRelativeSpecifier :: "string \<Rightarrow> bool" where
  "isRelativeSpecifier specifier =
     (if specifier \<noteq> [] \<and> specifier ! 0 = CHR ''.'' then
        (if length specifier = 1 \<or> (length specifier > 1 \<and> specifier ! 1 = CHR ''/'')
         then True
         else if length specifier > 1 \<and> specifier ! 1 = CHR ''.'' then
           (if length specifier = 2 \<or> (length specifier > 2 \<and> specifier ! 2 = CHR ''/'')
            then True else False)
         else False)
      else False)"

definition shouldBeTreatedAsRelativeOrAbsolutePath :: "string \<Rightarrow> bool" where
  "shouldBeTreatedAsRelativeOrAbsolutePath specifier =
     (if specifier = [] then False
      else if specifier ! 0 = CHR ''/'' then True
      else isRelativeSpecifier specifier)"

text \<open>
  \<^verbatim>\<open>moduleResolve\<close>, in two parts: \<open>moduleResolve_resolved\<close> is the value of the variable
  \<^verbatim>\<open>resolved\<close> before the last \<^verbatim>\<open>if\<close>, for a base given by its \<^verbatim>\<open>href\<close>. When the base is
  remote and the specifier does not parse as a URL, \<^verbatim>\<open>resolved\<close> stays \<^verbatim>\<open>undefined\<close> and
  reading its \<^verbatim>\<open>protocol\<close> throws a \<^verbatim>\<open>TypeError\<close>; so does reading the \<^verbatim>\<open>protocol\<close> of a base
  that is \<^verbatim>\<open>undefined\<close>.
\<close>

definition moduleResolve_resolved ::
  "env \<Rightarrow> string \<Rightarrow> string \<Rightarrow> bool \<Rightarrow> string set \<Rightarrow> URL completion" where
  "moduleResolve_resolved env specifier baseHref isRemote conditions =
     (if shouldBeTreatedAsRelativeOrAbsolutePath specifier
      then Some (URL_new env specifier (Some baseHref))
      else if \<not> isRemote \<and> specifier \<noteq> [] \<and> specifier ! 0 = CHR ''#''
      then packageImportsResolve env (packageResolve env) specifier baseHref conditions
      else
        (case URL_new env specifier None of
           Inr u \<Rightarrow> Return u
         | Inl e \<Rightarrow>
             if \<not> isRemote
             then packageResolve env specifier baseHref conditions
             else Throw (TypeError ''Cannot read properties of undefined'')))"

definition moduleResolve ::
  "env \<Rightarrow> string \<Rightarrow> parentURL \<Rightarrow> string set \<Rightarrow> bool \<Rightarrow>
   (string list list \<times> (error + URL)) option" where
  "moduleResolve env specifier base conditions preserveSymlinks =
     (case base_href base of
        None \<Rightarrow> Some ([], Inl (TypeError ''Cannot read properties of undefined''))
      | Some baseHref \<Rightarrow>
          (let isRemote = (base_protocol base = Some ''http:'' \<or>
                           base_protocol base = Some ''https:'')
           in case moduleResolve_resolved env specifier baseHref isRemote conditions of
                None \<Rightarrow> None
              | Some (Inl e) \<Rightarrow> Some ([], Inl e)
              | Some (Inr resolved) \<Rightarrow>
                  if protocol resolved \<noteq> ''file:'' then Some ([], Inr resolved)
                  else Some (finalizeResolution env resolved base preserveSymlinks)))"

text \<open>The result \<^verbatim>\<open>{ url, format }\<close> of \<^verbatim>\<open>defaultResolve\<close> and its argument \<^verbatim>\<open>context\<close>
  with the fields \<^verbatim>\<open>parentURL\<close> and \<^verbatim>\<open>conditions\<close>.\<close>

record ResolveResult =
  result_url :: string
  result_format :: "string option"

record ResolveContext =
  context_parentURL :: parentURL
  context_conditions :: "string list option"

definition throwIfInvalidParentURL :: "parentURL \<Rightarrow> error option" where
  "throwIfInvalidParentURL parent =
     (case parent of
        ParentUndefined \<Rightarrow> None
      | ParentOther \<Rightarrow> Some (ERR_INVALID_ARG_TYPE ''parentURL'')
      | _ \<Rightarrow> None)"

text \<open>\<^verbatim>\<open>checkIfDisallowedImport\<close>: it throws, returns a result, or returns \<^verbatim>\<open>undefined\<close>.\<close>

definition checkIfDisallowedImport ::
  "env \<Rightarrow> string \<Rightarrow> URL option \<Rightarrow> URL option \<Rightarrow> error + ResolveResult option" where
  "checkIfDisallowedImport env specifier parsed parsedParentURL =
     (case parsedParentURL of
        None \<Rightarrow> Inr None
      | Some parent \<Rightarrow>
          if protocol parent = ''http:'' \<or> protocol parent = ''https:'' then
            (if shouldBeTreatedAsRelativeOrAbsolutePath specifier then
               (case parsed of
                  None \<Rightarrow> Inl (TypeError ''Cannot read properties of undefined'')
                | Some p \<Rightarrow>
                    if protocol p \<noteq> [] \<and> protocol p \<noteq> ''https:'' \<and> protocol p \<noteq> ''http:''
                    then Inl (ERR_NETWORK_IMPORT_DISALLOWED specifier
                                ''remote imports cannot import from a local location.'')
                    else Inr (Some \<lparr>result_url = href p, result_format = None\<rparr>))
             else if canBeRequiredWithoutScheme env specifier
             then Inl (ERR_NETWORK_IMPORT_DISALLOWED specifier
                         ''remote imports cannot import from a local location.'')
             else Inl (ERR_NETWORK_IMPORT_DISALLOWED specifier
                         ''only relative and absolute specifiers are supported.''))
          else Inr None)"

text \<open>
  The policy step of \<^verbatim>\<open>defaultResolve\<close>: a redirect that is returned at once, an error
  thrown by the reaction (or by spreading conditions that are \<^verbatim>\<open>undefined\<close>), or
  nothing.
\<close>

definition policyStep ::
  "env \<Rightarrow> string \<Rightarrow> ResolveContext \<Rightarrow> error + ResolveResult option" where
  "policyStep env specifier context =
     (case (policy_manifest env, base_href (context_parentURL context)) of
        (Some getDependencyMapper, Some parent) \<Rightarrow>
          if parent_truthy (context_parentURL context) then
            (case getDependencyMapper parent of
               None \<Rightarrow> Inr None
             | Some redirects \<Rightarrow>
                 (case mapper_resolve redirects specifier
                         (case context_conditions context of None \<Rightarrow> {} | Some cs \<Rightarrow> set cs) of
                    DestTrue \<Rightarrow> Inr None
                  | DestURL destination \<Rightarrow> Inr (Some \<lparr>result_url = href destination, result_format = None\<rparr>)
                  | DestMissing \<Rightarrow>
                      (case context_conditions context of
                         None \<Rightarrow> Inl (TypeError ''conditions is not iterable'')
                       | Some cs \<Rightarrow>
                           (case mapper_reaction redirects
                                   (ERR_MANIFEST_DEPENDENCY_MISSING parent specifier) of
                              Some e \<Rightarrow> Inl e
                            | None \<Rightarrow> Inr None))))
          else Inr None
      | _ \<Rightarrow> Inr None)"

text \<open>
  \<^verbatim>\<open>defaultResolve\<close>, in two parts: \<open>defaultResolve_module\<close> is the part from
  \<^verbatim>\<open>const isMain = parentURL === undefined\<close> on. The \<^verbatim>\<open>catch\<close> around \<^verbatim>\<open>moduleResolve\<close>
  adds a hint to the message of the error and throws the error again; the message is
  not modelled. The result is given with the messages sent by \<^verbatim>\<open>finalizeResolution\<close>.
\<close>

definition defaultResolve_module ::
  "env \<Rightarrow> string \<Rightarrow> ResolveContext \<Rightarrow> (string list list \<times> (error + ResolveResult)) option" where
  "defaultResolve_module env specifier context =
     (let isMain = (context_parentURL context = ParentUndefined) in
      if isMain \<and> option_typeFlag env then Some ([], Inl ERR_INPUT_TYPE_NOT_ALLOWED)
      else
        (case getConditionsSet env (context_conditions context) of
           Inl e \<Rightarrow> Some ([], Inl e)
         | Inr conditionsSet \<Rightarrow>
             (case moduleResolve env specifier
                     (if isMain
                      then ParentString (href (pathToFileURL env (cwd env @ ''/'')))
                      else context_parentURL context)
                     conditionsSet
                     (if isMain then option_preserveSymlinksMain env
                      else option_preserveSymlinks env) of
                None \<Rightarrow> None
              | Some (sent, Inl e) \<Rightarrow> Some (sent, Inl e)
              | Some (sent, Inr u) \<Rightarrow>
                  Some (sent, Inr \<lparr>result_url = href u,
                                     result_format = defaultGetFormatWithoutErrors env u\<rparr>))))"

text \<open>The variables \<^verbatim>\<open>parsedParentURL\<close> and \<^verbatim>\<open>parsed\<close> of \<^verbatim>\<open>defaultResolve\<close>, which are
  \<^verbatim>\<open>undefined\<close> when the constructor throws.\<close>

definition defaultResolve_parsedParentURL :: "env \<Rightarrow> ResolveContext \<Rightarrow> URL option" where
  "defaultResolve_parsedParentURL env context =
     (case base_href (context_parentURL context) of
        None \<Rightarrow> None
      | Some parent \<Rightarrow>
          if parent_truthy (context_parentURL context)
          then (case URL_new env parent None of Inl e \<Rightarrow> None | Inr u \<Rightarrow> Some u)
          else None)"

definition defaultResolve_parsed :: "env \<Rightarrow> string \<Rightarrow> ResolveContext \<Rightarrow> URL option" where
  "defaultResolve_parsed env specifier context =
     (case (if shouldBeTreatedAsRelativeOrAbsolutePath specifier
            then URL_new env specifier
                   (map_option href (defaultResolve_parsedParentURL env context))
            else URL_new env specifier None) of
        Inl e \<Rightarrow> None
      | Inr u \<Rightarrow> Some u)"

definition defaultResolve ::
  "env \<Rightarrow> string \<Rightarrow> ResolveContext \<Rightarrow> (string list list \<times> (error + ResolveResult)) option" where
  "defaultResolve env specifier context =
     (case throwIfInvalidParentURL (context_parentURL context) of
        Some e \<Rightarrow> Some ([], Inl e)
      | None \<Rightarrow>
          (case policyStep env specifier context of
             Inl e \<Rightarrow> Some ([], Inl e)
           | Inr (Some redirect) \<Rightarrow> Some ([], Inr redirect)
           | Inr None \<Rightarrow>
               (let parsedParentURL = defaultResolve_parsedParentURL env context;
                    parsed = defaultResolve_parsed env specifier context;
                    passThrough =
                      (case parsed of
                         None \<Rightarrow> None
                       | Some p \<Rightarrow>
                           if protocol p = ''data:'' \<or>
                              (option_experimentalNetworkImports env \<and>
                               (protocol p = ''https:'' \<or> protocol p = ''http:''))
                           then Some \<lparr>result_url = href p, result_format = None\<rparr>
                           else None)
                in case passThrough of
                     Some r \<Rightarrow> Some ([], Inr r)
                   | None \<Rightarrow>
                       (case checkIfDisallowedImport env specifier parsed parsedParentURL of
                          Inl e \<Rightarrow> Some ([], Inl e)
                        | Inr (Some maybeReturn) \<Rightarrow> Some ([], Inr maybeReturn)
                        | Inr None \<Rightarrow>
                            if (case parsed of
                                  None \<Rightarrow> False
                                | Some p \<Rightarrow> protocol p = ''node:'')
                            then Some ([], Inr \<lparr>result_url = specifier, result_format = None\<rparr>)
                            else defaultResolve_module env specifier context))))"

section \<open>A model of the collaborators\<close>

text \<open>
  The theorems below hold for every environment unless they say otherwise. Where a
  concrete environment is needed, the \<^verbatim>\<open>URL\<close> class is modelled after the URL Standard
  that \<^verbatim>\<open>internal/url\<close> implements, for the URLs the resolver meets most: \<^verbatim>\<open>file:\<close> URLs
  with an empty host, URLs with an opaque path such as \<^verbatim>\<open>data:\<close> and \<^verbatim>\<open>node:\<close> URLs, and
  absolute \<^verbatim>\<open>http:\<close>, \<^verbatim>\<open>https:\<close>, \<^verbatim>\<open>ws:\<close>, \<^verbatim>\<open>wss:\<close> and \<^verbatim>\<open>ftp:\<close> URLs whose host is a domain of
  ASCII letters, digits, hyphens and dots. For any other URL (credentials, an address
  as host, a relative reference against a base with a host) the model's constructor
  fails with the code \<^verbatim>\<open>UNMODELLED\<close>. A character stands for a code unit below 256.

  The parser removes leading and trailing C0 controls and spaces from its input, then
  every tab and newline. It percent-encodes a character of the path, the query and the
  fragment that is in the percent-encode set of that component, a code unit from 128
  on as the two bytes of its UTF-8 form.
\<close>

definition isTabOrNewline :: "char \<Rightarrow> bool" where
  "isTabOrNewline c = (c = CHR 0x09 \<or> c = CHR 0x0A \<or> c = CHR 0x0D)"

definition isC0ControlOrSpace :: "char \<Rightarrow> bool" where
  "isC0ControlOrSpace c = ((of_char c :: nat) \<le> 32)"

definition urlPreprocess :: "string \<Rightarrow> string" where
  "urlPreprocess input =
     filter (\<lambda>c. \<not> isTabOrNewline c)
       (rev (dropWhile isC0ControlOrSpace (rev (dropWhile isC0ControlOrSpace input))))"

definition hexDigit :: "nat \<Rightarrow> char" where
  "hexDigit n = (if n < 10 then char_of (48 + n) else char_of (55 + n))"

definition percentEncodeByte :: "nat \<Rightarrow> string" where
  "percentEncodeByte n = [CHR ''%'', hexDigit (n div 16), hexDigit (n mod 16)]"

definition utf8PercentEncode :: "char \<Rightarrow> string" where
  "utf8PercentEncode c =
     (let n = (of_char c :: nat) in
      if n < 128 then percentEncodeByte n
      else percentEncodeByte (192 + n div 64) @ percentEncodeByte (128 + n mod 64))"

definition inC0ControlSet :: "char \<Rightarrow> bool" where
  "inC0ControlSet c = ((of_char c :: nat) < 32 \<or> (of_char c :: nat) > 126)"

definition inFragmentSet :: "char \<Rightarrow> bool" where
  "inFragmentSet c = (inC0ControlSet c \<or> c \<in> set '' \"<>`'')"

definition inQuerySet :: "char \<Rightarrow> bool" where
  "inQuerySet c = (inC0ControlSet c \<or> c \<in> set '' \"#<>'')"

definition inSpecialQuerySet :: "char \<Rightarrow> bool" where
  "inSpecialQuerySet c = (inQuerySet c \<or> c = CHR 0x27)"

definition inPathSet :: "char \<Rightarrow> bool" where
  "inPathSet c = (inQuerySet c \<or> c \<in> set ''?`{}'')"

definition encodeWith :: "(char \<Rightarrow> bool) \<Rightarrow> string \<Rightarrow> string" where
  "encodeWith inSet s = concat (map (\<lambda>c. if inSet c then utf8PercentEncode c else [c]) s)"

definition isAsciiAlpha :: "char \<Rightarrow> bool" where
  "isAsciiAlpha c =
     (let n = (of_char c :: nat) in (65 \<le> n \<and> n \<le> 90) \<or> (97 \<le> n \<and> n \<le> 122))"

definition isAsciiDigit :: "char \<Rightarrow> bool" where
  "isAsciiDigit c = (48 \<le> (of_char c :: nat) \<and> (of_char c :: nat) \<le> 57)"

text \<open>The value of a hexadecimal digit, and the number that a string of digits writes
  in a base up to 16.\<close>

definition hexValue :: "char \<Rightarrow> int option" where
  "hexValue c =
     (let n = (of_char c :: int) in
      if 48 \<le> n \<and> n \<le> 57 then Some (n - 48)
      else if 65 \<le> n \<and> n \<le> 70 then Some (n - 55)
      else if 97 \<le> n \<and> n \<le> 102 then Some (n - 87)
      else None)"

fun digitsIn :: "int \<Rightarrow> int \<Rightarrow> string \<Rightarrow> int option" where
  "digitsIn b acc [] = Some acc"
| "digitsIn b acc (c # cs) =
     (case hexValue c of
        None \<Rightarrow> None
      | Some d \<Rightarrow> if d < b then digitsIn b (acc * b + d) cs else None)"

definition isSchemeChar :: "char \<Rightarrow> bool" where
  "isSchemeChar c =
     (isAsciiAlpha c \<or> ((of_char c :: nat) \<ge> 48 \<and> (of_char c :: nat) \<le> 57) \<or>
      c \<in> set ''+-.'')"

definition toLowerCase :: "char \<Rightarrow> char" where
  "toLowerCase c =
     (let n = (of_char c :: nat) in if 65 \<le> n \<and> n \<le> 90 then char_of (n + 32) else c)"

definition isSingleDot :: "string \<Rightarrow> bool" where
  "isSingleDot buf = (map toLowerCase buf \<in> set [''.'', ''%2e''])"

definition isDoubleDot :: "string \<Rightarrow> bool" where
  "isDoubleDot buf = (map toLowerCase buf \<in> set [''..'', ''.%2e'', ''%2e.'', ''%2e%2e''])"

definition isWindowsDriveLetter :: "string \<Rightarrow> bool" where
  "isWindowsDriveLetter s =
     (length s = 2 \<and> isAsciiAlpha (s ! 0) \<and> (s ! 1 = CHR '':'' \<or> s ! 1 = CHR ''|''))"

definition isNormalizedWindowsDriveLetter :: "string \<Rightarrow> bool" where
  "isNormalizedWindowsDriveLetter s =
     (length s = 2 \<and> isAsciiAlpha (s ! 0) \<and> s ! 1 = CHR '':'')"

definition startsWithWindowsDriveLetter :: "string \<Rightarrow> bool" where
  "startsWithWindowsDriveLetter s =
     (length s \<ge> 2 \<and> isWindowsDriveLetter (take 2 s) \<and>
      (length s = 2 \<or> s ! 2 \<in> set [CHR ''/'', CHR 0x5C, CHR ''?'', CHR ''#'']))"

definition shortenPath :: "string list \<Rightarrow> string list" where
  "shortenPath path =
     (if length path = 1 \<and> isNormalizedWindowsDriveLetter (hd path) then path
      else butlast path)"

text \<open>The end of a path segment in the path state of a \<^verbatim>\<open>file:\<close> URL: \<open>slash\<close> tells
  whether the segment ends at a \<^verbatim>\<open>/\<close> or a \<^verbatim>\<open>\\<close>.\<close>

definition pushSegment :: "string list \<Rightarrow> string \<Rightarrow> bool \<Rightarrow> string list" where
  "pushSegment path buf slash =
     (if isDoubleDot buf
      then (if slash then shortenPath path else shortenPath path @ [[]])
      else if isSingleDot buf
      then (if slash then path else path @ [[]])
      else path @ [if path = [] \<and> isWindowsDriveLetter buf then [buf ! 0, CHR '':''] else buf])"

text \<open>The path state, from the current character on: the result is the path and what
  is left of the input, which is empty or begins with \<^verbatim>\<open>?\<close> or \<^verbatim>\<open>#\<close>.\<close>

fun pathState :: "string list \<Rightarrow> string \<Rightarrow> string \<Rightarrow> string list \<times> string" where
  "pathState path buf [] = (pushSegment path buf False, [])"
| "pathState path buf (c # cs) =
     (if c = CHR ''/'' \<or> c = CHR 0x5C then pathState (pushSegment path buf True) [] cs
      else if c = CHR ''?'' \<or> c = CHR ''#'' then (pushSegment path buf False, c # cs)
      else pathState path (buf @ (if inPathSet c then utf8PercentEncode c else [c])) cs)"

text \<open>The query and the fragment of what the path state, or the opaque path state, has
  left.\<close>

definition queryAndFragment ::
  "(char \<Rightarrow> bool) \<Rightarrow> string \<Rightarrow> string option \<times> string option" where
  "queryAndFragment inSet rest =
     (case rest of
        [] \<Rightarrow> (None, None)
      | c # cs \<Rightarrow>
          if c = CHR ''?'' then
            (let q = takeWhile (\<lambda>x. x \<noteq> CHR ''#'') cs;
                 f = dropWhile (\<lambda>x. x \<noteq> CHR ''#'') cs
             in (Some (encodeWith inSet q),
                 (case f of [] \<Rightarrow> None | _ # fs \<Rightarrow> Some (encodeWith inFragmentSet fs))))
          else (None, Some (encodeWith inFragmentSet cs)))"

text \<open>A parsed URL: its scheme, its host with its port as they are serialized (empty for
  a \<^verbatim>\<open>file:\<close> URL and for an opaque path), its path (a list of segments, or the opaque
  path), its query and its fragment.\<close>

datatype urlPath = Segments "string list" | Opaque string

record urlRecord =
  url_scheme :: string
  url_host :: string
  url_path :: urlPath
  url_query :: "string option"
  url_fragment :: "string option"

definition splitScheme :: "string \<Rightarrow> (string \<times> string) option" where
  "splitScheme input =
     (if input \<noteq> [] \<and> isAsciiAlpha (hd input) then
        (case dropWhile isSchemeChar input of
           [] \<Rightarrow> None
         | c # rest \<Rightarrow>
             if c = CHR '':'' then Some (map toLowerCase (takeWhile isSchemeChar input), rest)
             else None)
      else None)"

definition unmodelled :: error where
  "unmodelled = ExternalError ''UNMODELLED''"

definition invalidURL :: error where
  "invalidURL = ExternalError ''ERR_INVALID_URL''"

definition isSlash :: "char \<Rightarrow> bool" where
  "isSlash c = (c = CHR ''/'' \<or> c = CHR 0x5C)"

definition fileURL :: "string list \<times> string \<Rightarrow> urlRecord" where
  "fileURL parsed =
     (case queryAndFragment inSpecialQuerySet (snd parsed) of
        (q, f) \<Rightarrow>
          \<lparr>url_scheme = ''file'', url_host = [], url_path = Segments (fst parsed), url_query = q,
           url_fragment = f\<rparr>)"

text \<open>
  The file state, the file slash state and the file host state, for the input after the
  scheme (or the whole input when it has none) and the base, which is absent or a
  \<^verbatim>\<open>file:\<close> URL given by its path and query.
\<close>

definition fileState :: "string \<Rightarrow> (string list \<times> string option) option \<Rightarrow> error + urlRecord" where
  "fileState rest base =
     (case rest of
        [] \<Rightarrow>
          (case base of
             None \<Rightarrow> Inr (fileURL (pathState [] [] []))
           | Some (bpath, bquery) \<Rightarrow>
               Inr \<lparr>url_scheme = ''file'', url_host = [], url_path = Segments bpath, url_query = bquery,
                    url_fragment = None\<rparr>)
      | c # cs \<Rightarrow>
          if isSlash c then
            (case cs of
               [] \<Rightarrow>
                 Inr (fileURL (pathState
                   (case base of
                      Some (b # bs, bquery) \<Rightarrow>
                        if isNormalizedWindowsDriveLetter b then [b] else []
                    | _ \<Rightarrow> []) [] []))
             | d # ds \<Rightarrow>
                 if isSlash d then
                   (let host = takeWhile (\<lambda>x. \<not> isSlash x \<and> x \<noteq> CHR ''?'' \<and> x \<noteq> CHR ''#'') ds;
                        after = dropWhile (\<lambda>x. \<not> isSlash x \<and> x \<noteq> CHR ''?'' \<and> x \<noteq> CHR ''#'') ds
                    in if isWindowsDriveLetter host then Inr (fileURL (pathState [] [] ds))
                       else if host = [] \<or> map toLowerCase host = ''localhost'' then
                         Inr (fileURL (pathState [] []
                                (case after of
                                   [] \<Rightarrow> []
                                 | x # xs \<Rightarrow> if isSlash x then xs else x # xs)))
                       else Inl unmodelled)
                 else
                   Inr (fileURL (pathState
                     (case base of
                        Some (b # bs, bquery) \<Rightarrow>
                          if \<not> startsWithWindowsDriveLetter cs \<and>
                             isNormalizedWindowsDriveLetter b
                          then [b] else []
                      | _ \<Rightarrow> []) [] cs)))
          else
            (case base of
               None \<Rightarrow> Inr (fileURL (pathState [] [] rest))
             | Some (bpath, bquery) \<Rightarrow>
                 if c = CHR ''?'' then
                   (case queryAndFragment inSpecialQuerySet rest of
                      (q, f) \<Rightarrow>
                        Inr \<lparr>url_scheme = ''file'', url_host = [], url_path = Segments bpath,
                             url_query = q, url_fragment = f\<rparr>)
                 else if c = CHR ''#'' then
                   Inr \<lparr>url_scheme = ''file'', url_host = [], url_path = Segments bpath, url_query = bquery,
                        url_fragment = Some (encodeWith inFragmentSet cs)\<rparr>
                 else
                   Inr (fileURL (pathState
                     (if startsWithWindowsDriveLetter rest then [] else shortenPath bpath)
                     [] rest))))"

text \<open>The opaque path state, for a scheme that is not special and an input that does
  not begin with \<^verbatim>\<open>/\<close> after the scheme.\<close>

definition opaqueURL :: "string \<Rightarrow> string \<Rightarrow> urlRecord" where
  "opaqueURL scheme rest =
     (let p = takeWhile (\<lambda>x. x \<noteq> CHR ''?'' \<and> x \<noteq> CHR ''#'') rest;
          after = dropWhile (\<lambda>x. x \<noteq> CHR ''?'' \<and> x \<noteq> CHR ''#'') rest
      in case queryAndFragment inQuerySet after of
           (q, f) \<Rightarrow>
             \<lparr>url_scheme = scheme, url_host = [], url_path = Opaque (encodeWith inC0ControlSet p),
              url_query = q, url_fragment = f\<rparr>)"

definition isSpecialScheme :: "string \<Rightarrow> bool" where
  "isSpecialScheme scheme = (scheme \<in> set [''http'', ''https'', ''ws'', ''wss'', ''ftp'', ''file''])"

text \<open>
  An absolute URL with a special scheme other than \<^verbatim>\<open>file\<close>: after the scheme, the slashes
  and backslashes are passed over; the authority reaches to the next \<^verbatim>\<open>/\<close>, \<^verbatim>\<open>\\<close>, \<^verbatim>\<open>?\<close> or
  \<^verbatim>\<open>#\<close> and is a host with an optional port. The host must not be empty; the port is a
  number up to 65535 and is dropped when it is the default port of the scheme. The
  model covers the hosts that are domains of ASCII letters, digits, hyphens and dots
  whose last label begins with a letter (so that the host is not read as an address)
  and that have no label beginning with \<^verbatim>\<open>xn--\<close>: such a host is stored in lower case. It
  does not cover credentials, and it does not cover a path with a segment that is a
  Windows drive letter, which the path state treats in its own way for a \<^verbatim>\<open>file:\<close> URL
  only.
\<close>

definition defaultPort :: "string \<Rightarrow> int option" where
  "defaultPort scheme =
     (if scheme = ''http'' \<or> scheme = ''ws'' then Some 80
      else if scheme = ''https'' \<or> scheme = ''wss'' then Some 443
      else if scheme = ''ftp'' then Some 21
      else None)"

fun splitWhere :: "(char \<Rightarrow> bool) \<Rightarrow> string \<Rightarrow> string \<Rightarrow> string list" where
  "splitWhere isSep buf [] = [buf]"
| "splitWhere isSep buf (c # cs) =
     (if isSep c then buf # splitWhere isSep [] cs else splitWhere isSep (buf @ [c]) cs)"

definition simpleHost :: "string \<Rightarrow> bool" where
  "simpleHost h =
     (let labels = splitWhere (\<lambda>c. c = CHR ''.'') [] (map toLowerCase h);
          labels' = (if length labels > 1 \<and> last labels = [] then butlast labels else labels)
      in list_all (\<lambda>c. isAsciiAlpha c \<or> isAsciiDigit c \<or> c = CHR ''-'' \<or> c = CHR ''.'') h \<and>
         last labels' \<noteq> [] \<and> isAsciiAlpha (hd (last labels')) \<and>
         \<not> list_ex (\<lambda>l. take 4 l = ''xn--'') labels)"

text \<open>The port after the \<^verbatim>\<open>:\<close> of the authority: \<open>None\<close> when it is not a port.\<close>

definition parsePort :: "string \<Rightarrow> string \<Rightarrow> int option option" where
  "parsePort scheme s =
     (if s = [] then Some None
      else
        (case digitsIn 10 0 s of
           None \<Rightarrow> None
         | Some n \<Rightarrow>
             if n > 65535 then None
             else Some (if Some n = defaultPort scheme then None else Some n)))"

definition specialURL :: "string \<Rightarrow> string \<Rightarrow> error + urlRecord" where
  "specialURL scheme rest =
     (let ends = (\<lambda>x. isSlash x \<or> x = CHR ''?'' \<or> x = CHR ''#'');
          rest' = dropWhile isSlash rest;
          authority = takeWhile (\<lambda>x. \<not> ends x) rest';
          after = dropWhile (\<lambda>x. \<not> ends x) rest';
          host = takeWhile (\<lambda>x. x \<noteq> CHR '':'') authority;
          port = drop 1 (dropWhile (\<lambda>x. x \<noteq> CHR '':'') authority);
          pathInput = (case after of [] \<Rightarrow> [] | x # xs \<Rightarrow> if isSlash x then xs else x # xs);
          segments = splitWhere isSlash []
                       (takeWhile (\<lambda>x. x \<noteq> CHR ''?'' \<and> x \<noteq> CHR ''#'') pathInput)
      in if CHR ''@'' \<in> set authority then Inl unmodelled
         else if host = [] then Inl invalidURL
         else if \<not> simpleHost host \<or> list_ex isWindowsDriveLetter segments then Inl unmodelled
         else
           (case parsePort scheme port of
              None \<Rightarrow> Inl invalidURL
            | Some p \<Rightarrow>
                Inr ((fileURL (pathState [] [] pathInput))
                       \<lparr>url_scheme := scheme,
                        url_host := map toLowerCase host @
                          (case p of None \<Rightarrow> [] | Some n \<Rightarrow> CHR '':'' # decimal n)\<rparr>)))"

definition basicURLParse :: "string \<Rightarrow> urlRecord option \<Rightarrow> error + urlRecord" where
  "basicURLParse input base =
     (let input' = urlPreprocess input;
          fileBase =
            (case base of
               None \<Rightarrow> None
             | Some b \<Rightarrow>
                 (case url_path b of
                    Segments p \<Rightarrow> if url_scheme b = ''file'' then Some (p, url_query b) else None
                  | Opaque p \<Rightarrow> None))
      in case splitScheme input' of
           Some (scheme, rest) \<Rightarrow>
             if scheme = ''file'' then fileState rest fileBase
             else if isSpecialScheme scheme then
               (case base of
                  None \<Rightarrow> specialURL scheme rest
                | Some b \<Rightarrow>
                    if url_scheme b = scheme \<and> take 2 rest \<noteq> ''//''
                    then Inl unmodelled else specialURL scheme rest)
             else if rest \<noteq> [] \<and> hd rest = CHR ''/'' then Inl unmodelled
             else Inr (opaqueURL scheme rest)
         | None \<Rightarrow>
             (case base of
                None \<Rightarrow> Inl invalidURL
              | Some b \<Rightarrow>
                  (case url_path b of
                     Opaque p \<Rightarrow>
                       if input' \<noteq> [] \<and> hd input' = CHR ''#''
                       then Inr (b\<lparr>url_fragment := Some (encodeWith inFragmentSet (tl input'))\<rparr>)
                       else Inl invalidURL
                   | Segments p \<Rightarrow>
                       if url_scheme b = ''file'' then fileState input' fileBase
                       else Inl unmodelled)))"

text \<open>The serializer and the getters of the \<^verbatim>\<open>URL\<close> object.\<close>

definition serializePath :: "urlPath \<Rightarrow> string" where
  "serializePath p =
     (case p of Opaque s \<Rightarrow> s | Segments segs \<Rightarrow> concat (map (\<lambda>s. CHR ''/'' # s) segs))"

definition toURL :: "urlRecord \<Rightarrow> URL" where
  "toURL u =
     \<lparr>href = url_scheme u @ '':'' @
             (case url_path u of Segments segs \<Rightarrow> ''//'' @ url_host u | Opaque s \<Rightarrow> []) @
             serializePath (url_path u) @
             (case url_query u of None \<Rightarrow> [] | Some q \<Rightarrow> CHR ''?'' # q) @
             (case url_fragment u of None \<Rightarrow> [] | Some f \<Rightarrow> CHR ''#'' # f),
      protocol = url_scheme u @ '':'',
      pathname = serializePath (url_path u),
      search = (case url_query u of None \<Rightarrow> [] | Some q \<Rightarrow> if q = [] then [] else CHR ''?'' # q),
      hash = (case url_fragment u of None \<Rightarrow> [] | Some f \<Rightarrow> if f = [] then [] else CHR ''#'' # f)\<rparr>"

definition whatwg_URL_new :: "string \<Rightarrow> string option \<Rightarrow> error + URL" where
  "whatwg_URL_new input base =
     (case base of
        None \<Rightarrow> map_sum id toURL (basicURLParse input None)
      | Some b \<Rightarrow>
          (case basicURLParse b None of
             Inl e \<Rightarrow> Inl e
           | Inr parsedBase \<Rightarrow> map_sum id toURL (basicURLParse input (Some parsedBase))))"

text \<open>
  \<^verbatim>\<open>fileURLToPath\<close> on POSIX, for a URL of the model: it fails for a URL that is not a
  \<^verbatim>\<open>file:\<close> URL and for a pathname with an encoded \<^verbatim>\<open>/\<close>, and decodes the pathname with
  \<^verbatim>\<open>decodeURIComponent\<close>. The decoding of a pathname is the decoding of its segments;
  the decoding of a segment is the parameter \<open>decode\<close>, which fails as
  \<^verbatim>\<open>decodeURIComponent\<close> does on a malformed sequence.
\<close>

fun splitSlash :: "string \<Rightarrow> string \<Rightarrow> string list" where
  "splitSlash buf [] = [buf]"
| "splitSlash buf (c # cs) =
     (if c = CHR ''/'' then buf # splitSlash [] cs else splitSlash (buf @ [c]) cs)"

fun decodeAll :: "(string \<Rightarrow> string option) \<Rightarrow> string list \<Rightarrow> string list option" where
  "decodeAll decode [] = Some []"
| "decodeAll decode (s # ss) =
     (case decode s of
        None \<Rightarrow> None
      | Some d \<Rightarrow> (case decodeAll decode ss of None \<Rightarrow> None | Some ds \<Rightarrow> Some (d # ds)))"

definition encodedSlashRegEx :: RegExp where
  "encodedSlashRegEx = \<lparr>source = rx_str ''%2f'', ignoreCase = True\<rparr>"

definition posix_fileURLToPath :: "(string \<Rightarrow> string option) \<Rightarrow> URL \<Rightarrow> error + string" where
  "posix_fileURLToPath decode u =
     (if protocol u \<noteq> ''file:'' then Inl (ExternalError ''ERR_INVALID_URL_SCHEME'')
      else if RegExpPrototypeExec_notNull encodedSlashRegEx (pathname u)
      then Inl (ExternalError ''ERR_INVALID_FILE_URL_PATH'')
      else
        (case decodeAll decode (splitSlash [] (pathname u)) of
           None \<Rightarrow> Inl (ExternalError ''URIError'')
         | Some segs \<Rightarrow>
             Inr (case segs of
                    [] \<Rightarrow> []
                  | s # ss \<Rightarrow> s @ concat (map (\<lambda>x. CHR ''/'' # x) ss))))"

text \<open>
  \<^verbatim>\<open>decodeURIComponent\<close> on a segment: an escape \<^verbatim>\<open>%XX\<close> below \<open>0x80\<close> is the character with
  that code, two escapes that are the UTF-8 form of a character from \<open>0x80\<close> to \<open>0xFF\<close>
  are that character, and a \<^verbatim>\<open>%\<close> that does not begin a well-formed sequence is a
  \<^verbatim>\<open>URIError\<close>. A sequence for a character from \<open>0x100\<close> on is outside the strings of the
  model and is refused as well.
\<close>

text \<open>The byte of an escape at the beginning of a string, and what follows it.\<close>

definition escapedByte :: "string \<Rightarrow> (int \<times> string) option" where
  "escapedByte s =
     (case s of
        p # h # l # rest \<Rightarrow>
          if p = CHR ''%'' then
            (case (hexValue h, hexValue l) of
               (Some a, Some b) \<Rightarrow> Some (16 * a + b, rest)
             | _ \<Rightarrow> None)
          else None
      | _ \<Rightarrow> None)"

fun decodeURIComponent :: "nat \<Rightarrow> string \<Rightarrow> string option" where
  "decodeURIComponent fuel [] = Some []"
| "decodeURIComponent 0 (c # cs) = None"
| "decodeURIComponent (Suc fuel) (c # cs) =
     (if c \<noteq> CHR ''%'' then map_option (\<lambda>r. c # r) (decodeURIComponent fuel cs)
      else
        (case escapedByte (c # cs) of
           None \<Rightarrow> None
         | Some (b, rest) \<Rightarrow>
             if b < 128 then map_option (\<lambda>r. char_of b # r) (decodeURIComponent fuel rest)
             else if b = 194 \<or> b = 195 then
               (case escapedByte rest of
                  None \<Rightarrow> None
                | Some (b', rest') \<Rightarrow>
                    if 128 \<le> b' \<and> b' < 192
                    then map_option (\<lambda>r. char_of ((b - 192) * 64 + (b' - 128)) # r)
                           (decodeURIComponent fuel rest')
                    else None)
             else None))"

definition decodeSegment :: "string \<Rightarrow> string option" where
  "decodeSegment s = decodeURIComponent (length s) s"

text \<open>
  \<^verbatim>\<open>pathToFileURL\<close> on POSIX with the working directory \<^verbatim>\<open>/\<close>. The path is resolved with
  \<^verbatim>\<open>path.resolve\<close>, which drops empty segments and \<^verbatim>\<open>.\<close> and resolves \<^verbatim>\<open>..\<close>; a trailing
  \<^verbatim>\<open>/\<close> is put back; \<^verbatim>\<open>%\<close>, \<^verbatim>\<open>\\<close>, newline, carriage return and tab are escaped; and the
  result is assigned to the \<^verbatim>\<open>pathname\<close> of \<^verbatim>\<open>file://\<close>, whose setter runs the path state
  of the parser, in which \<^verbatim>\<open>?\<close> and \<^verbatim>\<open>#\<close> are now encoded as characters of the path.
\<close>

fun normalizeSegments :: "string list \<Rightarrow> string list \<Rightarrow> string list" where
  "normalizeSegments acc [] = acc"
| "normalizeSegments acc (s # ss) =
     (if s = [] \<or> s = ''.'' then normalizeSegments acc ss
      else if s = ''..'' then normalizeSegments (butlast acc) ss
      else normalizeSegments (acc @ [s]) ss)"

definition joinSlash :: "string list \<Rightarrow> string" where
  "joinSlash segs =
     (case segs of [] \<Rightarrow> [] | s # ss \<Rightarrow> s @ concat (map (\<lambda>x. CHR ''/'' # x) ss))"

definition path_resolve :: "string \<Rightarrow> string" where
  "path_resolve path =
     CHR ''/'' # joinSlash (normalizeSegments [] (splitSlash [] path))"

definition encodePathChars :: "string \<Rightarrow> string" where
  "encodePathChars path =
     concat (map (\<lambda>c. if c = CHR ''%'' then ''%25''
                       else if c = CHR 0x5C then ''%5C''
                       else if c = CHR 0x0A then ''%0A''
                       else if c = CHR 0x0D then ''%0D''
                       else if c = CHR 0x09 then ''%09''
                       else [c]) path)"

text \<open>The path that the setter of \<^verbatim>\<open>pathname\<close> stores for a string that begins with \<^verbatim>\<open>/\<close>
  and has no tab and no newline.\<close>

definition pathnameSetter :: "string \<Rightarrow> string list" where
  "pathnameSetter v =
     fst (pathState [] []
            (concat (map (\<lambda>c. if c = CHR ''?'' \<or> c = CHR ''#'' then utf8PercentEncode c
                              else [c]) (tl v))))"

definition plain_pathToFileURL :: "string \<Rightarrow> URL" where
  "plain_pathToFileURL path =
     (let resolved = path_resolve path;
          resolved' = (if StringPrototypeEndsWith path ''/'' \<and>
                          \<not> StringPrototypeEndsWith resolved ''/''
                       then resolved @ ''/'' else resolved)
      in toURL \<lparr>url_scheme = ''file'', url_host = [],
                url_path = Segments (pathnameSetter (encodePathChars resolved')),
                url_query = None, url_fragment = None\<rparr>)"

text \<open>
  The two conversions of \<^verbatim>\<open>isArrayIndex\<close>, after the language standard. A number is a
  double: the value nearest to a rational, the even one of two that are equally near,
  and an infinity from \<open>2^1024\<close> on.
\<close>

function ipow :: "rat \<Rightarrow> int \<Rightarrow> rat" where
  "ipow b e =
     (if e \<le> 0 then 1
      else if e mod 2 = 0 then ipow (b * b) (e div 2)
      else b * ipow (b * b) (e div 2))"
  by pat_completeness auto
termination
  by (relation "measure (\<lambda>p. nat (snd p))") auto

definition powInt :: "int \<Rightarrow> int \<Rightarrow> rat" where
  "powInt b e = (if e \<ge> 0 then ipow (of_int b) e else 1 / ipow (of_int b) (- e))"

text \<open>The number of digits of a natural number in a base.\<close>

function digitCount :: "int \<Rightarrow> int \<Rightarrow> int" where
  "digitCount b n = (if n \<le> 0 \<or> b < 2 then 0 else 1 + digitCount b (n div b))"
  by pat_completeness auto
termination
  by (relation "measure (\<lambda>p. nat (snd p))") (auto intro: int_div_less_self)

text \<open>The integer part of the logarithm of a positive rational.\<close>

definition floorLog :: "int \<Rightarrow> rat \<Rightarrow> int" where
  "floorLog b q =
     (case quotient_of q of
        (n, d) \<Rightarrow>
          (let e = digitCount b n - digitCount b d
           in if powInt b e \<le> q then e else e - 1))"

definition roundToDouble :: "rat \<Rightarrow> number" where
  "roundToDouble q =
     (let e = max (floorLog 2 q - 52) (- 1074);
          scaled = q / powInt 2 e;
          f = floor scaled;
          r = scaled - of_int f;
          m = (if r < 1 / 2 then f else if 1 / 2 < r then f + 1
               else if even f then f else f + 1);
          v = of_int m * powInt 2 e
      in if powInt 2 1024 \<le> v then PosInfinity else Finite v)"

definition number_of_rat :: "rat \<Rightarrow> number" where
  "number_of_rat q =
     (if q = 0 then Finite 0
      else if 0 < q then roundToDouble q
      else (case roundToDouble (- q) of
              Finite v \<Rightarrow> Finite (- v)
            | _ \<Rightarrow> NegInfinity))"

text \<open>
  \<^verbatim>\<open>StringToNumber\<close>: white space around the literal is dropped; the empty string is 0;
  the literal is \<^verbatim>\<open>Infinity\<close> or a decimal literal, with an optional sign, an optional
  fraction and an optional exponent, or a binary, octal or hexadecimal integer without
  a sign; anything else is \<^verbatim>\<open>NaN\<close>.
\<close>

definition isStrWhiteSpaceChar :: "char \<Rightarrow> bool" where
  "isStrWhiteSpaceChar c = ((of_char c :: nat) \<in> set [9, 10, 11, 12, 13, 32, 160])"

definition isDecimalDigit :: "char \<Rightarrow> bool" where
  "isDecimalDigit c = (48 \<le> (of_char c :: nat) \<and> (of_char c :: nat) \<le> 57)"

definition numeralIn :: "int \<Rightarrow> string \<Rightarrow> int option" where
  "numeralIn b s = (if s = [] then None else digitsIn b 0 s)"

text \<open>The exponent part of a decimal literal: empty, or \<^verbatim>\<open>e\<close> or \<^verbatim>\<open>E\<close>, an optional sign
  and digits.\<close>

definition exponentPart :: "string \<Rightarrow> int option" where
  "exponentPart s =
     (case s of
        [] \<Rightarrow> Some 0
      | c # cs \<Rightarrow>
          if c = CHR ''e'' \<or> c = CHR ''E'' then
            (case cs of
               [] \<Rightarrow> None
             | d # ds \<Rightarrow>
                 if d = CHR ''-'' then map_option uminus (numeralIn 10 ds)
                 else if d = CHR ''+'' then numeralIn 10 ds
                 else numeralIn 10 cs)
          else None)"

text \<open>The value of an unsigned decimal literal.\<close>

definition unsignedDecimal :: "string \<Rightarrow> rat option" where
  "unsignedDecimal s =
     (let intPart = takeWhile isDecimalDigit s;
          rest = dropWhile isDecimalDigit s;
          dot = (rest \<noteq> [] \<and> hd rest = CHR ''.'');
          fracPart = (if dot then takeWhile isDecimalDigit (tl rest) else []);
          rest' = (if dot then dropWhile isDecimalDigit (tl rest) else rest)
      in if intPart = [] \<and> fracPart = [] then None
         else
           (case (digitsIn 10 0 (intPart @ fracPart), exponentPart rest') of
              (Some m, Some e) \<Rightarrow> Some (of_int m * powInt 10 (e - int (length fracPart)))
            | _ \<Rightarrow> None))"

definition StringToNumber :: "string \<Rightarrow> number" where
  "StringToNumber str =
     (let s = rev (dropWhile isStrWhiteSpaceChar (rev (dropWhile isStrWhiteSpaceChar str)));
          radix = (if take 2 s \<in> set [''0x'', ''0X''] then 16
                   else if take 2 s \<in> set [''0o'', ''0O''] then 8
                   else if take 2 s \<in> set [''0b'', ''0B''] then 2 else 10);
          negative = (s \<noteq> [] \<and> hd s = CHR ''-'');
          body = (if s \<noteq> [] \<and> (hd s = CHR ''-'' \<or> hd s = CHR ''+'') then tl s else s)
      in if s = [] then Finite 0
         else if radix \<noteq> 10 then
           (case numeralIn radix (drop 2 s) of
              None \<Rightarrow> NaN
            | Some n \<Rightarrow> number_of_rat (of_int n))
         else if body = ''Infinity'' then (if negative then NegInfinity else PosInfinity)
         else
           (case unsignedDecimal body of
              None \<Rightarrow> NaN
            | Some q \<Rightarrow> number_of_rat (if negative then - q else q)))"

text \<open>
  \<^verbatim>\<open>Number::toString\<close>. For a positive number \<open>x\<close> with \<open>10^(n-1) \<le> x < 10^n\<close>, the digits
  are those of the least number of digits \<open>k\<close> for which an integer \<open>s\<close> of \<open>k\<close> digits
  has \<open>s \<times> 10^(n-k)\<close> round to \<open>x\<close>, and of two such integers the one nearer to \<open>x\<close>; a
  double has such digits with \<open>k \<le> 17\<close>. \<open>digitsFor\<close> gives \<open>s\<close> and the exponent \<open>n\<close>,
  which is one more when \<open>s \<times> 10^(n-k)\<close> is \<open>10^n\<close>.
\<close>

definition digitsFor :: "rat \<Rightarrow> int \<Rightarrow> int \<Rightarrow> (int \<times> int) option" where
  "digitsFor x n k =
     (let p = powInt 10 (n - k);
          lo = floor (x / p);
          hi = lo + 1;
          okLo = (roundToDouble (of_int lo * p) = Finite x);
          okHi = (roundToDouble (of_int hi * p) = Finite x)
      in if okLo \<and> (\<not> okHi \<or> x - of_int lo * p \<le> of_int hi * p - x) then Some (lo, n)
         else if okHi
         then (if of_int hi = powInt 10 k then Some (floor (powInt 10 (k - 1)), n + 1)
               else Some (hi, n))
         else None)"

fun shortestDigits :: "rat \<Rightarrow> int \<Rightarrow> nat \<Rightarrow> int \<Rightarrow> int \<times> int" where
  "shortestDigits x n 0 k = (floor (x / powInt 10 (n - k)), n)"
| "shortestDigits x n (Suc fuel) k =
     (case digitsFor x n k of
        Some r \<Rightarrow> r
      | None \<Rightarrow> shortestDigits x n fuel (k + 1))"

definition formatDigits :: "int \<Rightarrow> int \<Rightarrow> string" where
  "formatDigits s n =
     (let ds = decimal s; k = int (length ds) in
      if k \<le> n \<and> n \<le> 21 then ds @ replicate (nat (n - k)) CHR ''0''
      else if 0 < n \<and> n \<le> 21 then take (nat n) ds @ ''.'' @ drop (nat n) ds
      else if - 6 < n \<and> n \<le> 0 then ''0.'' @ replicate (nat (- n)) CHR ''0'' @ ds
      else
        (let e = n - 1;
             ex = (if e < 0 then ''-'' else ''+'') @ decimal (abs e)
         in if k = 1 then ds @ ''e'' @ ex else hd ds # ''.'' @ tl ds @ ''e'' @ ex))"

definition positiveToString :: "rat \<Rightarrow> string" where
  "positiveToString x =
     (case shortestDigits x (floorLog 10 x + 1) 17 1 of (s, n) \<Rightarrow> formatDigits s n)"

fun NumberToString_js :: "number \<Rightarrow> string" where
  "NumberToString_js NaN = ''NaN''"
| "NumberToString_js PosInfinity = ''Infinity''"
| "NumberToString_js NegInfinity = ''-Infinity''"
| "NumberToString_js (Finite x) =
     (if x = 0 then ''0''
      else if x < 0 then CHR ''-'' # positiveToString (- x)
      else positiveToString x)"

text \<open>
  An environment for the examples, on POSIX: the URL model, a file system given by the
  function \<open>stat\<close> (1 for a directory, 0 for a file, negative otherwise), and the
  package configurations given by \<open>scope\<close> (by the URL of the importing module) and
  \<open>reader\<close> (by the path of the package.json). There is no symbolic link, no builtin
  module, no policy and no option.
\<close>

definition posix_env ::
  "(string \<Rightarrow> int) \<Rightarrow> (string \<Rightarrow> PackageConfig) \<Rightarrow> (string \<Rightarrow> PackageConfig) \<Rightarrow> env" where
  "posix_env stat scope reader =
     \<lparr>URL_new = whatwg_URL_new,
      URLCanParse = (\<lambda>s. \<not> isl (whatwg_URL_new s None)),
      fileURLToPath = posix_fileURLToPath decodeSegment,
      pathToFileURL = plain_pathToFileURL,
      URL_set_search = (\<lambda>u s. u\<lparr>search := s, href := href u @ s\<rparr>),
      URL_set_hash = (\<lambda>u h. u\<lparr>hash := h, href := href u @ h\<rparr>),
      internalModuleStat = stat,
      toNamespacedPath = (\<lambda>p. p),
      sep = ''/'',
      realpathSync = (\<lambda>p. Inr p),
      FSLegacyMainResolve = (\<lambda>u m b. Inl (ERR_MODULE_NOT_FOUND u)),
      getPackageScopeConfig = (\<lambda>b. Inr (scope b)),
      packageJsonReader_read = (\<lambda>p s b. Inr (reader p)),
      canBeRequiredWithoutScheme = (\<lambda>s. False),
      getConditionsSet =
        (\<lambda>c. Inr (case c of None \<Rightarrow> {''node'', ''import''} | Some cs \<Rightarrow> set cs)),
      defaultGetFormatWithoutErrors = (\<lambda>u. None),
      option_preserveSymlinks = False,
      option_preserveSymlinksMain = False,
      option_experimentalNetworkImports = False,
      option_typeFlag = False,
      cwd = ''/'',
      WATCH_REPORT_DEPENDENCIES = False,
      process_send = False,
      policy_manifest = None,
      ToNumber = StringToNumber,
      NumberToString = NumberToString_js\<rparr>"

text \<open>A package configuration that does not exist, and one read from a package.json with
  the given \<^verbatim>\<open>exports\<close>.\<close>

definition noPackage :: PackageConfig where
  "noPackage =
     \<lparr>pexists = False, pjsonPath = [], pname = None, pmain = None, pexports = None,
      pimports = None\<rparr>"

definition packageWithExports :: "string \<Rightarrow> target \<Rightarrow> PackageConfig" where
  "packageWithExports path e =
     \<lparr>pexists = True, pjsonPath = path, pname = None, pmain = None, pexports = Some e,
      pimports = None\<rparr>"

section \<open>Auxiliary notions of the proofs\<close>

text \<open>The invariant of the scan: the state is the initial one, or a key that matches
  with its capture.\<close>

definition scanInv :: "string \<Rightarrow> string \<times> string option \<Rightarrow> bool" where
  "scanInv q st =
     ((fst st = [] \<and> snd st = None) \<or>
      (patternMatches (fst st) q \<and> snd st = Some (patternCapture (fst st) q)))"


text \<open>The outcomes of an element after which the list loop of \<^verbatim>\<open>resolvePackageTarget\<close> goes
  on to the next element: \<^verbatim>\<open>undefined\<close>, \<^verbatim>\<open>null\<close>, and a thrown error with the code
  \<^verbatim>\<open>ERR_INVALID_PACKAGE_TARGET\<close>.\<close>

fun skipsItem :: "resolved completion \<Rightarrow> bool" where
  "skipsItem (Some (Inr Undefined)) = True"
| "skipsItem (Some (Inr Null)) = True"
| "skipsItem (Some (Inr (Resolved u))) = False"
| "skipsItem (Some (Inl e)) = (code e = ''ERR_INVALID_PACKAGE_TARGET'')"
| "skipsItem None = False"

text \<open>Whether the second loop over the keys of a condition object tries a key.\<close>

definition appliesKey :: "string set \<Rightarrow> string \<Rightarrow> bool" where
  "appliesKey conditions key = (key = ''default'' \<or> key \<in> conditions)"

text \<open>
  The example of the witnesses: the module \<^verbatim>\<open>/app/index.js\<close> and the package
  \<^verbatim>\<open>/app/node_modules/pkg\<close>, whose package.json has the \<^verbatim>\<open>exports\<close> below.
\<close>

definition exampleStat :: "string \<Rightarrow> int" where
  "exampleStat path =
     (if path \<in> set [''/'', ''/app'', ''/app/node_modules'', ''/app/node_modules/'',
                      ''/app/node_modules/pkg'', ''/app/node_modules/pkg/lib'']
      then 1
      else if path \<in> set [''/app/index.js'', ''/app/node_modules/pkg/package.json'',
                           ''/app/node_modules/pkg/lib/x.js'', ''/app/node_modules/pkg/n.js'',
                           ''/app/node_modules/secret.js'']
      then 0
      else - 2)"

definition exampleExports :: target where
  "exampleExports =
     TMap [(''.'', TMap [(''node'', TString ''./n.js''), (''default'', TString ''./d.js'')]),
           (''./x'', TString ''./lib/x.js''),
           (''./blocked'', TNull),
           (''./*'', TString ''./src/*'')]"

definition exampleEnv :: env where
  "exampleEnv =
     posix_env exampleStat (\<lambda>base. noPackage)
       (\<lambda>path. if path = ''/app/node_modules/pkg/package.json''
               then packageWithExports path exampleExports else noPackage)"

definition examplePackageJSONUrl :: URL where
  "examplePackageJSONUrl = plain_pathToFileURL ''/app/node_modules/pkg/package.json''"

definition exampleBase :: string where
  "exampleBase = ''file:///app/index.js''"

text \<open>The example with the variable \<^verbatim>\<open>WATCH_REPORT_DEPENDENCIES\<close> set and no channel to a
  parent process, so that \<^verbatim>\<open>process.send\<close> is \<^verbatim>\<open>undefined\<close>.\<close>

definition watchEnv :: env where
  "watchEnv = exampleEnv\<lparr>WATCH_REPORT_DEPENDENCIES := True\<rparr>"

definition examplePackage :: PackageConfig where
  "examplePackage = packageWithExports ''/app/node_modules/pkg/package.json'' exampleExports"

definition smallPackage :: PackageConfig where
  "smallPackage =
     packageWithExports ''/app/node_modules/pkg/package.json''
       (TMap [(''./x'', TString ''./lib/x.js'')])"

definition exampleContext :: ResolveContext where
  "exampleContext =
     \<lparr>context_parentURL = ParentString exampleBase, context_conditions = None\<rparr>"

text \<open>Whether the parent URL of a context parses as a URL with the scheme \<^verbatim>\<open>http:\<close> or
  \<^verbatim>\<open>https:\<close>.\<close>

definition remoteParent :: "env \<Rightarrow> ResolveContext \<Rightarrow> bool" where
  "remoteParent env context =
     (case defaultResolve_parsedParentURL env context of
        None \<Rightarrow> False
      | Some parent \<Rightarrow> protocol parent = ''http:'' \<or> protocol parent = ''https:'')"

text \<open>
  The example with a policy: a manifest that redirects every specifier of every module
  to \<^verbatim>\<open>/app/other.js\<close>, and a manifest that knows no dependency and whose reaction throws
  the error it is given. \<open>remoteContext\<close> is the context of a module loaded over
  \<^verbatim>\<open>https:\<close>, and \<open>dataContext\<close> that of a module that is a \<^verbatim>\<open>data:\<close> URL.
\<close>

definition redirectEnv :: env where
  "redirectEnv =
     exampleEnv\<lparr>policy_manifest :=
       Some (\<lambda>parent. Some \<lparr>mapper_resolve =
                                (\<lambda>specifier conditions.
                                   DestURL (plain_pathToFileURL ''/app/other.js'')),
                              mapper_reaction = (\<lambda>e. None)\<rparr>)\<rparr>"

definition strictEnv :: env where
  "strictEnv =
     exampleEnv\<lparr>policy_manifest :=
       Some (\<lambda>parent. Some \<lparr>mapper_resolve = (\<lambda>specifier conditions. DestMissing),
                              mapper_reaction = (\<lambda>e. Some e)\<rparr>)\<rparr>"

definition importContext :: ResolveContext where
  "importContext =
     \<lparr>context_parentURL = ParentString exampleBase, context_conditions = Some [''import'']\<rparr>"

definition remoteContext :: ResolveContext where
  "remoteContext =
     \<lparr>context_parentURL = ParentString ''https://example.com/mod.js'',
      context_conditions = None\<rparr>"

definition dataContext :: ResolveContext where
  "dataContext =
     \<lparr>context_parentURL = ParentString ''data:text/javascript,1'',
      context_conditions = None\<rparr>"

text \<open>A package whose exports map every subpath to the file of the same name.\<close>

definition mirrorPackage :: PackageConfig where
  "mirrorPackage =
     packageWithExports ''/app/node_modules/pkg/package.json'' (TMap [(''./*'', TString ''./*'')])"

text \<open>The example with another package.json for \<^verbatim>\<open>/app/node_modules/pkg\<close>: its \<^verbatim>\<open>exports\<close> are
  the condition object with the keys \<^verbatim>\<open>1.5\<close> and \<^verbatim>\<open>default\<close>.\<close>

definition fractionEnv :: env where
  "fractionEnv =
     posix_env exampleStat (\<lambda>base. noPackage)
       (\<lambda>path. if path = ''/app/node_modules/pkg/package.json''
               then packageWithExports path
                      (TMap [(''1.5'', TString ''./a.js''), (''default'', TString ''./d.js'')])
               else noPackage)"

section \<open>The pattern matcher selects the best key\<close>

lemma index_from_eq:
  "index_from c s i = (if c \<in> set s then i + int (length (takeWhile (\<lambda>x. x \<noteq> c) s)) else - 1)"
  by (induction s arbitrary: i) auto

lemma indexOf_star:
  "StringPrototypeIndexOf key (CHR ''*'') =
     (if CHR ''*'' \<in> set key then int (length (patternPrefix key)) else - 1)"
  by (simp add: StringPrototypeIndexOf_def index_from_eq patternPrefix_def)

lemma key_decompose:
  "CHR ''*'' \<in> set key \<Longrightarrow> key = patternPrefix key @ CHR ''*'' # patternSuffix key"
proof -
  assume a: "CHR ''*'' \<in> set key"
  have "dropWhile (\<lambda>c. c \<noteq> CHR ''*'') key \<noteq> []" using a by simp
  moreover have "hd (dropWhile (\<lambda>c. c \<noteq> CHR ''*'') key) = CHR ''*''"
    using a hd_dropWhile[of "\<lambda>c. c \<noteq> CHR ''*''" key] by auto
  ultimately have "dropWhile (\<lambda>c. c \<noteq> CHR ''*'') key = CHR ''*'' # patternSuffix key"
    by (cases "dropWhile (\<lambda>c. c \<noteq> CHR ''*'') key") (auto simp: patternSuffix_def)
  then show ?thesis
    using takeWhile_dropWhile_id[of "\<lambda>c. c \<noteq> CHR ''*''" key] by (simp add: patternPrefix_def)
qed

lemma slice_prefix:
  "CHR ''*'' \<in> set key \<Longrightarrow>
     StringPrototypeSlice key 0 (int (length (patternPrefix key))) = patternPrefix key"
proof -
  assume a: "CHR ''*'' \<in> set key"
  have k: "key = patternPrefix key @ CHR ''*'' # patternSuffix key" by (rule key_decompose[OF a])
  have "take (length (patternPrefix key)) key = patternPrefix key"
    by (subst k) simp
  moreover have "length (patternPrefix key) \<le> length key"
    by (subst (2) k) simp
  ultimately show ?thesis
    by (simp add: StringPrototypeSlice_def Let_def min_def)
qed

lemma length_key:
  "CHR ''*'' \<in> set key \<Longrightarrow> length key = length (patternPrefix key) + 1 + length (patternSuffix key)"
  using key_decompose[of key] by (metis add.assoc length_Cons length_append plus_1_eq_Suc)

lemma slice_suffix:
  "CHR ''*'' \<in> set key \<Longrightarrow>
     StringPrototypeSliceFrom key (int (length (patternPrefix key)) + 1) = patternSuffix key"
proof -
  assume a: "CHR ''*'' \<in> set key"
  have k: "key = patternPrefix key @ CHR ''*'' # patternSuffix key" by (rule key_decompose[OF a])
  have l: "length key = length (patternPrefix key) + 1 + length (patternSuffix key)" by (rule length_key[OF a])
  have "drop (length (patternPrefix key) + 1) key = patternSuffix key"
    by (subst k) simp
  then show ?thesis using l
    by (simp add: StringPrototypeSliceFrom_def StringPrototypeSlice_def Let_def min_def nat_add_distrib)
qed

lemma last_index_from_eq:
  "last_index_from c s i found =
     (if c \<in> set s then i + int (length s) - 1 - int (length (takeWhile (\<lambda>x. x \<noteq> c) (rev s))) else found)"
  by (induction s arbitrary: i found) (auto simp: takeWhile_append)

lemma length_takeWhile_lt: "x \<in> set xs \<Longrightarrow> \<not> P x \<Longrightarrow> length (takeWhile P xs) < length xs"
  by (induction xs) auto

lemma prefix_no_star: "CHR ''*'' \<notin> set (patternPrefix key)"
  by (auto simp: patternPrefix_def dest: set_takeWhileD)

lemma count_one_iff:
  assumes a: "CHR ''*'' \<in> set key"
  shows "count_list key (CHR ''*'') = 1 \<longleftrightarrow> CHR ''*'' \<notin> set (patternSuffix key)"
proof -
  have k: "key = patternPrefix key @ CHR ''*'' # patternSuffix key" by (rule key_decompose[OF a])
  have "count_list key (CHR ''*'') = count_list (patternPrefix key) (CHR ''*'') + 1 + count_list (patternSuffix key) (CHR ''*'')"
    by (subst k) simp
  moreover have "count_list (patternPrefix key) (CHR ''*'') = 0"
    using prefix_no_star by (simp add: count_list_0_iff)
  ultimately show ?thesis by (simp add: count_list_0_iff)
qed

lemma lastIndexOf_star:
  assumes a: "CHR ''*'' \<in> set key"
  shows "StringPrototypeLastIndexOf key (CHR ''*'') = int (length (patternPrefix key))
           \<longleftrightarrow> count_list key (CHR ''*'') = 1"
proof -
  let ?p = "patternPrefix key" and ?s = "patternSuffix key"
  have k: "key = ?p @ CHR ''*'' # ?s" by (rule key_decompose[OF a])
  have l: "length key = length ?p + 1 + length ?s" by (rule length_key[OF a])
  have r: "rev key = rev ?s @ CHR ''*'' # rev ?p" by (subst k) simp
  have tw: "length (takeWhile (\<lambda>x. x \<noteq> CHR ''*'') (rev key)) \<le> length ?s"
    by (subst r) (auto simp: takeWhile_append intro: le_trans[OF length_takeWhile_le])
  have tw2: "length (takeWhile (\<lambda>x. x \<noteq> CHR ''*'') (rev key)) = length ?s \<longleftrightarrow> CHR ''*'' \<notin> set ?s"
  proof
    assume e: "length (takeWhile (\<lambda>x. x \<noteq> CHR ''*'') (rev key)) = length ?s"
    show "CHR ''*'' \<notin> set ?s"
    proof
      assume i: "CHR ''*'' \<in> set ?s"
      then have "takeWhile (\<lambda>x. x \<noteq> CHR ''*'') (rev key) = takeWhile (\<lambda>x. x \<noteq> CHR ''*'') (rev ?s)"
        by (subst r) (rule takeWhile_append1[of "CHR ''*''"], auto)
      moreover have "length (takeWhile (\<lambda>x. x \<noteq> CHR ''*'') (rev ?s)) < length (rev ?s)"
        using i by (intro length_takeWhile_lt[of "CHR ''*''"]) auto
      ultimately show False using e by simp
    qed
  next
    assume "CHR ''*'' \<notin> set ?s"
    then show "length (takeWhile (\<lambda>x. x \<noteq> CHR ''*'') (rev key)) = length ?s"
      by (subst r) (simp add: takeWhile_append)
  qed
  have "StringPrototypeLastIndexOf key (CHR ''*'') =
          int (length key) - 1 - int (length (takeWhile (\<lambda>x. x \<noteq> CHR ''*'') (rev key)))"
    using a by (simp add: StringPrototypeLastIndexOf_def last_index_from_eq)
  then show ?thesis using l tw tw2 count_one_iff[OF a] by auto
qed


lemma star_in_match: "patternMatches key q \<Longrightarrow> CHR ''*'' \<in> set key"
proof (rule ccontr)
  assume m: "patternMatches key q" and n: "CHR ''*'' \<notin> set key"
  from n have "count_list key (CHR ''*'') = 0" by (simp add: count_list_0_iff)
  with m show False by (simp add: patternMatches_def)
qed

lemma patternScan_step:
  "patternScan q (key # keys) (b, c) =
     patternScan q keys
       (if patternMatches key q \<and> patternKeyCompare b key = 1
        then (key, Some (patternCapture key q)) else (b, c))"
proof (cases "CHR ''*'' \<in> set key")
  case False
  then have "\<not> patternMatches key q" using star_in_match by blast
  with False show ?thesis by (simp add: indexOf_star)
next
  case True
  let ?p = "patternPrefix key" and ?s = "patternSuffix key"
  have l: "length key = length ?p + 1 + length ?s" by (rule length_key[OF True])
  have cap: "length key \<le> length q \<Longrightarrow>
        StringPrototypeSlice q (int (length ?p)) (int (length q) - int (length ?s)) = patternCapture key q"
    using l by (simp add: StringPrototypeSlice_def Let_def patternCapture_def min_def nat_diff_distrib')
  have m: "patternMatches key q \<longleftrightarrow>
        StringPrototypeStartsWith q ?p \<and> length key \<le> length q \<and>
        StringPrototypeEndsWith q ?s \<and>
        StringPrototypeLastIndexOf key (CHR ''*'') = int (length ?p)"
    using lastIndexOf_star[OF True]
    by (auto simp: patternMatches_def StringPrototypeStartsWith_def StringPrototypeEndsWith_def)
  show ?thesis
    using True cap m
    by (auto simp: indexOf_star slice_prefix slice_suffix Let_def)
qed

lemma compare_empty:
  "CHR ''*'' \<in> set key \<Longrightarrow> patternKeyCompare [] key = 1"
  by (simp add: patternKeyCompare_def indexOf_star Let_def)

lemma compare_star:
  "CHR ''*'' \<in> set b \<Longrightarrow> CHR ''*'' \<in> set key \<Longrightarrow>
   patternKeyCompare b key = 1 \<longleftrightarrow>
     (length (patternPrefix b) < length (patternPrefix key) \<or>
      (length (patternPrefix b) = length (patternPrefix key) \<and> length b < length key))"
  by (auto simp: patternKeyCompare_def indexOf_star Let_def)

lemma patternBetter_trans:
  "patternBetter a b \<Longrightarrow> patternBetter b c \<Longrightarrow> patternBetter a c"
  by (auto simp: patternBetter_def)

lemma patternBetter_refl: "patternBetter a a"
  by (simp add: patternBetter_def)

lemma match_nonempty: "patternMatches k q \<Longrightarrow> k \<noteq> []"
  using star_in_match by fastforce

lemma patternScan_invariant:
  "scanInv q st \<Longrightarrow>
   scanInv q (patternScan q keys st) \<and>
   (fst (patternScan q keys st) = fst st \<or> fst (patternScan q keys st) \<in> set keys) \<and>
   (fst st \<noteq> [] \<longrightarrow>
      fst (patternScan q keys st) \<noteq> [] \<and> patternBetter (fst st) (fst (patternScan q keys st))) \<and>
   (\<forall>k \<in> set keys. patternMatches k q \<longrightarrow>
      fst (patternScan q keys st) \<noteq> [] \<and> patternBetter k (fst (patternScan q keys st)))"
proof (induction keys arbitrary: st)
  case Nil
  then show ?case by (simp add: patternBetter_refl)
next
  case (Cons key keys)
  obtain b c where st: "st = (b, c)" by (cases st)
  have bstar: "b \<noteq> [] \<Longrightarrow> CHR ''*'' \<in> set b"
    using Cons.prems st by (auto simp: scanInv_def dest: star_in_match)
  show ?case
  proof (cases "patternMatches key q \<and> patternKeyCompare b key = 1")
    case True
    then have mk: "patternMatches key q" and cmp: "patternKeyCompare b key = 1" by simp_all
    define st' where "st' = (key, Some (patternCapture key q))"
    define r where "r = patternScan q keys st'"
    have step: "patternScan q (key # keys) st = r"
      unfolding r_def st'_def st by (subst patternScan_step, subst if_P[OF True]) (rule refl)
    have inv': "scanInv q st'" using mk by (simp add: scanInv_def st'_def)
    have kne: "key \<noteq> []" using mk by (rule match_nonempty)
    have f: "fst st' = key" by (simp add: st'_def)
    from Cons.IH[OF inv'] have
      r1: "scanInv q r" and
      r2: "fst r = key \<or> fst r \<in> set keys" and
      r3: "fst r \<noteq> []" "patternBetter key (fst r)" and
      r4: "\<forall>k \<in> set keys. patternMatches k q \<longrightarrow> fst r \<noteq> [] \<and> patternBetter k (fst r)"
      unfolding r_def[symmetric] f using kne by blast+
    have bk: "b \<noteq> [] \<Longrightarrow> patternBetter b key"
      using cmp compare_star[OF bstar star_in_match[OF mk]] by (auto simp: patternBetter_def)
    have c2: "fst r = fst st \<or> fst r \<in> set (key # keys)" using r2 by auto
    have c3: "fst st \<noteq> [] \<longrightarrow> fst r \<noteq> [] \<and> patternBetter (fst st) (fst r)"
      using bk r3 st patternBetter_trans[of b key "fst r"] by simp
    have c4: "\<forall>k \<in> set (key # keys). patternMatches k q \<longrightarrow> fst r \<noteq> [] \<and> patternBetter k (fst r)"
      using r3 r4 by simp
    show ?thesis unfolding step using r1 c2 c3 c4 by (intro conjI)
  next
    case False
    define r where "r = patternScan q keys st"
    have step: "patternScan q (key # keys) st = r"
      unfolding r_def st by (subst patternScan_step, subst if_not_P[OF False]) (rule refl)
    from Cons.IH[OF Cons.prems] have
      r1: "scanInv q r" and
      r2: "fst r = fst st \<or> fst r \<in> set keys" and
      r3: "fst st \<noteq> [] \<longrightarrow> fst r \<noteq> [] \<and> patternBetter (fst st) (fst r)" and
      r4: "\<forall>k \<in> set keys. patternMatches k q \<longrightarrow> fst r \<noteq> [] \<and> patternBetter k (fst r)"
      unfolding r_def[symmetric] by blast+
    have kk: "patternMatches key q \<Longrightarrow> fst r \<noteq> [] \<and> patternBetter key (fst r)"
    proof -
      assume mk: "patternMatches key q"
      with False have nc: "patternKeyCompare b key \<noteq> 1" by simp
      have nb: "b \<noteq> []" using nc compare_empty[OF star_in_match[OF mk]] by auto
      have kb: "patternBetter key b"
        using nc compare_star[OF bstar[OF nb] star_in_match[OF mk]]
        by (auto simp: patternBetter_def)
      from r3 nb st have "fst r \<noteq> []" "patternBetter b (fst r)" by simp_all
      with kb show ?thesis using patternBetter_trans[of key b "fst r"] by simp
    qed
    have c2: "fst r = fst st \<or> fst r \<in> set (key # keys)" using r2 by auto
    have c4: "\<forall>k \<in> set (key # keys). patternMatches k q \<longrightarrow> fst r \<noteq> [] \<and> patternBetter k (fst r)"
      using kk r4 by simp
    show ?thesis unfolding step using r1 c2 r3 c4 by (intro conjI)
  qed
qed

lemma match_unique:
  assumes "patternMatches k q" "patternMatches k' q"
    and "length (patternPrefix k) = length (patternPrefix k')" "length k = length k'"
  shows "k = k'"
proof -
  have s: "CHR ''*'' \<in> set k" "CHR ''*'' \<in> set k'" using assms star_in_match by blast+
  have "length (patternSuffix k) = length (patternSuffix k')"
    using length_key[OF s(1)] length_key[OF s(2)] assms by simp
  moreover have "patternPrefix k = patternPrefix k'"
    using assms by (metis patternMatches_def)
  moreover have "patternSuffix k = patternSuffix k'"
    using assms calculation by (metis patternMatches_def)
  ultimately show ?thesis using key_decompose[OF s(1)] key_decompose[OF s(2)] by simp
qed

lemma patternBetter_antisym:
  "patternMatches k q \<Longrightarrow> patternMatches k' q \<Longrightarrow> patternBetter k k' \<Longrightarrow> patternBetter k' k \<Longrightarrow> k = k'"
  by (rule match_unique[of k q k']) (auto simp: patternBetter_def)

lemma patternScan_result:
  "(if \<exists>k \<in> set keys. patternMatches k q
    then fst (patternScan q keys ([], None)) \<in> set keys \<and>
         patternMatches (fst (patternScan q keys ([], None))) q \<and>
         snd (patternScan q keys ([], None)) =
           Some (patternCapture (fst (patternScan q keys ([], None))) q) \<and>
         (\<forall>k \<in> set keys. patternMatches k q \<longrightarrow>
            patternBetter k (fst (patternScan q keys ([], None))))
    else patternScan q keys ([], None) = ([], None))"
proof -
  have inv: "scanInv q ([], None)" by (simp add: scanInv_def)
  note I = patternScan_invariant[OF inv, of keys]
  let ?r = "patternScan q keys ([], None)"
  show ?thesis
  proof (cases "\<exists>k \<in> set keys. patternMatches k q")
    case True
    then have ne: "fst ?r \<noteq> []" using I by auto
    then have "fst ?r \<in> set keys" using I by auto
    moreover have "patternMatches (fst ?r) q \<and> snd ?r = Some (patternCapture (fst ?r) q)"
      using I ne by (auto simp: scanInv_def)
    ultimately show ?thesis using True I by auto
  next
    case False
    have "fst ?r = []"
    proof (rule ccontr)
      assume ne: "fst ?r \<noteq> []"
      then have "fst ?r \<in> set keys" "patternMatches (fst ?r) q"
        using I by (auto simp: scanInv_def)
      with False show False by blast
    qed
    then have "?r = ([], None)" using I by (auto simp: scanInv_def prod_eq_iff dest: match_nonempty)
    with False show ?thesis by simp
  qed
qed

text \<open>
  Claim C1. For a query \<open>q\<close> and the keys of an exports or imports map, in any order:
  when some key with exactly one \<^verbatim>\<open>*\<close> matches \<open>q\<close>, the scan ends with a key of the map
  that matches \<open>q\<close>, together with its capture, and every matching key has a shorter
  prefix than that key, or a prefix of the same length and at most its length; when no
  key matches, the scan ends as it started. The scan is a total function of the query
  and the keys, and two lists with the same keys give the same result, so the order in
  which the keys are scanned plays no role.
\<close>

theorem patternScan_selects_best:
  "(if \<exists>k \<in> set keys. patternMatches k q
    then fst (patternScan q keys ([], None)) \<in> set keys \<and>
         patternMatches (fst (patternScan q keys ([], None))) q \<and>
         snd (patternScan q keys ([], None)) =
           Some (patternCapture (fst (patternScan q keys ([], None))) q) \<and>
         (\<forall>k \<in> set keys. patternMatches k q \<longrightarrow>
            patternBetter k (fst (patternScan q keys ([], None))))
    else patternScan q keys ([], None) = ([], None)) \<and>
   (\<forall>keys'. set keys' = set keys \<longrightarrow>
      patternScan q keys' ([], None) = patternScan q keys ([], None))"
proof (intro conjI allI impI)
  show "if \<exists>k \<in> set keys. patternMatches k q
    then fst (patternScan q keys ([], None)) \<in> set keys \<and>
         patternMatches (fst (patternScan q keys ([], None))) q \<and>
         snd (patternScan q keys ([], None)) =
           Some (patternCapture (fst (patternScan q keys ([], None))) q) \<and>
         (\<forall>k \<in> set keys. patternMatches k q \<longrightarrow>
            patternBetter k (fst (patternScan q keys ([], None))))
    else patternScan q keys ([], None) = ([], None)"
    by (rule patternScan_result)
next
  fix keys' assume e: "set keys' = set keys"
  let ?r = "patternScan q keys ([], None)" and ?r' = "patternScan q keys' ([], None)"
  show "?r' = ?r"
  proof (cases "\<exists>k \<in> set keys. patternMatches k q")
    case True
    then have T': "\<exists>k \<in> set keys'. patternMatches k q" using e by simp
    from patternScan_result[of keys q] True
    have a: "fst ?r \<in> set keys" "patternMatches (fst ?r) q"
       "snd ?r = Some (patternCapture (fst ?r) q)"
       "\<forall>k \<in> set keys. patternMatches k q \<longrightarrow> patternBetter k (fst ?r)" by auto
    from patternScan_result[of keys' q] T'
    have b: "fst ?r' \<in> set keys'" "patternMatches (fst ?r') q"
       "snd ?r' = Some (patternCapture (fst ?r') q)"
       "\<forall>k \<in> set keys'. patternMatches k q \<longrightarrow> patternBetter k (fst ?r')" by auto
    have "patternBetter (fst ?r') (fst ?r)" using a(4) b(1,2) e by blast
    moreover have "patternBetter (fst ?r) (fst ?r')" using b(4) a(1,2) e by blast
    ultimately have "fst ?r' = fst ?r" using patternBetter_antisym a(2) b(2) by blast
    then show ?thesis using a(3) b(3) by (simp add: prod_eq_iff)
  next
    case False
    then have F': "\<not> (\<exists>k \<in> set keys'. patternMatches k q)" using e by simp
    from patternScan_result[of keys q] False patternScan_result[of keys' q] F'
    show ?thesis by simp
  qed
qed

text \<open>The keys \<^verbatim>\<open>./*\<close>, \<^verbatim>\<open>./a/*.js\<close> and \<^verbatim>\<open>./a/*\<close> all match \<^verbatim>\<open>./a/b.js\<close>; the scan
  selects \<^verbatim>\<open>./a/*.js\<close>, in either order of the keys.\<close>

theorem patternScan_selects_best_witness:
  "(\<exists>k \<in> set [''./*'', ''./a/*.js'', ''./a/*'']. patternMatches k ''./a/b.js'') \<and>
   patternMatches ''./a/*'' ''./a/b.js'' \<and>
   patternScan ''./a/b.js'' [''./*'', ''./a/*.js'', ''./a/*''] ([], None) = (''./a/*.js'', Some ''b'') \<and>
   patternBetter ''./a/*'' (fst (patternScan ''./a/b.js'' [''./*'', ''./a/*.js'', ''./a/*''] ([], None))) \<and>
   patternScan ''./a/b.js'' [''./a/*'', ''./a/*.js'', ''./*''] ([], None) =
     patternScan ''./a/b.js'' [''./*'', ''./a/*.js'', ''./a/*''] ([], None)"
proof -
  let ?keys = "[''./*'', ''./a/*.js'', ''./a/*'']" and ?q = "''./a/b.js''"
  have m: "patternMatches ''./a/*'' ?q"
    by code_simp
  have i: "''./a/*'' \<in> set ?keys"
    by simp
  have ex: "\<exists>k \<in> set ?keys. patternMatches k ?q"
    using m i by (rule_tac x = "''./a/*''" in bexI)
  have e: "patternScan ?q ?keys ([], None) = (''./a/*.js'', Some ''b'')"
    by code_simp
  have s: "set [''./a/*'', ''./a/*.js'', ''./*''] = set ?keys"
    by auto
  note T = patternScan_selects_best[of ?keys ?q]
  note A = conjunct1[OF T, unfolded if_P[OF ex]]
  have b: "patternBetter ''./a/*'' (fst (patternScan ?q ?keys ([], None)))"
    by (rule mp[OF bspec[OF conjunct2[OF conjunct2[OF conjunct2[OF A]]] i] m])
  have o: "patternScan ?q [''./a/*'', ''./a/*.js'', ''./*''] ([], None) =
     patternScan ?q ?keys ([], None)"
    by (rule mp[OF spec[OF conjunct2[OF T]] s])
  from ex m e b o show ?thesis by (intro conjI)
qed

section \<open>Targets that are lists and condition objects\<close>

lemma items_stop:
  assumes "\<forall>x \<in> set pre. skipsItem (resolveTarget env rs u ps cs x)"
    and "\<not> skipsItem (resolveTarget env rs u ps cs t)"
  shows "resolveTarget_items env rs u ps cs (pre @ t # post) last0 = resolveTarget env rs u ps cs t"
  using assms
proof (induction pre arbitrary: last0)
  case Nil
  then show ?case
    by (cases "resolveTarget env rs u ps cs t" rule: skipsItem.cases) auto
next
  case (Cons x pre)
  from Cons.prems have sx: "skipsItem (resolveTarget env rs u ps cs x)" by simp
  from Cons.prems have rest: "\<forall>y \<in> set pre. skipsItem (resolveTarget env rs u ps cs y)" by simp
  show ?case
    using sx Cons.IH[OF rest Cons.prems(2)]
    by (cases "resolveTarget env rs u ps cs x" rule: skipsItem.cases) auto
qed

lemma items_skip:
  assumes "\<forall>x \<in> set ts. skipsItem (resolveTarget env rs u ps cs x)"
  shows "resolveTarget_items env rs u ps cs ts last0 =
           (if filter (\<lambda>r. r \<noteq> Return Undefined) (map (resolveTarget env rs u ps cs) ts) = []
            then (case last0 of
                    LastUndefined \<Rightarrow> Return Undefined
                  | LastNull \<Rightarrow> Return Null
                  | LastError e \<Rightarrow> Throw e)
            else last (filter (\<lambda>r. r \<noteq> Return Undefined) (map (resolveTarget env rs u ps cs) ts)))"
  using assms
proof (induction ts arbitrary: last0)
  case Nil
  then show ?case by simp
next
  case (Cons x ts)
  from Cons.prems have sx: "skipsItem (resolveTarget env rs u ps cs x)" by simp
  from Cons.prems have rest: "\<forall>y \<in> set ts. skipsItem (resolveTarget env rs u ps cs y)" by simp
  note IH = Cons.IH[OF rest]
  show ?case
    using sx
  proof (cases "resolveTarget env rs u ps cs x" rule: skipsItem.cases)
    case 1
    then show ?thesis by (simp add: IH)
  next
    case 2
    then show ?thesis by (simp add: IH)
  next
    case (3 v)
    with sx show ?thesis by simp
  next
    case (4 e)
    with sx show ?thesis by (simp add: IH)
  next
    case 5
    with sx show ?thesis by simp
  qed
qed

text \<open>
  Claim C2. For a target that is a list: the empty list gives \<^verbatim>\<open>null\<close>. The elements are
  tried in order. An element that gives \<^verbatim>\<open>undefined\<close> or \<^verbatim>\<open>null\<close> or throws an error with the
  code \<^verbatim>\<open>ERR_INVALID_PACKAGE_TARGET\<close> is passed over (these are the outcomes of
  \<open>skipsItem\<close>); the first element with another outcome, that is a URL or another
  error (or a call that does not return), decides the result at once, whatever comes
  after it. When every element of a list that is not empty is passed over, the
  result is \<^verbatim>\<open>undefined\<close> if every element gave \<^verbatim>\<open>undefined\<close>, and otherwise the outcome of
  the last element that did not: \<^verbatim>\<open>null\<close>, or the error it threw, thrown again.
\<close>

theorem resolvePackageTarget_list:
  "resolvePackageTarget env pr packageJSONUrl (TList []) subpath packageSubpath base pattern
     internal isPathMap conditions = Return Null \<and>
   (\<forall>pre t post.
      (\<forall>x \<in> set pre.
         skipsItem (resolvePackageTarget env pr packageJSONUrl x subpath packageSubpath base
                      pattern internal isPathMap conditions)) \<and>
      \<not> skipsItem (resolvePackageTarget env pr packageJSONUrl t subpath packageSubpath base
                     pattern internal isPathMap conditions) \<longrightarrow>
      resolvePackageTarget env pr packageJSONUrl (TList (pre @ t # post)) subpath
        packageSubpath base pattern internal isPathMap conditions =
      resolvePackageTarget env pr packageJSONUrl t subpath packageSubpath base pattern
        internal isPathMap conditions) \<and>
   (\<forall>ts.
      ts \<noteq> [] \<and>
      (\<forall>x \<in> set ts.
         skipsItem (resolvePackageTarget env pr packageJSONUrl x subpath packageSubpath base
                      pattern internal isPathMap conditions)) \<longrightarrow>
      resolvePackageTarget env pr packageJSONUrl (TList ts) subpath packageSubpath base
        pattern internal isPathMap conditions =
      (if filter (\<lambda>r. r \<noteq> Return Undefined)
            (map (\<lambda>x. resolvePackageTarget env pr packageJSONUrl x subpath packageSubpath
                        base pattern internal isPathMap conditions) ts) = []
       then Return Undefined
       else last (filter (\<lambda>r. r \<noteq> Return Undefined)
                   (map (\<lambda>x. resolvePackageTarget env pr packageJSONUrl x subpath
                               packageSubpath base pattern internal isPathMap conditions)
                      ts))))"
proof (intro conjI allI impI)
  show "resolvePackageTarget env pr packageJSONUrl (TList []) subpath packageSubpath base
          pattern internal isPathMap conditions = Return Null"
    by (simp add: resolvePackageTarget_def)
next
  fix pre t post
  assume "(\<forall>x \<in> set pre.
         skipsItem (resolvePackageTarget env pr packageJSONUrl x subpath packageSubpath base
                      pattern internal isPathMap conditions)) \<and>
      \<not> skipsItem (resolvePackageTarget env pr packageJSONUrl t subpath packageSubpath base
                     pattern internal isPathMap conditions)"
  then show "resolvePackageTarget env pr packageJSONUrl (TList (pre @ t # post)) subpath
        packageSubpath base pattern internal isPathMap conditions =
      resolvePackageTarget env pr packageJSONUrl t subpath packageSubpath base pattern
        internal isPathMap conditions"
    unfolding resolvePackageTarget_def
    by (simp add: items_stop)
next
  fix ts :: "target list"
  assume a: "ts \<noteq> [] \<and>
      (\<forall>x \<in> set ts.
         skipsItem (resolvePackageTarget env pr packageJSONUrl x subpath packageSubpath base
                      pattern internal isPathMap conditions))"
  then show "resolvePackageTarget env pr packageJSONUrl (TList ts) subpath packageSubpath base
        pattern internal isPathMap conditions =
      (if filter (\<lambda>r. r \<noteq> Return Undefined)
            (map (\<lambda>x. resolvePackageTarget env pr packageJSONUrl x subpath packageSubpath
                        base pattern internal isPathMap conditions) ts) = []
       then Return Undefined
       else last (filter (\<lambda>r. r \<noteq> Return Undefined)
                   (map (\<lambda>x. resolvePackageTarget env pr packageJSONUrl x subpath
                               packageSubpath base pattern internal isPathMap conditions)
                      ts)))"
    unfolding resolvePackageTarget_def
    by (simp add: items_skip)
qed

text \<open>The list \<^verbatim>\<open>["not-relative", "./y.js", null]\<close> resolves to \<^verbatim>\<open>y.js\<close> in the package: the
  first element throws \<^verbatim>\<open>ERR_INVALID_PACKAGE_TARGET\<close> and is passed over, the third is not
  tried. The list \<^verbatim>\<open>[null, "not-relative"]\<close> throws the error of its second element.\<close>

theorem resolvePackageTarget_list_witness:
  "skipsItem (resolvePackageTarget exampleEnv (packageResolve exampleEnv) examplePackageJSONUrl
       (TString ''not-relative'') [] ''./x'' (Some exampleBase) False False False {''import''}) \<and>
   \<not> skipsItem (resolvePackageTarget exampleEnv (packageResolve exampleEnv) examplePackageJSONUrl
       (TString ''./y.js'') [] ''./x'' (Some exampleBase) False False False {''import''}) \<and>
   resolvePackageTarget exampleEnv (packageResolve exampleEnv) examplePackageJSONUrl
       (TList [TString ''not-relative'', TString ''./y.js'', TNull]) [] ''./x'' (Some exampleBase) False False False {''import''} =
     Return (Resolved \<lparr>href = ''file:///app/node_modules/pkg/y.js'', protocol = ''file:'',
          pathname = ''/app/node_modules/pkg/y.js'', search = [], hash = []\<rparr>) \<and>
   [TNull, TString ''not-relative''] \<noteq> [] \<and>
   resolvePackageTarget exampleEnv (packageResolve exampleEnv) examplePackageJSONUrl
       (TList [TNull, TString ''not-relative'']) [] ''./x'' (Some exampleBase) False False False {''import''} =
     Throw (ERR_INVALID_PACKAGE_TARGET ''./x'' (TString ''not-relative''))"
proof -
  let ?R = "\<lambda>t. resolvePackageTarget exampleEnv (packageResolve exampleEnv)
               examplePackageJSONUrl t [] ''./x'' (Some exampleBase) False False False
               {''import''}"
  have bad: "?R (TString ''not-relative'') = Throw (ERR_INVALID_PACKAGE_TARGET ''./x'' (TString ''not-relative''))"
    by code_simp
  have good: "?R (TString ''./y.js'') = Return (Resolved \<lparr>href = ''file:///app/node_modules/pkg/y.js'', protocol = ''file:'',
          pathname = ''/app/node_modules/pkg/y.js'', search = [], hash = []\<rparr>)"
    by code_simp
  have null: "?R TNull = Return Null"
    by code_simp
  note T = resolvePackageTarget_list[of exampleEnv "packageResolve exampleEnv"
      examplePackageJSONUrl "[]" "''./x''" "Some exampleBase" False False False "{''import''}"]
  have s1: "skipsItem (?R (TString ''not-relative''))"
    by (simp add: bad)
  have s2: "\<not> skipsItem (?R (TString ''./y.js''))"
    by (simp add: good)
  have h1: "(\<forall>x \<in> set [TString ''not-relative'']. skipsItem (?R x)) \<and> \<not> skipsItem (?R (TString ''./y.js''))"
    using s1 s2 by simp
  have r1: "?R (TList ([TString ''not-relative''] @ TString ''./y.js'' # [TNull])) = ?R (TString ''./y.js'')"
    by (rule mp[OF spec[OF spec[OF spec[OF conjunct1[OF conjunct2[OF T]]]]] h1])
  have h2: "[TNull, TString ''not-relative''] \<noteq> [] \<and> (\<forall>x \<in> set [TNull, TString ''not-relative'']. skipsItem (?R x))"
    by (simp add: bad null)
  have r2: "?R (TList [TNull, TString ''not-relative'']) =
      (if filter (\<lambda>r. r \<noteq> Return Undefined) (map ?R [TNull, TString ''not-relative'']) = []
       then Return Undefined
       else last (filter (\<lambda>r. r \<noteq> Return Undefined) (map ?R [TNull, TString ''not-relative''])))"
    by (rule mp[OF spec[OF conjunct2[OF conjunct2[OF T]]] h2])
  have r2': "?R (TList [TNull, TString ''not-relative'']) = Throw (ERR_INVALID_PACKAGE_TARGET ''./x'' (TString ''not-relative''))"
    unfolding r2 by (simp add: bad null)
  from r1 have r1': "?R (TList [TString ''not-relative'', TString ''./y.js'', TNull]) =
      Return (Resolved \<lparr>href = ''file:///app/node_modules/pkg/y.js'', protocol = ''file:'',
          pathname = ''/app/node_modules/pkg/y.js'', search = [], hash = []\<rparr>)"
    by (simp add: good)
  from s1 s2 r1' r2' show ?thesis by simp
qed

lemma keys_none:
  assumes "\<forall>(k, v) \<in> set entries.
             appliesKey cs k \<longrightarrow> resolveTarget env rs u ps cs v = Return Undefined"
  shows "resolveTarget_keys env rs u ps cs entries = Return Undefined"
  using assms
  by (induction entries) (auto simp: appliesKey_def)

lemma keys_first:
  assumes "\<forall>(k', v') \<in> set pre.
             appliesKey cs k' \<longrightarrow> resolveTarget env rs u ps cs v' = Return Undefined"
    and "appliesKey cs k"
    and "resolveTarget env rs u ps cs v \<noteq> Return Undefined"
  shows "resolveTarget_keys env rs u ps cs (pre @ (k, v) # post) = resolveTarget env rs u ps cs v"
  using assms
proof (induction pre)
  case Nil
  then show ?case
    by (cases "resolveTarget env rs u ps cs v" rule: skipsItem.cases)
       (auto simp: appliesKey_def)
next
  case (Cons x pre)
  obtain k' v' where x: "x = (k', v')" by (cases x)
  from Cons.prems x have h: "appliesKey cs k' \<longrightarrow> resolveTarget env rs u ps cs v' = Return Undefined"
    by simp
  from Cons.prems have rest:
    "\<forall>(k', v') \<in> set pre. appliesKey cs k' \<longrightarrow> resolveTarget env rs u ps cs v' = Return Undefined"
    by simp
  show ?case
    using h Cons.IH[OF rest Cons.prems(2,3)] x
    by (auto simp: appliesKey_def)
qed

text \<open>
  A target that is a condition object. When \<^verbatim>\<open>isArrayIndex\<close> holds of some key,
  \<^verbatim>\<open>ERR_INVALID_PACKAGE_CONFIG\<close> is thrown whatever the values, the conditions and the
  outcome of resolving any value are, so before any branch is tried. Otherwise the keys
  are visited in their order: the result is the outcome of the first key that is
  \<^verbatim>\<open>default\<close> or a member of the conditions and whose value does not resolve to
  \<^verbatim>\<open>undefined\<close>, and it is \<^verbatim>\<open>undefined\<close> when there is no such key.
\<close>

lemma resolvePackageTarget_map:
  "(list_ex (isArrayIndex env) (map fst entries) \<longrightarrow>
      resolvePackageTarget env pr packageJSONUrl (TMap entries) subpath packageSubpath base
        pattern internal isPathMap conditions =
      Throw (ERR_INVALID_PACKAGE_CONFIG (href packageJSONUrl)
               ''\"exports\" cannot contain numeric property keys.'')) \<and>
   (\<not> list_ex (isArrayIndex env) (map fst entries) \<longrightarrow>
      (\<forall>pre k v post.
         entries = pre @ (k, v) # post \<and>
         (\<forall>(k', v') \<in> set pre.
            appliesKey conditions k' \<longrightarrow>
            resolvePackageTarget env pr packageJSONUrl v' subpath packageSubpath base pattern
              internal isPathMap conditions = Return Undefined) \<and>
         appliesKey conditions k \<and>
         resolvePackageTarget env pr packageJSONUrl v subpath packageSubpath base pattern
           internal isPathMap conditions \<noteq> Return Undefined \<longrightarrow>
         resolvePackageTarget env pr packageJSONUrl (TMap entries) subpath packageSubpath
           base pattern internal isPathMap conditions =
         resolvePackageTarget env pr packageJSONUrl v subpath packageSubpath base pattern
           internal isPathMap conditions) \<and>
      ((\<forall>(k, v) \<in> set entries.
          appliesKey conditions k \<longrightarrow>
          resolvePackageTarget env pr packageJSONUrl v subpath packageSubpath base pattern
            internal isPathMap conditions = Return Undefined) \<longrightarrow>
       resolvePackageTarget env pr packageJSONUrl (TMap entries) subpath packageSubpath base
         pattern internal isPathMap conditions = Return Undefined))"
proof (intro conjI allI impI)
  assume "list_ex (isArrayIndex env) (map fst entries)"
  then show "resolvePackageTarget env pr packageJSONUrl (TMap entries) subpath packageSubpath
        base pattern internal isPathMap conditions =
      Throw (ERR_INVALID_PACKAGE_CONFIG (href packageJSONUrl)
               ''\"exports\" cannot contain numeric property keys.'')"
    by (simp add: resolvePackageTarget_def)
next
  fix pre k v post
  assume n: "\<not> list_ex (isArrayIndex env) (map fst entries)"
  assume a: "entries = pre @ (k, v) # post \<and>
         (\<forall>(k', v') \<in> set pre.
            appliesKey conditions k' \<longrightarrow>
            resolvePackageTarget env pr packageJSONUrl v' subpath packageSubpath base pattern
              internal isPathMap conditions = Return Undefined) \<and>
         appliesKey conditions k \<and>
         resolvePackageTarget env pr packageJSONUrl v subpath packageSubpath base pattern
           internal isPathMap conditions \<noteq> Return Undefined"
  from a have e: "entries = pre @ (k, v) # post" by simp
  have "resolvePackageTarget env pr packageJSONUrl (TMap (pre @ (k, v) # post)) subpath
          packageSubpath base pattern internal isPathMap conditions =
        resolvePackageTarget env pr packageJSONUrl v subpath packageSubpath base pattern
          internal isPathMap conditions"
    using n a unfolding resolvePackageTarget_def e
    by (simp only: resolveTarget.simps if_False) (rule keys_first, auto)
  then show "resolvePackageTarget env pr packageJSONUrl (TMap entries) subpath packageSubpath
           base pattern internal isPathMap conditions =
         resolvePackageTarget env pr packageJSONUrl v subpath packageSubpath base pattern
           internal isPathMap conditions"
    by (simp only: e)
next
  assume n: "\<not> list_ex (isArrayIndex env) (map fst entries)"
  assume a: "\<forall>(k, v) \<in> set entries.
          appliesKey conditions k \<longrightarrow>
          resolvePackageTarget env pr packageJSONUrl v subpath packageSubpath base pattern
            internal isPathMap conditions = Return Undefined"
  show "resolvePackageTarget env pr packageJSONUrl (TMap entries) subpath packageSubpath base
         pattern internal isPathMap conditions = Return Undefined"
    using n a unfolding resolvePackageTarget_def
    by (simp only: resolveTarget.simps if_False) (rule keys_none, auto)
qed

text \<open>With the conditions \<^verbatim>\<open>node\<close> and \<^verbatim>\<open>import\<close>: the object with the keys \<^verbatim>\<open>browser\<close>, \<^verbatim>\<open>node\<close>
  and \<^verbatim>\<open>default\<close> resolves to the target of \<^verbatim>\<open>node\<close>; an object with the key \<^verbatim>\<open>0\<close> is
  refused although no condition selects that key; the object with the only key
  \<^verbatim>\<open>browser\<close> gives \<^verbatim>\<open>undefined\<close>.\<close>

lemma resolvePackageTarget_map_example:
  "\<not> list_ex (isArrayIndex exampleEnv) (map fst [(''browser'', TString ''./b.js''), (''node'', TString ''./n.js''), (''default'', TString ''./d.js'')]) \<and>
   appliesKey {''node'', ''import''} ''node'' \<and>
   resolvePackageTarget exampleEnv (packageResolve exampleEnv) examplePackageJSONUrl
       (TMap [(''browser'', TString ''./b.js''), (''node'', TString ''./n.js''), (''default'', TString ''./d.js'')]) [] ''.'' (Some exampleBase) False False False {''node'', ''import''} =
     Return (Resolved \<lparr>href = ''file:///app/node_modules/pkg/n.js'', protocol = ''file:'',
          pathname = ''/app/node_modules/pkg/n.js'', search = [], hash = []\<rparr>) \<and>
   list_ex (isArrayIndex exampleEnv) (map fst [(''browser'', TString ''./b.js''), (''0'', TNull)]) \<and>
   resolvePackageTarget exampleEnv (packageResolve exampleEnv) examplePackageJSONUrl
       (TMap [(''browser'', TString ''./b.js''), (''0'', TNull)]) [] ''.'' (Some exampleBase) False False False {''node'', ''import''} =
     Throw (ERR_INVALID_PACKAGE_CONFIG (href examplePackageJSONUrl)
              ''\"exports\" cannot contain numeric property keys.'') \<and>
   \<not> list_ex (isArrayIndex exampleEnv) (map fst [(''browser'', TString ''./b.js'')]) \<and>
   resolvePackageTarget exampleEnv (packageResolve exampleEnv) examplePackageJSONUrl
       (TMap [(''browser'', TString ''./b.js'')]) [] ''.'' (Some exampleBase) False False False {''node'', ''import''} = Return Undefined"
proof -
  let ?R = "\<lambda>t. resolvePackageTarget exampleEnv (packageResolve exampleEnv)
               examplePackageJSONUrl t [] ''.'' (Some exampleBase) False False False
               {''node'', ''import''}"
  have n1: "\<not> list_ex (isArrayIndex exampleEnv) (map fst [(''browser'', TString ''./b.js''), (''node'', TString ''./n.js''), (''default'', TString ''./d.js'')])"
    by code_simp
  have n2: "list_ex (isArrayIndex exampleEnv) (map fst [(''browser'', TString ''./b.js''), (''0'', TNull)])"
    by code_simp
  have n3: "\<not> list_ex (isArrayIndex exampleEnv) (map fst [(''browser'', TString ''./b.js'')])"
    by code_simp
  have a: "appliesKey {''node'', ''import''} ''node''"
    by (simp add: appliesKey_def)
  have na: "\<not> appliesKey {''node'', ''import''} ''browser''"
    by (simp add: appliesKey_def)
  have v: "?R (TString ''./n.js'') = Return (Resolved \<lparr>href = ''file:///app/node_modules/pkg/n.js'', protocol = ''file:'',
          pathname = ''/app/node_modules/pkg/n.js'', search = [], hash = []\<rparr>)"
    by code_simp
  note T1 = resolvePackageTarget_map[of exampleEnv "[(''browser'', TString ''./b.js''), (''node'', TString ''./n.js''), (''default'', TString ''./d.js'')]" "packageResolve exampleEnv"
      examplePackageJSONUrl "[]" "''.''" "Some exampleBase" False False False
      "{''node'', ''import''}"]
  note T2 = resolvePackageTarget_map[of exampleEnv "[(''browser'', TString ''./b.js''), (''0'', TNull)]" "packageResolve exampleEnv"
      examplePackageJSONUrl "[]" "''.''" "Some exampleBase" False False False
      "{''node'', ''import''}"]
  note T3 = resolvePackageTarget_map[of exampleEnv "[(''browser'', TString ''./b.js'')]" "packageResolve exampleEnv"
      examplePackageJSONUrl "[]" "''.''" "Some exampleBase" False False False
      "{''node'', ''import''}"]
  have h1: "[(''browser'', TString ''./b.js''), (''node'', TString ''./n.js''), (''default'', TString ''./d.js'')] = [(''browser'', TString ''./b.js'')] @ (''node'', TString ''./n.js'') #
                [(''default'', TString ''./d.js'')] \<and>
         (\<forall>(k', v') \<in> set [(''browser'', TString ''./b.js'')].
            appliesKey {''node'', ''import''} k' \<longrightarrow> ?R v' = Return Undefined) \<and>
         appliesKey {''node'', ''import''} ''node'' \<and>
         ?R (TString ''./n.js'') \<noteq> Return Undefined"
    using a na by (simp add: v)
  have r1: "?R (TMap [(''browser'', TString ''./b.js''), (''node'', TString ''./n.js''), (''default'', TString ''./d.js'')]) = ?R (TString ''./n.js'')"
    by (rule mp[OF spec[OF spec[OF spec[OF spec[OF
          conjunct1[OF mp[OF conjunct2[OF T1] n1]]]]]] h1])
  have r2: "?R (TMap [(''browser'', TString ''./b.js''), (''0'', TNull)]) =
     Throw (ERR_INVALID_PACKAGE_CONFIG (href examplePackageJSONUrl)
              ''\"exports\" cannot contain numeric property keys.'')"
    by (rule mp[OF conjunct1[OF T2] n2])
  have h3: "\<forall>(k, v) \<in> set [(''browser'', TString ''./b.js'')].
          appliesKey {''node'', ''import''} k \<longrightarrow> ?R v = Return Undefined"
    using na by simp
  have r3: "?R (TMap [(''browser'', TString ''./b.js'')]) = Return Undefined"
    by (rule mp[OF conjunct2[OF mp[OF conjunct2[OF T3] n3]] h3])
  from n1 a r1 v n2 r2 n3 r3 show ?thesis by simp
qed

text \<open>
  Claim C3 says that a condition object is refused when one of its keys is an array
  index, and that otherwise its keys are visited in their order. \<^verbatim>\<open>isArrayIndex\<close> asks
  that the key be the string of its own number and that the number be at least 0 and
  below \<open>2^32 - 1\<close>; it does not ask that the number be an integer. So it holds of the
  array indices, such as \<^verbatim>\<open>0\<close>, \<^verbatim>\<open>17\<close> and the greatest one \<^verbatim>\<open>4294967294\<close>, and not of
  \<^verbatim>\<open>4294967295\<close>, \<^verbatim>\<open>-1\<close>, \<^verbatim>\<open>01\<close> or \<^verbatim>\<open>1e3\<close>, but also of \<^verbatim>\<open>1.5\<close>, which is the string of the
  number 1.5 and no array index. The condition object with the keys \<^verbatim>\<open>1.5\<close> and \<^verbatim>\<open>default\<close>
  is refused with \<^verbatim>\<open>ERR_INVALID_PACKAGE_CONFIG\<close>, where the claim gives the target of
  \<^verbatim>\<open>default\<close>, as for the keys \<^verbatim>\<open>x.5\<close> and \<^verbatim>\<open>default\<close>; and so is the import of a package
  with these exports.
\<close>

theorem isArrayIndex_accepts_fraction:
  "ToNumber exampleEnv ''1.5'' = Finite (3 / 2) \<and>
   NumberToString exampleEnv (Finite (3 / 2)) = ''1.5'' \<and>
   map (isArrayIndex exampleEnv)
     [''0'', ''17'', ''4294967294'', ''4294967295'', ''-1'', ''01'', ''1e3'', ''default'', ''1.5''] =
     [True, True, True, False, False, False, False, False, True] \<and>
   resolvePackageTarget exampleEnv (packageResolve exampleEnv) examplePackageJSONUrl
       (TMap [(''1.5'', TString ''./a.js''), (''default'', TString ''./d.js'')])
       [] ''.'' (Some exampleBase) False False False {''node'', ''import''} =
     Throw (ERR_INVALID_PACKAGE_CONFIG (href examplePackageJSONUrl)
              ''\"exports\" cannot contain numeric property keys.'') \<and>
   resolvePackageTarget exampleEnv (packageResolve exampleEnv) examplePackageJSONUrl
       (TMap [(''x.5'', TString ''./a.js''), (''default'', TString ''./d.js'')])
       [] ''.'' (Some exampleBase) False False False {''node'', ''import''} =
     Return (Resolved \<lparr>href = ''file:///app/node_modules/pkg/d.js'', protocol = ''file:'',
          pathname = ''/app/node_modules/pkg/d.js'', search = [], hash = []\<rparr>) \<and>
   defaultResolve fractionEnv ''pkg'' exampleContext =
     Some ([], Inl (ERR_INVALID_PACKAGE_CONFIG ''file:///app/node_modules/pkg/package.json''
                      ''\"exports\" cannot contain numeric property keys.''))"
  by code_simp

section \<open>Finalization\<close>

lemma slice_last:
  "StringPrototypeEndsWith path ''/'' \<Longrightarrow> StringPrototypeSliceFrom path (- 1) = ''/''"
proof -
  assume a: "StringPrototypeEndsWith path ''/''"
  then have l: "1 \<le> length path" and d: "drop (length path - 1) path = ''/''"
    by (simp_all add: StringPrototypeEndsWith_def)
  have "nat (int (length path) - 1) = length path - 1" using l by simp
  moreover have "max (int (length path) - 1) 0 = int (length path) - 1" using l by simp
  ultimately show ?thesis
    using l d
    by (simp add: StringPrototypeSliceFrom_def StringPrototypeSlice_def Let_def)
qed

text \<open>
  Claim C7, as amended. Let the base be one that \<^verbatim>\<open>fileURLToPath\<close> converts to a path. When
  the pathname of the URL matches \<^verbatim>\<open>encodedSepRegEx\<close>, \<^verbatim>\<open>ERR_INVALID_MODULE_SPECIFIER\<close> is
  thrown. Otherwise the URL is converted to a path (an error of the conversion is thrown
  as it is) and the file system is probed: for a directory \<^verbatim>\<open>ERR_UNSUPPORTED_DIR_IMPORT\<close> is
  thrown; for what is neither a directory nor a file \<^verbatim>\<open>ERR_MODULE_NOT_FOUND\<close> is thrown, and
  a \<^verbatim>\<open>watch:require\<close> message is sent exactly when the variable
  \<^verbatim>\<open>WATCH_REPORT_DEPENDENCIES\<close> is set and \<^verbatim>\<open>process.send\<close> is defined; a URL is returned only
  for a file.
\<close>

theorem finalizeResolution_outcomes:
  "fileURLToPath_base env base = Inr basePath \<longrightarrow>
   (RegExpPrototypeExec_notNull encodedSepRegEx (pathname resolved) \<longrightarrow>
      finalizeResolution env resolved base preserve =
        ([], Inl (ERR_INVALID_MODULE_SPECIFIER (pathname resolved)
                    ''must not include encoded separator characters''))) \<and>
   (\<not> RegExpPrototypeExec_notNull encodedSepRegEx (pathname resolved) \<longrightarrow>
      (\<forall>e. fileURLToPath env resolved = Inl e \<longrightarrow>
           finalizeResolution env resolved base preserve = ([], Inl e)) \<and>
      (\<forall>path. fileURLToPath env resolved = Inr path \<longrightarrow>
         (internalModuleStat env (toNamespacedPath env
            (if StringPrototypeEndsWith path ''/''
             then StringPrototypeSliceFrom path (- 1) else path)) = 1 \<longrightarrow>
          finalizeResolution env resolved base preserve =
            ([], Inl (ERR_UNSUPPORTED_DIR_IMPORT path))) \<and>
         (internalModuleStat env (toNamespacedPath env
            (if StringPrototypeEndsWith path ''/''
             then StringPrototypeSliceFrom path (- 1) else path)) \<notin> {0, 1} \<longrightarrow>
          finalizeResolution env resolved base preserve =
            (if WATCH_REPORT_DEPENDENCIES env \<and> process_send env
             then [[if path \<noteq> [] then path else pathname resolved]] else [],
             Inl (ERR_MODULE_NOT_FOUND (if path \<noteq> [] then path else pathname resolved)))) \<and>
         ((\<exists>u. snd (finalizeResolution env resolved base preserve) = Inr u) \<longrightarrow>
          internalModuleStat env (toNamespacedPath env
            (if StringPrototypeEndsWith path ''/''
             then StringPrototypeSliceFrom path (- 1) else path)) = 0)))"
  by (auto simp: finalizeResolution_def Let_def split: sum.splits if_splits)

text \<open>In the example, with the importing module \<^verbatim>\<open>/app/index.js\<close>:
  \<^verbatim>\<open>/app/node_modules/pkg/lib\<close> is a directory, \<^verbatim>\<open>/app/missing.js\<close> does not exist and
  \<^verbatim>\<open>/app/node_modules/pkg/lib/x.js\<close> is a file.\<close>

theorem finalizeResolution_outcomes_witness:
  "fileURLToPath_base exampleEnv (ParentString exampleBase) = Inr ''/app/index.js'' \<and>
   RegExpPrototypeExec_notNull encodedSepRegEx ''/app/a%2Fb.js'' \<and>
   finalizeResolution exampleEnv
     \<lparr>href = ''file:///app/a%2Fb.js'', protocol = ''file:'', pathname = ''/app/a%2Fb.js'',
      search = [], hash = []\<rparr> (ParentString exampleBase) False =
     ([], Inl (ERR_INVALID_MODULE_SPECIFIER ''/app/a%2Fb.js''
                 ''must not include encoded separator characters'')) \<and>
   finalizeResolution exampleEnv (plain_pathToFileURL ''/app/node_modules/pkg/lib'')
     (ParentString exampleBase) False =
     ([], Inl (ERR_UNSUPPORTED_DIR_IMPORT ''/app/node_modules/pkg/lib'')) \<and>
   finalizeResolution exampleEnv (plain_pathToFileURL ''/app/missing.js'')
     (ParentString exampleBase) False =
     ([], Inl (ERR_MODULE_NOT_FOUND ''/app/missing.js'')) \<and>
   snd (finalizeResolution exampleEnv (plain_pathToFileURL ''/app/node_modules/pkg/lib/x.js'')
          (ParentString exampleBase) False) =
     Inr (plain_pathToFileURL ''/app/node_modules/pkg/lib/x.js'') \<and>
   internalModuleStat exampleEnv (toNamespacedPath exampleEnv ''/app/node_modules/pkg/lib/x.js'') = 0"
proof -
  let ?enc = "\<lparr>href = ''file:///app/a%2Fb.js'', protocol = ''file:'',
      pathname = ''/app/a%2Fb.js'', search = [], hash = []\<rparr>"
  let ?b = "ParentString exampleBase"
  have b: "fileURLToPath_base exampleEnv ?b = Inr ''/app/index.js''"
    by code_simp
  have m: "RegExpPrototypeExec_notNull encodedSepRegEx (pathname ?enc)"
    by code_simp
  have r1: "finalizeResolution exampleEnv ?enc ?b False =
     ([], Inl (ERR_INVALID_MODULE_SPECIFIER (pathname ?enc)
                 ''must not include encoded separator characters''))"
    by (rule mp[OF conjunct1[OF mp[OF
          finalizeResolution_outcomes[of exampleEnv ?b "''/app/index.js''" ?enc False] b]] m])
  have r2: "finalizeResolution exampleEnv (plain_pathToFileURL ''/app/node_modules/pkg/lib'')
     ?b False = ([], Inl (ERR_UNSUPPORTED_DIR_IMPORT ''/app/node_modules/pkg/lib''))"
    by code_simp
  have r3: "finalizeResolution exampleEnv (plain_pathToFileURL ''/app/missing.js'') ?b
     False = ([], Inl (ERR_MODULE_NOT_FOUND ''/app/missing.js''))"
    by code_simp
  have r4: "snd (finalizeResolution exampleEnv
        (plain_pathToFileURL ''/app/node_modules/pkg/lib/x.js'') ?b False) =
     Inr (plain_pathToFileURL ''/app/node_modules/pkg/lib/x.js'')"
    by code_simp
  have r5: "internalModuleStat exampleEnv
      (toNamespacedPath exampleEnv ''/app/node_modules/pkg/lib/x.js'') = 0"
    by code_simp
  from b m r1 r2 r3 r4 r5 show ?thesis by simp
qed

text \<open>
  The claim as it is written fails in three ways. It promises the message whenever the
  variable is set: with the variable set and \<^verbatim>\<open>process.send\<close> undefined, a missing file
  throws \<^verbatim>\<open>ERR_MODULE_NOT_FOUND\<close> and nothing is sent. It promises the three errors for every
  base: when the importing module is the \<^verbatim>\<open>data:\<close> URL \<^verbatim>\<open>data:text/javascript,1\<close>, which
  \<^verbatim>\<open>fileURLToPath\<close> refuses, the error of that refusal is thrown in their place, for an
  encoded separator, for a directory and for a missing file, and so from \<^verbatim>\<open>defaultResolve\<close>.
  And it promises a probe whenever the pathname has no encoded separator: the pathname
  \<^verbatim>\<open>/app/%zz\<close> has none, its conversion to a path throws a \<^verbatim>\<open>URIError\<close>, and that is the
  outcome.
\<close>

theorem finalizeResolution_watch_counterexample:
  "WATCH_REPORT_DEPENDENCIES watchEnv \<and>
   finalizeResolution watchEnv (plain_pathToFileURL ''/app/missing.js'')
     (ParentString exampleBase) False =
     ([], Inl (ERR_MODULE_NOT_FOUND ''/app/missing.js'')) \<and>
   finalizeResolution exampleEnv
     \<lparr>href = ''file:///app/a%2Fb.js'', protocol = ''file:'', pathname = ''/app/a%2Fb.js'',
      search = [], hash = []\<rparr> (ParentString ''data:text/javascript,1'') False =
     ([], Inl (ExternalError ''ERR_INVALID_URL_SCHEME'')) \<and>
   finalizeResolution exampleEnv (plain_pathToFileURL ''/app/node_modules/pkg/lib'')
     (ParentString ''data:text/javascript,1'') False =
     ([], Inl (ExternalError ''ERR_INVALID_URL_SCHEME'')) \<and>
   finalizeResolution exampleEnv (plain_pathToFileURL ''/app/missing.js'')
     (ParentString ''data:text/javascript,1'') False =
     ([], Inl (ExternalError ''ERR_INVALID_URL_SCHEME'')) \<and>
   defaultResolve exampleEnv ''file:///app/missing.js''
     \<lparr>context_parentURL = ParentString ''data:text/javascript,1'',
      context_conditions = None\<rparr> =
     Some ([], Inl (ExternalError ''ERR_INVALID_URL_SCHEME'')) \<and>
   \<not> RegExpPrototypeExec_notNull encodedSepRegEx ''/app/%zz'' \<and>
   finalizeResolution exampleEnv
     \<lparr>href = ''file:///app/%zz'', protocol = ''file:'', pathname = ''/app/%zz'',
      search = [], hash = []\<rparr> (ParentString exampleBase) False =
     ([], Inl (ExternalError ''URIError'')) \<and>
   defaultResolve exampleEnv ''file:///app/%zz'' exampleContext =
     Some ([], Inl (ExternalError ''URIError''))"
  by code_simp

text \<open>
  When the path of the URL ends with \<^verbatim>\<open>/\<close>, the string that is probed is
  \<^verbatim>\<open>StringPrototypeSlice(path, -1)\<close>, which is the one character \<^verbatim>\<open>/\<close>, so that the outcome is
  decided by the status of \<^verbatim>\<open>/\<close> alone, whatever the file system has at the path: when
  \<^verbatim>\<open>/\<close> is a directory, the error \<^verbatim>\<open>ERR_UNSUPPORTED_DIR_IMPORT\<close> is built, from the path and
  from \<^verbatim>\<open>fileURLToPath(base)\<close>, and thrown unless that conversion throws.
\<close>

lemma finalizeResolution_probes_root:
  assumes "\<not> RegExpPrototypeExec_notNull encodedSepRegEx (pathname resolved)"
    and "fileURLToPath env resolved = Inr path"
    and "StringPrototypeEndsWith path ''/''"
  shows "StringPrototypeSliceFrom path (- 1) = ''/''"
    and "internalModuleStat env (toNamespacedPath env ''/'') = 1 \<Longrightarrow>
         finalizeResolution env resolved base preserve =
           ([], Inl (case fileURLToPath_base env base of
                       Inl e \<Rightarrow> e
                     | Inr basePath \<Rightarrow> ERR_UNSUPPORTED_DIR_IMPORT path))"
proof -
  from assms(3) show s: "StringPrototypeSliceFrom path (- 1) = ''/''" by (rule slice_last)
  assume "internalModuleStat env (toNamespacedPath env ''/'') = 1"
  then show "finalizeResolution env resolved base preserve =
           ([], Inl (case fileURLToPath_base env base of
                       Inl e \<Rightarrow> e
                     | Inr basePath \<Rightarrow> ERR_UNSUPPORTED_DIR_IMPORT path))"
    using assms s by (simp add: finalizeResolution_def Let_def)
qed

text \<open>
  Claim C10 says that, \<^verbatim>\<open>/\<close> being a directory, every resolution to a \<^verbatim>\<open>file:\<close> URL whose
  path ends with \<^verbatim>\<open>/\<close> fails with \<^verbatim>\<open>ERR_UNSUPPORTED_DIR_IMPORT\<close>. In the example \<^verbatim>\<open>/\<close> is a
  directory, \<^verbatim>\<open>/app/node_modules/pkg/lib/x.js/\<close> is not one, and the import of
  \<^verbatim>\<open>file:///app/node_modules/pkg/lib/x.js/\<close> from \<^verbatim>\<open>/app/index.js\<close> fails with that error. From
  the module \<^verbatim>\<open>data:text/javascript,1\<close> the same import fails with
  \<^verbatim>\<open>ERR_INVALID_URL_SCHEME\<close>: the error \<^verbatim>\<open>ERR_UNSUPPORTED_DIR_IMPORT\<close> is built from
  \<^verbatim>\<open>fileURLToPath(base)\<close>, which throws for a base that is not a \<^verbatim>\<open>file:\<close> URL.
\<close>

theorem trailing_slash_from_data_parent:
  "fileURLToPath exampleEnv (plain_pathToFileURL ''/app/node_modules/pkg/lib/x.js/'') =
     Inr ''/app/node_modules/pkg/lib/x.js/'' \<and>
   StringPrototypeEndsWith ''/app/node_modules/pkg/lib/x.js/'' ''/'' \<and>
   internalModuleStat exampleEnv (toNamespacedPath exampleEnv ''/'') = 1 \<and>
   internalModuleStat exampleEnv ''/app/node_modules/pkg/lib/x.js/'' \<noteq> 1 \<and>
   finalizeResolution exampleEnv (plain_pathToFileURL ''/app/node_modules/pkg/lib/x.js/'')
     (ParentString exampleBase) False =
     ([], Inl (ERR_UNSUPPORTED_DIR_IMPORT ''/app/node_modules/pkg/lib/x.js/'')) \<and>
   finalizeResolution exampleEnv (plain_pathToFileURL ''/app/node_modules/pkg/lib/x.js/'')
     (ParentString ''data:text/javascript,1'') False =
     ([], Inl (ExternalError ''ERR_INVALID_URL_SCHEME'')) \<and>
   defaultResolve exampleEnv ''file:///app/node_modules/pkg/lib/x.js/''
     \<lparr>context_parentURL = ParentString ''data:text/javascript,1'',
      context_conditions = None\<rparr> =
     Some ([], Inl (ExternalError ''ERR_INVALID_URL_SCHEME''))"
  by code_simp

section \<open>The empty specifier\<close>

text \<open>
  Claim C9 says that the empty specifier is refused as invalid. It is not: it is not
  taken for a relative or absolute path, it does not parse as a URL, and
  \<^verbatim>\<open>parsePackageName\<close> accepts it as the package with the empty name and the subpath
  \<^verbatim>\<open>.\<close> (the test \<^verbatim>\<open>specifier.length === 0\<close> of \<^verbatim>\<open>parsePackageName\<close> stands where the
  specifier begins with \<^verbatim>\<open>@\<close>). In the example the resolution goes on to the directory
  \<^verbatim>\<open>/app/node_modules/\<close> and ends with \<^verbatim>\<open>ERR_MODULE_NOT_FOUND\<close>.
\<close>

theorem empty_specifier_is_bare:
  "shouldBeTreatedAsRelativeOrAbsolutePath [] = False \<and>
   parsePackageName [] =
     Inr \<lparr>parsed_packageName = [], parsed_packageSubpath = ''.'', parsed_isScoped = False\<rparr> \<and>
   moduleResolve exampleEnv [] (ParentString exampleBase) {''import''} False =
     Some ([], Inl (ERR_MODULE_NOT_FOUND ''file:///app/node_modules//package.json''))"
  by code_simp

section \<open>Exports resolution\<close>

lemma includes_star: "StringPrototypeIncludes s (CHR ''*'') \<longleftrightarrow> CHR ''*'' \<in> set s"
  by (simp add: StringPrototypeIncludes_def StringPrototypeIndexOf_def index_from_eq)

lemma scan_no_match:
  "\<forall>k \<in> set keys. \<not> patternMatches k q \<Longrightarrow> patternScan q keys ([], None) = ([], None)"
  using patternScan_result[of keys q] by (simp split: if_splits)

text \<open>
  Claim C5. Let the exports field be well formed (\<^verbatim>\<open>isConditionalExportsMainSugar\<close> does
  not throw) and \<open>props\<close> be the properties of the exports object. When the subpath
  is a key of the object, contains no \<^verbatim>\<open>*\<close> and does not end with \<^verbatim>\<open>/\<close>, the result is
  that of resolving the target of that key with pattern mode off and the empty
  capture, whatever pattern keys the object has, and it is
  \<^verbatim>\<open>ERR_PACKAGE_PATH_NOT_EXPORTED\<close> when that resolution gives \<^verbatim>\<open>null\<close> or \<^verbatim>\<open>undefined\<close>. When
  the subpath is not such a key and no pattern key matches it,
  \<^verbatim>\<open>ERR_PACKAGE_PATH_NOT_EXPORTED\<close> is thrown.
\<close>

theorem packageExportsResolve_literal_first:
  "isConditionalExportsMainSugar (pexports packageConfig) packageJSONUrl = Inr sugar \<and>
   exportsObject (pexports packageConfig) sugar = Some props \<longrightarrow>
   (subpath \<in> set (map fst props) \<and> CHR ''*'' \<notin> set subpath \<and>
    \<not> StringPrototypeEndsWith subpath ''/'' \<longrightarrow>
      (\<exists>target.
         map_of props subpath = Some target \<and>
         packageExportsResolve env pr packageJSONUrl subpath packageConfig base conditions =
           orNotFound (ERR_PACKAGE_PATH_NOT_EXPORTED subpath)
             (resolvePackageTarget env pr packageJSONUrl target [] subpath base False False
                False conditions) \<and>
         (resolvePackageTarget env pr packageJSONUrl target [] subpath base False False False
            conditions \<in> {Return Null, Return Undefined} \<longrightarrow>
          packageExportsResolve env pr packageJSONUrl subpath packageConfig base conditions =
            Throw (ERR_PACKAGE_PATH_NOT_EXPORTED subpath)))) \<and>
   ((subpath \<notin> set (map fst props) \<or> CHR ''*'' \<in> set subpath \<or>
     StringPrototypeEndsWith subpath ''/'') \<and>
    (\<forall>k \<in> set (map fst props). \<not> patternMatches k subpath) \<longrightarrow>
      packageExportsResolve env pr packageJSONUrl subpath packageConfig base conditions =
        Throw (ERR_PACKAGE_PATH_NOT_EXPORTED subpath))"
proof (intro impI conjI)
  assume a: "isConditionalExportsMainSugar (pexports packageConfig) packageJSONUrl = Inr sugar \<and>
   exportsObject (pexports packageConfig) sugar = Some props"
  assume l: "subpath \<in> set (map fst props) \<and> CHR ''*'' \<notin> set subpath \<and>
    \<not> StringPrototypeEndsWith subpath ''/''"
  from l have "map_of props subpath \<noteq> None"
    by (simp add: map_of_eq_None_iff)
  then obtain target where t: "map_of props subpath = Some target" by blast
  have e: "packageExportsResolve env pr packageJSONUrl subpath packageConfig base conditions =
           orNotFound (ERR_PACKAGE_PATH_NOT_EXPORTED subpath)
             (resolvePackageTarget env pr packageJSONUrl target [] subpath base False False
                False conditions)"
    using a l t by (simp add: packageExportsResolve_def includes_star exportsNotFound_def)
  have n: "resolvePackageTarget env pr packageJSONUrl target [] subpath base False False False
            conditions \<in> {Return Null, Return Undefined} \<longrightarrow>
          packageExportsResolve env pr packageJSONUrl subpath packageConfig base conditions =
            Throw (ERR_PACKAGE_PATH_NOT_EXPORTED subpath)"
    unfolding e by auto
  from t e n show "\<exists>target.
         map_of props subpath = Some target \<and>
         packageExportsResolve env pr packageJSONUrl subpath packageConfig base conditions =
           orNotFound (ERR_PACKAGE_PATH_NOT_EXPORTED subpath)
             (resolvePackageTarget env pr packageJSONUrl target [] subpath base False False
                False conditions) \<and>
         (resolvePackageTarget env pr packageJSONUrl target [] subpath base False False False
            conditions \<in> {Return Null, Return Undefined} \<longrightarrow>
          packageExportsResolve env pr packageJSONUrl subpath packageConfig base conditions =
            Throw (ERR_PACKAGE_PATH_NOT_EXPORTED subpath))"
    by blast
next
  assume a: "isConditionalExportsMainSugar (pexports packageConfig) packageJSONUrl = Inr sugar \<and>
   exportsObject (pexports packageConfig) sugar = Some props"
  assume n: "(subpath \<notin> set (map fst props) \<or> CHR ''*'' \<in> set subpath \<or>
     StringPrototypeEndsWith subpath ''/'') \<and>
    (\<forall>k \<in> set (map fst props). \<not> patternMatches k subpath)"
  then have s: "patternScan subpath (map fst props) ([], None) = ([], None)"
    by (simp add: scan_no_match)
  from n have c: "\<not> (subpath \<in> set (map fst props) \<and>
                 \<not> StringPrototypeIncludes subpath (CHR ''*'') \<and>
                 \<not> StringPrototypeEndsWith subpath ''/'')"
    by (auto simp: includes_star)
  show "packageExportsResolve env pr packageJSONUrl subpath packageConfig base conditions =
        Throw (ERR_PACKAGE_PATH_NOT_EXPORTED subpath)"
    using a c s
    by (simp only: packageExportsResolve_def sum.case option.case if_False prod.case
          exportsNotFound_def) simp
qed

text \<open>In the package of the example, whose exports have the pattern key \<^verbatim>\<open>./*\<close>, the
  subpath \<^verbatim>\<open>./x\<close> resolves through its own key to \<^verbatim>\<open>lib/x.js\<close>, not through the pattern
  to \<^verbatim>\<open>src/x\<close>, and the subpath \<^verbatim>\<open>./blocked\<close>, whose target is \<^verbatim>\<open>null\<close>, is not exported. In a
  package with the only key \<^verbatim>\<open>./x\<close> the subpath \<^verbatim>\<open>./y\<close> is not exported.\<close>

theorem packageExportsResolve_literal_first_witness:
  "isConditionalExportsMainSugar (pexports examplePackage) examplePackageJSONUrl = Inr False \<and>
   patternMatches ''./*'' ''./x'' \<and>
   packageExportsResolve exampleEnv (packageResolve exampleEnv) examplePackageJSONUrl ''./x''
     examplePackage (Some exampleBase) {''import''} =
     Return \<lparr>href = ''file:///app/node_modules/pkg/lib/x.js'', protocol = ''file:'',
             pathname = ''/app/node_modules/pkg/lib/x.js'', search = [], hash = []\<rparr> \<and>
   packageExportsResolve exampleEnv (packageResolve exampleEnv) examplePackageJSONUrl
     ''./blocked'' examplePackage (Some exampleBase) {''import''} =
     Throw (ERR_PACKAGE_PATH_NOT_EXPORTED ''./blocked'') \<and>
   packageExportsResolve exampleEnv (packageResolve exampleEnv) examplePackageJSONUrl ''./y''
     smallPackage (Some exampleBase) {''import''} =
     Throw (ERR_PACKAGE_PATH_NOT_EXPORTED ''./y'')"
proof -
  let ?props = "[(''.'', TMap [(''node'', TString ''./n.js''), (''default'', TString ''./d.js'')]),
           (''./x'', TString ''./lib/x.js''),
           (''./blocked'', TNull),
           (''./*'', TString ''./src/*'')]"
  let ?u = "\<lparr>href = ''file:///app/node_modules/pkg/lib/x.js'', protocol = ''file:'',
             pathname = ''/app/node_modules/pkg/lib/x.js'', search = [], hash = []\<rparr>"
  let ?R = "\<lambda>target subpath. resolvePackageTarget exampleEnv (packageResolve exampleEnv)
      examplePackageJSONUrl target [] subpath (Some exampleBase) False False False {''import''}"
  have h: "isConditionalExportsMainSugar (pexports examplePackage) examplePackageJSONUrl = Inr False \<and>
     exportsObject (pexports examplePackage) False = Some ?props"
    by code_simp
  have m: "patternMatches ''./*'' ''./x''"
    by code_simp
  have l1: "''./x'' \<in> set (map fst ?props) \<and> CHR ''*'' \<notin> set ''./x'' \<and>
    \<not> StringPrototypeEndsWith ''./x'' ''/''"
    by code_simp
  have l2: "''./blocked'' \<in> set (map fst ?props) \<and> CHR ''*'' \<notin> set ''./blocked'' \<and>
    \<not> StringPrototypeEndsWith ''./blocked'' ''/''"
    by code_simp
  note T1 = packageExportsResolve_literal_first[where packageConfig = examplePackage
      and packageJSONUrl = examplePackageJSONUrl and sugar = False and props = ?props
      and subpath = "''./x''" and env = exampleEnv and pr = "packageResolve exampleEnv"
      and base = "Some exampleBase" and conditions = "{''import''}"]
  note T2 = packageExportsResolve_literal_first[where packageConfig = examplePackage
      and packageJSONUrl = examplePackageJSONUrl and sugar = False and props = ?props
      and subpath = "''./blocked''" and env = exampleEnv and pr = "packageResolve exampleEnv"
      and base = "Some exampleBase" and conditions = "{''import''}"]
  from mp[OF conjunct1[OF mp[OF T1 h]] l1] obtain target where
    t1: "map_of ?props ''./x'' = Some target" and
    e1: "packageExportsResolve exampleEnv (packageResolve exampleEnv) examplePackageJSONUrl
           ''./x'' examplePackage (Some exampleBase) {''import''} =
         orNotFound (ERR_PACKAGE_PATH_NOT_EXPORTED ''./x'') (?R target ''./x'')"
    by blast
  from t1 have "target = TString ''./lib/x.js''" by simp
  moreover have "?R (TString ''./lib/x.js'') ''./x'' = Return (Resolved ?u)"
    by code_simp
  ultimately have r1: "packageExportsResolve exampleEnv (packageResolve exampleEnv)
      examplePackageJSONUrl ''./x'' examplePackage (Some exampleBase) {''import''} = Return ?u"
    using e1 by simp
  from mp[OF conjunct1[OF mp[OF T2 h]] l2] obtain target2 where
    t2: "map_of ?props ''./blocked'' = Some target2" and
    n2: "?R target2 ''./blocked'' \<in> {Return Null, Return Undefined} \<longrightarrow>
         packageExportsResolve exampleEnv (packageResolve exampleEnv) examplePackageJSONUrl
           ''./blocked'' examplePackage (Some exampleBase) {''import''} =
         Throw (ERR_PACKAGE_PATH_NOT_EXPORTED ''./blocked'')"
    by blast
  from t2 have "target2 = TNull" by simp
  moreover have "?R TNull ''./blocked'' = Return Null"
    by (simp add: resolvePackageTarget_def)
  ultimately have r2: "packageExportsResolve exampleEnv (packageResolve exampleEnv)
      examplePackageJSONUrl ''./blocked'' examplePackage (Some exampleBase) {''import''} =
         Throw (ERR_PACKAGE_PATH_NOT_EXPORTED ''./blocked'')"
    using n2 by simp
  let ?small = "[(''./x'', TString ''./lib/x.js'')]"
  have h3: "isConditionalExportsMainSugar (pexports smallPackage) examplePackageJSONUrl = Inr False \<and>
     exportsObject (pexports smallPackage) False = Some ?small"
    by code_simp
  have l3: "(''./y'' \<notin> set (map fst ?small) \<or> CHR ''*'' \<in> set ''./y'' \<or>
     StringPrototypeEndsWith ''./y'' ''/'') \<and>
    (\<forall>k \<in> set (map fst ?small). \<not> patternMatches k ''./y'')"
    by code_simp
  note T3 = packageExportsResolve_literal_first[where packageConfig = smallPackage
      and packageJSONUrl = examplePackageJSONUrl and sugar = False and props = ?small
      and subpath = "''./y''" and env = exampleEnv and pr = "packageResolve exampleEnv"
      and base = "Some exampleBase" and conditions = "{''import''}"]
  have r3: "packageExportsResolve exampleEnv (packageResolve exampleEnv)
      examplePackageJSONUrl ''./y'' smallPackage (Some exampleBase) {''import''} =
      Throw (ERR_PACKAGE_PATH_NOT_EXPORTED ''./y'')"
    by (rule mp[OF conjunct2[OF mp[OF T3 h3]] l3])
  from h m r1 r2 r3 show ?thesis by simp
qed

section \<open>URLs that are not file URLs\<close>

text \<open>
  Claim C8, as amended. Let the parent URL be \<^verbatim>\<open>undefined\<close>, a string or a \<^verbatim>\<open>URL\<close>, let
  the policy neither redirect the specifier nor throw, and let the specifier parse as
  the URL \<open>p\<close>. When the scheme of \<open>p\<close> is \<^verbatim>\<open>data:\<close>, \<^verbatim>\<open>defaultResolve\<close> returns the \<^verbatim>\<open>href\<close> of
  \<open>p\<close>, which is the specifier when the specifier is written as the URL is serialized.
  When the scheme is \<^verbatim>\<open>node:\<close> and the parent is not an \<^verbatim>\<open>http:\<close> or \<^verbatim>\<open>https:\<close> URL, it returns
  the specifier itself. And when the URL that \<^verbatim>\<open>moduleResolve\<close> has resolved does not have
  the scheme \<^verbatim>\<open>file:\<close>, \<^verbatim>\<open>moduleResolve\<close> returns it as it is, without finalization and
  without a message.
\<close>

theorem non_file_urls_pass_through:
  "(throwIfInvalidParentURL (context_parentURL ctx) = None \<and>
    policyStep env specifier ctx = Inr None \<and>
    defaultResolve_parsed env specifier ctx = Some p \<longrightarrow>
      (protocol p = ''data:'' \<longrightarrow>
         defaultResolve env specifier ctx =
           Some ([], Inr \<lparr>result_url = href p, result_format = None\<rparr>)) \<and>
      (protocol p = ''node:'' \<and> \<not> remoteParent env ctx \<longrightarrow>
         defaultResolve env specifier ctx =
           Some ([], Inr \<lparr>result_url = specifier, result_format = None\<rparr>))) \<and>
   (base_href base = Some baseHref \<and>
    moduleResolve_resolved env specifier baseHref
      (base_protocol base = Some ''http:'' \<or> base_protocol base = Some ''https:'')
      conditions = Return resolved \<and>
    protocol resolved \<noteq> ''file:'' \<longrightarrow>
      moduleResolve env specifier base conditions preserve = Some ([], Inr resolved))"
proof (intro conjI impI)
  assume a: "throwIfInvalidParentURL (context_parentURL ctx) = None \<and>
    policyStep env specifier ctx = Inr None \<and>
    defaultResolve_parsed env specifier ctx = Some p"
  assume d: "protocol p = ''data:''"
  show "defaultResolve env specifier ctx =
           Some ([], Inr \<lparr>result_url = href p, result_format = None\<rparr>)"
    using a d by (simp add: defaultResolve_def Let_def)
next
  assume a: "throwIfInvalidParentURL (context_parentURL ctx) = None \<and>
    policyStep env specifier ctx = Inr None \<and>
    defaultResolve_parsed env specifier ctx = Some p"
  assume n: "protocol p = ''node:'' \<and> \<not> remoteParent env ctx"
  have c: "checkIfDisallowedImport env specifier (Some p)
             (defaultResolve_parsedParentURL env ctx) = Inr None"
    using n by (auto simp: checkIfDisallowedImport_def remoteParent_def split: option.splits)
  show "defaultResolve env specifier ctx =
           Some ([], Inr \<lparr>result_url = specifier, result_format = None\<rparr>)"
    using a n c by (simp add: defaultResolve_def Let_def)
next
  assume "base_href base = Some baseHref \<and>
    moduleResolve_resolved env specifier baseHref
      (base_protocol base = Some ''http:'' \<or> base_protocol base = Some ''https:'')
      conditions = Return resolved \<and>
    protocol resolved \<noteq> ''file:''"
  then show "moduleResolve env specifier base conditions preserve = Some ([], Inr resolved)"
    by (simp add: moduleResolve_def Let_def)
qed

text \<open>In the example, \<^verbatim>\<open>data:text/javascript,1\<close> and \<^verbatim>\<open>node:fs\<close> are returned as they are.\<close>

theorem non_file_urls_pass_through_witness:
  "throwIfInvalidParentURL (context_parentURL exampleContext) = None \<and>
   policyStep exampleEnv ''node:fs'' exampleContext = Inr None \<and>
   \<not> remoteParent exampleEnv exampleContext \<and>
   defaultResolve exampleEnv ''data:text/javascript,1'' exampleContext =
     Some ([], Inr \<lparr>result_url = ''data:text/javascript,1'', result_format = None\<rparr>) \<and>
   defaultResolve exampleEnv ''node:fs'' exampleContext =
     Some ([], Inr \<lparr>result_url = ''node:fs'', result_format = None\<rparr>) \<and>
   moduleResolve exampleEnv ''node:fs'' (ParentString exampleBase) {''import''} False =
     Some ([], Inr \<lparr>href = ''node:fs'', protocol = ''node:'', pathname = ''fs'', search = [],
                     hash = []\<rparr>)"
proof -
  let ?data = "\<lparr>href = ''data:text/javascript,1'', protocol = ''data:'',
      pathname = ''text/javascript,1'', search = [], hash = []\<rparr>"
  let ?node = "\<lparr>href = ''node:fs'', protocol = ''node:'', pathname = ''fs'', search = [],
      hash = []\<rparr>"
  have v: "throwIfInvalidParentURL (context_parentURL exampleContext) = None"
    by code_simp
  have p1: "policyStep exampleEnv ''data:text/javascript,1'' exampleContext = Inr None"
    by code_simp
  have p2: "policyStep exampleEnv ''node:fs'' exampleContext = Inr None"
    by code_simp
  have d1: "defaultResolve_parsed exampleEnv ''data:text/javascript,1'' exampleContext = Some ?data"
    by code_simp
  have d2: "defaultResolve_parsed exampleEnv ''node:fs'' exampleContext = Some ?node"
    by code_simp
  have nr: "\<not> remoteParent exampleEnv exampleContext"
    by code_simp
  have m: "base_href (ParentString exampleBase) = Some exampleBase \<and>
    moduleResolve_resolved exampleEnv ''node:fs'' exampleBase
      (base_protocol (ParentString exampleBase) = Some ''http:'' \<or>
       base_protocol (ParentString exampleBase) = Some ''https:'') {''import''} = Return ?node \<and>
    protocol ?node \<noteq> ''file:''"
    by code_simp
  note T1 = non_file_urls_pass_through[where ctx = exampleContext and env = exampleEnv
      and specifier = "''data:text/javascript,1''" and p = ?data]
  note T2 = non_file_urls_pass_through[where ctx = exampleContext and env = exampleEnv
      and specifier = "''node:fs''" and p = ?node and base = "ParentString exampleBase"
      and baseHref = exampleBase and conditions = "{''import''}" and resolved = ?node
      and preserve = False]
  have r1: "defaultResolve exampleEnv ''data:text/javascript,1'' exampleContext =
     Some ([], Inr \<lparr>result_url = href ?data, result_format = None\<rparr>)"
    by (rule mp[OF conjunct1[OF mp[OF conjunct1[OF T1] conjI[OF v conjI[OF p1 d1]]]]]) simp
  have r2: "defaultResolve exampleEnv ''node:fs'' exampleContext =
     Some ([], Inr \<lparr>result_url = ''node:fs'', result_format = None\<rparr>)"
    by (rule mp[OF conjunct2[OF mp[OF conjunct1[OF T2] conjI[OF v conjI[OF p2 d2]]]]])
       (simp add: nr)
  have r3: "moduleResolve exampleEnv ''node:fs'' (ParentString exampleBase) {''import''} False =
     Some ([], Inr ?node)"
    by (rule mp[OF conjunct2[OF T2] m])
  from v p2 nr r1 r2 r3 show ?thesis by simp
qed

text \<open>
  The claim as it is written says that the URL returned for a \<^verbatim>\<open>data:\<close> or \<^verbatim>\<open>node:\<close>
  specifier is the specifier, whatever the parent and the policy are. It is not so in
  four ways. A \<^verbatim>\<open>data:\<close> specifier that ends with a newline, or whose scheme is written
  \<^verbatim>\<open>DATA:\<close>, is returned as the parser serializes it, without the newline and with the
  scheme \<^verbatim>\<open>data:\<close>. Under a policy that redirects, the URL of the redirection is returned
  for both specifiers, and under a policy whose reaction throws, its error is thrown.
  A parent that is neither a string nor a \<^verbatim>\<open>URL\<close> is refused with \<^verbatim>\<open>ERR_INVALID_ARG_TYPE\<close>.
  And from a module loaded over \<^verbatim>\<open>https:\<close> the specifier \<^verbatim>\<open>node:fs\<close> is refused with
  \<^verbatim>\<open>ERR_NETWORK_IMPORT_DISALLOWED\<close>, while a \<^verbatim>\<open>data:\<close> specifier is returned.
\<close>

theorem data_and_node_url_counterexample:
  "defaultResolve exampleEnv (''data:text/javascript,1'' @ [CHR 0x0A]) exampleContext =
     Some ([], Inr \<lparr>result_url = ''data:text/javascript,1'', result_format = None\<rparr>) \<and>
   ''data:text/javascript,1'' \<noteq> ''data:text/javascript,1'' @ [CHR 0x0A] \<and>
   defaultResolve exampleEnv ''DATA:text/javascript,1'' exampleContext =
     Some ([], Inr \<lparr>result_url = ''data:text/javascript,1'', result_format = None\<rparr>) \<and>
   ''data:text/javascript,1'' \<noteq> ''DATA:text/javascript,1'' \<and>
   defaultResolve redirectEnv ''data:text/javascript,1'' exampleContext =
     Some ([], Inr \<lparr>result_url = ''file:///app/other.js'', result_format = None\<rparr>) \<and>
   defaultResolve redirectEnv ''node:fs'' exampleContext =
     Some ([], Inr \<lparr>result_url = ''file:///app/other.js'', result_format = None\<rparr>) \<and>
   defaultResolve strictEnv ''data:text/javascript,1'' importContext =
     Some ([], Inl (ERR_MANIFEST_DEPENDENCY_MISSING exampleBase ''data:text/javascript,1'')) \<and>
   defaultResolve strictEnv ''node:fs'' importContext =
     Some ([], Inl (ERR_MANIFEST_DEPENDENCY_MISSING exampleBase ''node:fs'')) \<and>
   defaultResolve exampleEnv ''data:text/javascript,1''
     \<lparr>context_parentURL = ParentOther, context_conditions = None\<rparr> =
     Some ([], Inl (ERR_INVALID_ARG_TYPE ''parentURL'')) \<and>
   defaultResolve exampleEnv ''node:fs''
     \<lparr>context_parentURL = ParentOther, context_conditions = None\<rparr> =
     Some ([], Inl (ERR_INVALID_ARG_TYPE ''parentURL'')) \<and>
   defaultResolve exampleEnv ''node:fs'' remoteContext =
     Some ([], Inl (ERR_NETWORK_IMPORT_DISALLOWED ''node:fs''
                      ''only relative and absolute specifiers are supported.'')) \<and>
   defaultResolve exampleEnv ''data:text/javascript,1'' remoteContext =
     Some ([], Inr \<lparr>result_url = ''data:text/javascript,1'', result_format = None\<rparr>)"
  by code_simp

section \<open>The package boundary\<close>

text \<open>
  What \<^verbatim>\<open>resolvePackageTargetString\<close> checks: for a target that begins with \<^verbatim>\<open>./\<close>, the URL of
  the target resolved against the package.json has a pathname that begins with the
  pathname of the directory of the package.json, or \<^verbatim>\<open>ERR_INVALID_PACKAGE_TARGET\<close> is
  thrown; with the empty capture that URL is the result.
\<close>

lemma resolvePackageTargetString_checked:
  assumes "StringPrototypeStartsWith target ''./''"
    and "URL_new env target (Some (href packageJSONUrl)) = Inr resolved"
    and "URL_new env ''.'' (Some (href packageJSONUrl)) = Inr packageDir"
  shows "(\<not> StringPrototypeStartsWith (pathname resolved) (pathname packageDir) \<longrightarrow>
            resolvePackageTargetString env pr target [] match packageJSONUrl base pattern
              internal isPathMap conditions =
            Throw (ERR_INVALID_PACKAGE_TARGET match (TString target))) \<and>
         (\<forall>u. resolvePackageTargetString env pr target [] match packageJSONUrl base pattern
                internal isPathMap conditions = Return u \<longrightarrow>
              u = resolved \<and> StringPrototypeStartsWith (pathname u) (pathname packageDir))"
  using assms
  by (auto simp: resolvePackageTargetString_def invalidPackageTarget_def Let_def
           split: if_splits)

text \<open>
  Claim C4 says that every \<^verbatim>\<open>file:\<close> URL returned by exports resolution, also after the
  substitution of the capture of a pattern, lies in the directory of the package. The
  code checks the URL before the substitution, and the capture against
  \<^verbatim>\<open>invalidSegmentRegEx\<close>; the URL after the substitution is not checked. In the example
  package \<^verbatim>\<open>/app/node_modules/pkg\<close> with the exports \<^verbatim>\<open>"./*": "./src/*"\<close>, the capture
  \<^verbatim>\<open>.<TAB>./.<TAB>./secret.js\<close> has no segment that the expression matches; the URL
  constructor removes the tabs and then resolves the two \<^verbatim>\<open>..\<close>: the result is
  \<^verbatim>\<open>/app/node_modules/secret.js\<close>, outside the package, and \<^verbatim>\<open>defaultResolve\<close> returns it.
  With the exports \<^verbatim>\<open>"./*": "./*"\<close> the capture \<^verbatim>\<open>..?x\<close> gives \<^verbatim>\<open>/app/node_modules/\<close>.
\<close>

theorem exports_pattern_leaves_package:
  "pathname (plain_pathToFileURL ''/app/node_modules/pkg/'') = ''/app/node_modules/pkg/'' \<and>
   packageExportsResolve exampleEnv (packageResolve exampleEnv) examplePackageJSONUrl
     (''./.'' @ [CHR 0x09] @ ''./.'' @ [CHR 0x09] @ ''./secret.js'') examplePackage
     (Some exampleBase) {''import''} =
     Return \<lparr>href = ''file:///app/node_modules/secret.js'', protocol = ''file:'',
             pathname = ''/app/node_modules/secret.js'', search = [], hash = []\<rparr> \<and>
   \<not> StringPrototypeStartsWith ''/app/node_modules/secret.js'' ''/app/node_modules/pkg/'' \<and>
   defaultResolve exampleEnv
     (''pkg/.'' @ [CHR 0x09] @ ''./.'' @ [CHR 0x09] @ ''./secret.js'') exampleContext =
     Some ([], Inr \<lparr>result_url = ''file:///app/node_modules/secret.js'',
                     result_format = None\<rparr>) \<and>
   packageExportsResolve exampleEnv (packageResolve exampleEnv) examplePackageJSONUrl
     ''./..?x'' mirrorPackage (Some exampleBase) {''import''} =
     Return \<lparr>href = ''file:///app/node_modules/?x'', protocol = ''file:'',
             pathname = ''/app/node_modules/'', search = ''?x'', hash = []\<rparr> \<and>
   \<not> StringPrototypeStartsWith ''/app/node_modules/'' ''/app/node_modules/pkg/''"
  by code_simp

section \<open>The parameter of the package resolution\<close>

text \<open>
  \<^verbatim>\<open>resolvePackageTargetString\<close> calls \<^verbatim>\<open>packageResolve\<close> only when \<^verbatim>\<open>internal\<close> is true, and
  exports resolution passes \<^verbatim>\<open>internal\<close> as false: the function given for \<^verbatim>\<open>packageResolve\<close>
  plays no role in exports resolution, nor in the loop of \<^verbatim>\<open>packageResolve\<close> and in
  \<^verbatim>\<open>packageResolve\<close> itself.
\<close>

lemma resolvePackageTargetString_external:
  "resolvePackageTargetString env pr target subpath match packageJSONUrl base pattern False
     isPathMap conditions =
   resolvePackageTargetString env pr' target subpath match packageJSONUrl base pattern False
     isPathMap conditions"
  by (simp add: resolvePackageTargetString_def)

lemma resolvePackageTarget_external:
  "resolvePackageTarget env pr packageJSONUrl target subpath packageSubpath base pattern False
     isPathMap conditions =
   resolvePackageTarget env pr' packageJSONUrl target subpath packageSubpath base pattern False
     isPathMap conditions"
proof -
  have "(\<lambda>t. resolvePackageTargetString env pr t subpath packageSubpath packageJSONUrl base
              pattern False isPathMap conditions) =
        (\<lambda>t. resolvePackageTargetString env pr' t subpath packageSubpath packageJSONUrl base
              pattern False isPathMap conditions)"
    by (rule ext) (rule resolvePackageTargetString_external)
  then show ?thesis by (simp only: resolvePackageTarget_def)
qed

lemma packageExportsResolve_param:
  "packageExportsResolve env pr packageJSONUrl packageSubpath packageConfig base conditions =
   packageExportsResolve env pr' packageJSONUrl packageSubpath packageConfig base conditions"
proof -
  have e: "\<And>target subpath match pattern isPathMap.
     resolvePackageTarget env pr packageJSONUrl target subpath match base pattern False
       isPathMap conditions =
     resolvePackageTarget env pr' packageJSONUrl target subpath match base pattern False
       isPathMap conditions"
    by (rule resolvePackageTarget_external)
  show ?thesis
    unfolding packageExportsResolve_def by (simp only: e)
qed

lemma packageResolve_loop_param_Some:
  assumes "packageResolve_loop env pr specifier base conditions parsed packageJSONUrl
             packageJSONPath = Some r"
  shows "packageResolve_loop env pr' specifier base conditions parsed packageJSONUrl
           packageJSONPath = Some r"
proof -
  have "\<forall>pr'. packageResolve_loop env pr' specifier base conditions parsed packageJSONUrl
                packageJSONPath = Some r"
  proof (rule packageResolve_loop.raw_induct[where P = "\<lambda>env pr specifier base conditions
            parsed packageJSONUrl packageJSONPath r.
            \<forall>pr'. packageResolve_loop env pr' specifier base conditions parsed packageJSONUrl
                    packageJSONPath = Some r", OF _ assms], goal_cases)
    case (1 loop env pr specifier base conditions parsed packageJSONUrl packageJSONPath r)
    show ?case
    proof
      fix pr'
      have e: "\<And>u s c. packageExportsResolve env pr u s c (Some base) conditions =
                       packageExportsResolve env pr' u s c (Some base) conditions"
        by (rule packageExportsResolve_param)
      have IH: "\<And>u p y. loop env pr specifier base conditions parsed u p = Some y \<Longrightarrow>
                  packageResolve_loop env pr' specifier base conditions parsed u p = Some y"
        using 1(1) by blast
      show "packageResolve_loop env pr' specifier base conditions parsed packageJSONUrl
              packageJSONPath = Some r"
        apply (subst packageResolve_loop.simps)
        using 1(2) IH
        by (auto simp: Let_def e split: sum.splits if_splits)
    qed
  qed
  then show ?thesis by simp
qed

lemma packageResolve_loop_param:
  "packageResolve_loop env pr specifier base conditions parsed packageJSONUrl packageJSONPath =
   packageResolve_loop env pr' specifier base conditions parsed packageJSONUrl packageJSONPath"
proof (cases "packageResolve_loop env pr specifier base conditions parsed packageJSONUrl
                packageJSONPath")
  case None
  show ?thesis
  proof (cases "packageResolve_loop env pr' specifier base conditions parsed packageJSONUrl
                  packageJSONPath")
    case None
    with \<open>packageResolve_loop env pr specifier base conditions parsed packageJSONUrl
            packageJSONPath = None\<close> show ?thesis by simp
  next
    case (Some r)
    then have "packageResolve_loop env pr specifier base conditions parsed packageJSONUrl
                 packageJSONPath = Some r"
      by (rule packageResolve_loop_param_Some)
    with Some show ?thesis by simp
  qed
next
  case (Some r)
  then have "packageResolve_loop env pr' specifier base conditions parsed packageJSONUrl
               packageJSONPath = Some r"
    by (rule packageResolve_loop_param_Some)
  with Some show ?thesis by simp
qed

lemma packageResolve_with_param:
  "packageResolve_with env pr specifier base conditions =
   packageResolve env specifier base conditions"
proof -
  let ?none = "\<lambda>specifier base conditions. None :: URL completion"
  have e: "\<And>u s c. packageExportsResolve env pr u s c (Some base) conditions =
                   packageExportsResolve env ?none u s c (Some base) conditions"
    by (rule packageExportsResolve_param)
  have l: "\<And>parsed u p. packageResolve_loop env pr specifier base conditions parsed u p =
                       packageResolve_loop env ?none specifier base conditions parsed u p"
    by (rule packageResolve_loop_param)
  show ?thesis
    unfolding packageResolve_def packageResolve_with_def
    by (simp add: e l cong: if_cong sum.case_cong)
qed

end
